(* ===== verification/Prelude.thy ===== *)
theory Prelude
  imports Main
begin

text \<open>
  Shared vocabulary of the ResNet development. In the shape model a tensor is its
  shape (a list of dimension sizes); theory Tensor adds its values. Every Python exception the script or the PyTorch layers it calls can
  raise is a value of \<open>error\<close>, and a computation that may raise returns
  \<open>'a result\<close>, with \<open>Inl\<close> the exception. \<open>rbind\<close> sequences two such
  computations the way consecutive Python statements do: the first exception stops
  the rest. \<open>ConfigError stage index\<close> is the configuration error spec section 7
  asks a construction-time check to raise, naming the offending stage and block; the
  script itself never raises it.
\<close>

named_theorems shape_simps "equations that evaluate shape computations"

datatype error =
    RuntimeError string
  | ValueError string
  | AttributeError string
  | NameError string
  | IndexError string
  | ConfigError string nat

type_synonym 'a result = "error + 'a"

type_synonym shape = "nat list"

definition rbind :: "'a result \<Rightarrow> ('a \<Rightarrow> 'b result) \<Rightarrow> 'b result" where
  "rbind r f = (case r of Inl e \<Rightarrow> Inl e | Inr a \<Rightarrow> f a)"

definition is_error :: "'a result \<Rightarrow> bool" where
  "is_error r = (case r of Inl _ \<Rightarrow> True | Inr _ \<Rightarrow> False)"

text \<open>Python indexing \<open>xs[i]\<close> with a non-negative index.\<close>

definition py_index :: "'a list \<Rightarrow> nat \<Rightarrow> 'a result" where
  "py_index xs i = (if i < length xs then Inr (xs ! i) else Inl (IndexError ''list index out of range''))"

text \<open>
  A stride-2 convolution or pooling with the padding used here maps a spatial size
  \<open>h \<ge> 1\<close> to \<open>(h - 1) div 2 + 1\<close>, the rounded-up half of \<open>h\<close>.
\<close>

definition half_up :: "nat \<Rightarrow> nat" where
  "half_up h = (h - 1) div 2 + 1"

subsection \<open>Lemmas on results\<close>

lemma rbind_Inl [simp]: "rbind (Inl e) f = Inl e"
  by (simp add: rbind_def)

lemma rbind_Inr [simp]: "rbind (Inr a) f = f a"
  by (simp add: rbind_def)

lemma rbind_eq_Inr_iff: "rbind r f = Inr b \<longleftrightarrow> (\<exists>a. r = Inr a \<and> f a = Inr b)"
  by (cases r) simp_all

lemma rbind_eq_Inl_iff: "rbind r f = Inl e \<longleftrightarrow> r = Inl e \<or> (\<exists>a. r = Inr a \<and> f a = Inl e)"
  by (cases r) auto

lemma rbind_assoc: "rbind (rbind r f) g = rbind r (\<lambda>a. rbind (f a) g)"
  by (cases r) simp_all

lemma rbind_cong:
  "r = r' \<Longrightarrow> (\<And>a. r' = Inr a \<Longrightarrow> f a = g a) \<Longrightarrow> rbind r f = rbind r' g"
  by (cases r') simp_all

lemma is_error_simps [simp]: "is_error (Inl e) = True" "is_error (Inr a) = False"
  by (simp_all add: is_error_def)

lemma is_error_iff: "is_error r \<longleftrightarrow> (\<exists>e. r = Inl e)"
  by (cases r) simp_all

lemma is_error_rbind:
  "is_error (rbind r f) \<longleftrightarrow> is_error r \<or> (\<exists>a. r = Inr a \<and> is_error (f a))"
  by (cases r) simp_all

lemma is_error_rbind_first: "is_error r \<Longrightarrow> is_error (rbind r f)"
  by (cases r) simp_all

lemma is_error_rbindI:
  "(\<And>a. r = Inr a \<Longrightarrow> is_error (f a)) \<Longrightarrow> is_error (rbind r f)"
  by (cases r) simp_all

lemma length_4_conv: "length xs = 4 \<longleftrightarrow> (\<exists>a b c d. xs = [a, b, c, d])"
  by (auto simp: numeral_eq_Suc length_Suc_conv)

lemma py_index_Inr [simp]: "i < length xs \<Longrightarrow> py_index xs i = Inr (xs ! i)"
  by (simp add: py_index_def)

lemma py_index_Inl [simp]:
  "length xs \<le> i \<Longrightarrow> py_index xs i = Inl (IndexError ''list index out of range'')"
  by (simp add: py_index_def)

subsection \<open>Halving with rounding up\<close>

text \<open>Five halvings give the rounded-up quotient by 32.\<close>

lemma half_up_pos [simp]: "0 < half_up h"
  by (simp add: half_up_def)

lemma half_up_le: "0 < h \<Longrightarrow> half_up h \<le> h"
  by (simp add: half_up_def)

lemma half_up_eq: "1 \<le> h \<Longrightarrow> half_up h = (h + 1) div 2"
  by (simp add: half_up_def)

lemma half_up_div: "1 \<le> h \<Longrightarrow> half_up ((h + (2 ^ k - 1)) div 2 ^ k) = (h + (2 ^ Suc k - 1)) div 2 ^ Suc k"
proof -
  assume h: "1 \<le> h"
  have pos: "(0::nat) < 2 ^ k" by simp
  have q: "1 \<le> (h + (2 ^ k - 1)) div 2 ^ k"
    using h pos by (simp add: Suc_le_eq div_greater_zero_iff)
  have "half_up ((h + (2 ^ k - 1)) div 2 ^ k) = ((h + (2 ^ k - 1)) div 2 ^ k + 1) div 2"
    using q by (rule half_up_eq)
  also have "\<dots> = (h + (2 ^ Suc k - 1)) div 2 ^ Suc k"
  proof -
    have "(h + (2 ^ k - 1) + 2 ^ k) div 2 ^ k = (h + (2 ^ k - 1)) div 2 ^ k + 1"
      using pos by (intro div_add_self2) simp
    then have "(h + (2 ^ k - 1)) div 2 ^ k + 1 = (h + (2 ^ k - 1) + 2 ^ k) div 2 ^ k"
      by simp
    then have "((h + (2 ^ k - 1)) div 2 ^ k + 1) div 2 = (h + (2 ^ k - 1) + 2 ^ k) div (2 ^ k * 2)"
      by (simp add: div_mult2_eq)
    moreover have "h + (2 ^ k - 1) + 2 ^ k = h + (2 ^ Suc k - 1)"
      using pos by simp
    ultimately show ?thesis by (simp add: mult.commute)
  qed
  finally show ?thesis .
qed

lemma half_up_5:
  "0 < h \<Longrightarrow> half_up (half_up (half_up (half_up (half_up h)))) = (h + 31) div 32"
  using half_up_eq [of h] half_up_div [of h 1] half_up_div [of h 2] half_up_div [of h 3]
    half_up_div [of h 4]
  by simp

lemma half_up_mono: "a \<le> b \<Longrightarrow> half_up a \<le> half_up b"
  by (simp add: half_up_def div_le_mono)

end
