(* ===== verification/Layers.thy ===== *)
theory Layers
  imports Prelude
begin

text \<open>
  The PyTorch layer primitives the script builds (\<open>nn.Conv2d\<close>, \<open>nn.BatchNorm2d\<close>,
  \<open>nn.ReLU\<close>, \<open>nn.MaxPool2d\<close>, \<open>nn.AdaptiveAvgPool2d\<close>, \<open>nn.Linear\<close>, the
  \<open>nn.Sequential\<close> container, \<open>torch.flatten\<close> and the in-place addition
  \<open>out += identity\<close>) with the shape contract of their forward pass: which input
  shapes they accept, the exception they raise otherwise, in PyTorch's order of checks,
  and the shape they return. The script's helpers \<open>conv3x3\<close> and \<open>conv1x1\<close>
  (src/resnet-study.py, lines 4--8) build such layers. The values the layers
  compute, from their weights and running statistics, are the subject of theory
  Tensor, whose forwards run these shape contracts first. The submodule table of
  \<open>nn.Module\<close> (attribute assignment and lookup of submodules) is modelled as an
  ordered association list, with its round-trip lemmas.
\<close>

record conv2d =
  in_channels :: nat
  out_channels :: nat
  kernel_size :: nat
  conv_stride :: nat
  conv_padding :: nat
  conv_bias :: bool

datatype layer =
    Conv2d conv2d
  | BatchNorm2d nat
  | ReLU
  | MaxPool2d nat nat nat
  | AdaptiveAvgPool2d "nat \<times> nat"
  | Linear nat nat

subsection \<open>The script's convolution helpers\<close>

definition conv3x3 :: "nat \<Rightarrow> nat \<Rightarrow> nat \<Rightarrow> nat \<Rightarrow> layer" where
  "conv3x3 in_planes out_planes stride padding =
     Conv2d \<lparr>in_channels = in_planes, out_channels = out_planes, kernel_size = 3,
             conv_stride = stride, conv_padding = padding, conv_bias = True\<rparr>"

definition conv1x1 :: "nat \<Rightarrow> nat \<Rightarrow> nat \<Rightarrow> layer" where
  "conv1x1 in_planes out_planes stride =
     Conv2d \<lparr>in_channels = in_planes, out_channels = out_planes, kernel_size = 1,
             conv_stride = stride, conv_padding = 0, conv_bias = True\<rparr>"

text \<open>\<open>nn.Linear(in_features, out_features)\<close> refuses a negative size.\<close>

definition linear_new :: "nat \<Rightarrow> int \<Rightarrow> layer result" where
  "linear_new in_features out_features =
     (if out_features < 0
      then Inl (RuntimeError ''Trying to create tensor with negative dimension'')
      else Inr (Linear in_features (nat out_features)))"

subsection \<open>Forward shape semantics\<close>

text \<open>
  The 2-d layers take an unbatched \<open>[C, H, W]\<close> or a batched \<open>[N, C, H, W]\<close>
  input; \<open>split_chw\<close> separates the optional batch dimension.
\<close>

fun split_chw :: "shape \<Rightarrow> (shape \<times> nat \<times> nat \<times> nat) option" where
  "split_chw [c, h, w] = Some ([], c, h, w)"
| "split_chw [n, c, h, w] = Some ([n], c, h, w)"
| "split_chw _ = None"

text \<open>Output size of a convolution or pooling window (dilation 1, floor mode).\<close>

definition out_dim :: "nat \<Rightarrow> nat \<Rightarrow> nat \<Rightarrow> nat \<Rightarrow> nat" where
  "out_dim h k s p = (h + 2 * p - k) div s + 1"

definition conv2d_forward :: "conv2d \<Rightarrow> shape \<Rightarrow> shape result" where
  "conv2d_forward c x =
     (case split_chw x of
        None \<Rightarrow> Inl (RuntimeError ''Expected 3D (unbatched) or 4D (batched) input to conv2d'')
      | Some (lead, ch, h, w) \<Rightarrow>
          if conv_stride c = 0 then Inl (RuntimeError ''non-positive stride is not supported'')
          else if ch \<noteq> in_channels c
          then Inl (RuntimeError ''expected input to have in_channels channels'')
          else if h + 2 * conv_padding c < kernel_size c \<or> w + 2 * conv_padding c < kernel_size c
          then Inl (RuntimeError ''Kernel size cannot be greater than actual input size'')
          else Inr (lead @ [out_channels c,
                            out_dim h (kernel_size c) (conv_stride c) (conv_padding c),
                            out_dim w (kernel_size c) (conv_stride c) (conv_padding c)]))"

text \<open>
  \<open>nn.BatchNorm2d\<close>: the dimension check of \<open>_check_input_dim\<close>, then, in training
  mode, \<open>_verify_batch_size\<close> (more than one value per channel), then the channel
  count of the running statistics.
\<close>

definition batch_norm_forward :: "bool \<Rightarrow> nat \<Rightarrow> shape \<Rightarrow> shape result" where
  "batch_norm_forward training num_features x =
     (if length x \<noteq> 4 then Inl (ValueError ''expected 4D input'')
      else if training \<and> x ! 0 * x ! 2 * x ! 3 = 1
      then Inl (ValueError ''Expected more than 1 value per channel when training'')
      else if x ! 1 \<noteq> num_features
      then Inl (RuntimeError ''running_mean should contain as many elements as input channels'')
      else Inr x)"

abbreviation bn_single_error :: error where
  "bn_single_error \<equiv> ValueError ''Expected more than 1 value per channel when training''"

definition max_pool2d_forward :: "nat \<Rightarrow> nat \<Rightarrow> nat \<Rightarrow> shape \<Rightarrow> shape result" where
  "max_pool2d_forward k s p x =
     (case split_chw x of
        None \<Rightarrow> Inl (RuntimeError ''non-empty 3D or 4D (batch mode) tensor expected for input'')
      | Some (lead, c, h, w) \<Rightarrow>
          if c = 0 \<or> h = 0 \<or> w = 0
          then Inl (RuntimeError ''Expected 3D or 4D tensor with non-zero non-batch dimensions'')
          else if s = 0 then Inl (RuntimeError ''stride should not be zero'')
          else if k div 2 < p then Inl (RuntimeError ''pad should be at most half of kernel size'')
          else if h + 2 * p < k \<or> w + 2 * p < k then Inl (RuntimeError ''Output size is too small'')
          else Inr (lead @ [c, out_dim h k s p, out_dim w k s p]))"

definition adaptive_avg_pool2d_forward :: "nat \<times> nat \<Rightarrow> shape \<Rightarrow> shape result" where
  "adaptive_avg_pool2d_forward osz x =
     (case split_chw x of
        None \<Rightarrow> Inl (RuntimeError ''adaptive_avg_pool2d(): Expected 3D or 4D tensor'')
      | Some (lead, c, h, w) \<Rightarrow>
          if c = 0 \<or> h = 0 \<or> w = 0
          then Inl (RuntimeError ''Expected input to have non-zero size for non-batch dimensions'')
          else Inr (lead @ [c, fst osz, snd osz]))"

definition linear_forward :: "nat \<Rightarrow> nat \<Rightarrow> shape \<Rightarrow> shape result" where
  "linear_forward in_features out_features x =
     (if x = [] \<or> last x \<noteq> in_features
      then Inl (RuntimeError ''mat1 and mat2 shapes cannot be multiplied'')
      else Inr (butlast x @ [out_features]))"

fun layer_forward :: "bool \<Rightarrow> layer \<Rightarrow> shape \<Rightarrow> shape result" where
  "layer_forward t (Conv2d c) x = conv2d_forward c x"
| "layer_forward t (BatchNorm2d n) x = batch_norm_forward t n x"
| "layer_forward t ReLU x = Inr x"
| "layer_forward t (MaxPool2d k s p) x = max_pool2d_forward k s p x"
| "layer_forward t (AdaptiveAvgPool2d osz) x = adaptive_avg_pool2d_forward osz x"
| "layer_forward t (Linear i oc) x = linear_forward i oc x"

text \<open>\<open>nn.Sequential\<close> of layers: each layer's output feeds the next.\<close>

fun seq_forward :: "bool \<Rightarrow> layer list \<Rightarrow> shape \<Rightarrow> shape result" where
  "seq_forward t [] x = Inr x"
| "seq_forward t (m # ms) x = rbind (layer_forward t m x) (seq_forward t ms)"

text \<open>\<open>torch.flatten(x, start_dim)\<close> with \<open>end_dim = -1\<close>.\<close>

definition flatten :: "shape \<Rightarrow> nat \<Rightarrow> shape result" where
  "flatten x start_dim =
     (if x = [] then (if start_dim = 0 then Inr [1]
                      else Inl (IndexError ''Dimension out of range''))
      else if length x \<le> start_dim then Inl (IndexError ''Dimension out of range'')
      else Inr (take start_dim x @ [prod_list (drop start_dim x)]))"

text \<open>
  \<open>out += other\<close>: \<open>other\<close> must broadcast to the shape of \<open>out\<close>, which the
  in-place addition keeps. Dimensions are aligned from the right; each of \<open>other\<close>
  equals the one of \<open>out\<close> or is 1.
\<close>

definition broadcastable_to :: "shape \<Rightarrow> shape \<Rightarrow> bool" where
  "broadcastable_to a b =
     (length a \<le> length b \<and> list_all2 (\<lambda>i j. i = j \<or> i = 1) (rev a) (take (length a) (rev b)))"

definition add_inplace :: "shape \<Rightarrow> shape \<Rightarrow> shape result" where
  "add_inplace out other =
     (if broadcastable_to other out then Inr out
      else Inl (RuntimeError ''The size of tensor a must match the size of tensor b''))"

subsection \<open>Submodule attributes\<close>

text \<open>
  \<open>nn.Module\<close> keeps its submodules in the ordered dictionary \<open>_modules\<close>:
  \<open>self.name = m\<close> with a module \<open>m\<close> (\<open>Module.__setattr__\<close>) replaces the entry of
  an existing name in place and appends a new name at the end; reading
  \<open>self.name\<close> when no instance attribute has that name (\<open>Module.__getattr__\<close>)
  returns the entry, or raises \<open>AttributeError\<close>. The table is an association
  list, so that its order, which is the order of \<open>named_children()\<close> and of the
  module's printout, is kept.
\<close>

type_synonym module_table = "(string \<times> layer) list"

fun module_setattr :: "module_table \<Rightarrow> string \<Rightarrow> layer \<Rightarrow> module_table" where
  "module_setattr [] k v = [(k, v)]"
| "module_setattr ((k', v') # m) k v = (if k' = k then (k, v) # m else (k', v') # module_setattr m k v)"

definition module_getattr :: "module_table \<Rightarrow> string \<Rightarrow> layer result" where
  "module_getattr m k = (case map_of m k of None \<Rightarrow> Inl (AttributeError k) | Some v \<Rightarrow> Inr v)"

subsection \<open>Shape lemmas\<close>

text \<open>Spatial size after a convolution whose padding keeps the size at stride 1.\<close>

definition stride_dim :: "nat \<Rightarrow> nat \<Rightarrow> nat" where
  "stride_dim h s = (h - 1) div s + 1"

lemma stride_dim_1 [simp]: "0 < h \<Longrightarrow> stride_dim h (Suc 0) = h"
  by (simp add: stride_dim_def)

lemma stride_dim_2 [simp]: "stride_dim h 2 = half_up h"
  by (simp add: stride_dim_def half_up_def)

lemma stride_dim_pos [simp]: "0 < stride_dim h s"
  by (simp add: stride_dim_def)

lemma stride_dim_le: "0 < h \<Longrightarrow> stride_dim h s \<le> h"
proof -
  assume "0 < h"
  moreover have "(h - 1) div s \<le> h - 1" by (rule div_le_dividend)
  ultimately show ?thesis unfolding stride_dim_def by linarith
qed

lemma conv3x3_forward:
  assumes "0 < s" "0 < h" "0 < w"
  shows "layer_forward t (conv3x3 i oc s 1) [n, i, h, w] = Inr [n, oc, stride_dim h s, stride_dim w s]"
  using assms by (simp add: conv3x3_def conv2d_forward_def out_dim_def stride_dim_def)

lemma conv1x1_forward:
  assumes "0 < s" "0 < h" "0 < w"
  shows "layer_forward t (conv1x1 i oc s) [n, i, h, w] = Inr [n, oc, stride_dim h s, stride_dim w s]"
  using assms by (simp add: conv1x1_def conv2d_forward_def out_dim_def stride_dim_def)

lemma conv_channel_mismatch:
  assumes "split_chw x = Some (lead, ch, h, w)" "0 < conv_stride c" "ch \<noteq> in_channels c"
  shows "layer_forward t (Conv2d c) x = Inl (RuntimeError ''expected input to have in_channels channels'')"
  using assms by (simp add: conv2d_forward_def)

lemma batch_norm_forward_ok:
  "\<not> (t \<and> n * h * w = 1) \<Longrightarrow> layer_forward t (BatchNorm2d c) [n, c, h, w] = Inr [n, c, h, w]"
  by (simp add: batch_norm_forward_def)

lemma batch_norm_forward_exact:
  "layer_forward t (BatchNorm2d c) [n, c, h, w]
     = (if t \<and> n * h * w = 1 then Inl bn_single_error else Inr [n, c, h, w])"
  by (simp add: batch_norm_forward_def)

lemmas conv3x3_forward_simp [shape_simps] = conv3x3_forward [simplified]
  and conv1x1_forward_simp [shape_simps] = conv1x1_forward [simplified]
  and batch_norm_forward_ok_simp [shape_simps] = batch_norm_forward_ok [simplified]

lemma seq_forward_append:
  "seq_forward t (ms @ ms') x = rbind (seq_forward t ms x) (seq_forward t ms')"
  by (induction ms arbitrary: x) (simp_all add: rbind_def split: sum.split)

lemma broadcastable_to_refl [simp]: "broadcastable_to a a"
  by (simp add: broadcastable_to_def list_all2_refl)

lemma add_inplace_same [shape_simps]: "add_inplace x x = Inr x"
  by (simp add: add_inplace_def)

lemma add_inplace_4d_iff:
  "\<not> is_error (add_inplace [n, c, h, w] [n', c', h', w']) \<longleftrightarrow>
     (n' = n \<or> n' = 1) \<and> (c' = c \<or> c' = 1) \<and> (h' = h \<or> h' = 1) \<and> (w' = w \<or> w' = 1)"
  by (auto simp: add_inplace_def broadcastable_to_def)

lemma add_inplace_channel_mismatch:
  "c' \<noteq> c \<Longrightarrow> c' \<noteq> 1 \<Longrightarrow> is_error (add_inplace [n, c, h, w] [n', c', h', w'])"
  by (simp add: add_inplace_def broadcastable_to_def)

subsection \<open>The 3x3 convolution and the 1x1 projection agree on shapes\<close>

text \<open>
  C9: with a positive stride, the script's \<open>conv3x3\<close> (padding 1) and \<open>conv1x1\<close>
  (padding 0) between the same channel counts give the same result on every input
  shape: the same output shape, or the same exception. This is what lets a strided
  block's main path and its 1x1 shortcut projection be added.
\<close>

theorem conv3x3_conv1x1_same_shape:
  "0 < s \<Longrightarrow> layer_forward t (conv3x3 i oc s 1) x = layer_forward t (conv1x1 i oc s) x"
  by (auto simp: conv3x3_def conv1x1_def conv2d_forward_def out_dim_def split: option.split)

theorem conv3x3_conv1x1_same_shape_witness:
  "layer_forward True (conv3x3 64 128 2 1) [1, 64, 7, 7] = layer_forward True (conv1x1 64 128 2) [1, 64, 7, 7]
   \<and> layer_forward True (conv1x1 64 128 2) [1, 64, 7, 7] = Inr [1, 128, 4, 4]"
  using conv3x3_conv1x1_same_shape [of 2 True 64 128 "[1, 64, 7, 7]"]
  by (simp add: conv1x1_def conv2d_forward_def out_dim_def)

subsection \<open>Reading back a registered submodule\<close>

lemma map_of_module_setattr: "map_of (module_setattr m k v) = (map_of m)(k \<mapsto> v)"
  by (induction m) (auto simp: fun_upd_twist)

lemma keys_module_setattr:
  "map fst (module_setattr m k v) = (if k \<in> set (map fst m) then map fst m else map fst m @ [k])"
  by (induction m) (auto simp: rev_image_eqI)

end
