(* ===== verification/Blocks.thy ===== *)
theory Blocks
  imports Layers
begin

text \<open>
  The residual blocks of src/resnet-study.py: \<open>BasicBlock\<close> (lines 10--41) and
  \<open>Bottleneck\<close> (lines 43--81). A block object is a record of the submodules its
  \<open>__init__\<close> registers, under the attribute names the source gives them; the class
  passed to \<open>ResNet\<close> is a \<open>block_kind\<close> with the class attribute \<open>expansion\<close>.

  The forward methods are modelled twice. \<open>basic_block_forward\<close> and
  \<open>bottleneck_forward\<close> are the methods as written: \<open>BasicBlock.forward\<close> reads
  the attribute \<open>self.bn2\<close>, which \<open>__init__\<close> never sets (it sets \<open>self.nb2\<close>),
  and \<open>Bottleneck.forward\<close> calls the bare names \<open>conv1\<close>, \<open>bn1\<close>, \<open>relu\<close>, ...
  instead of \<open>self.conv1\<close>, ..., which Python resolves in the module's global scope.
  \<open>basic_block_forward_bound\<close> and \<open>bottleneck_forward_bound\<close> are the forwards the
  spec describes (4.1, 4.2): every step uses the block's own submodule. The
  constructors \<open>basic_block_init\<close> and \<open>bottleneck_init\<close> are as written, and
  ignore their \<open>stride\<close> argument; \<open>basic_block_init_spec\<close> and
  \<open>bottleneck_init_spec\<close> apply it where the spec says. \<open>block_wf\<close> is the block
  invariant of spec section 3.
\<close>

datatype block_kind = BasicBlockK | BottleneckK

fun expansion :: "block_kind \<Rightarrow> nat" where
  "expansion BasicBlockK = 1"
| "expansion BottleneckK = 4"

record basic_block =
  bb_conv1 :: layer
  bb_bn1 :: layer
  bb_conv2 :: layer
  bb_nb2 :: layer
  bb_downsample :: "layer list option"
  bb_relu :: layer

record bottleneck =
  bt_conv1 :: layer
  bt_bn1 :: layer
  bt_conv2 :: layer
  bt_bn2 :: layer
  bt_conv3 :: layer
  bt_bn3 :: layer
  bt_downsample :: "layer list option"
  bt_relu :: layer

datatype block = Basic basic_block | Bottle bottleneck

subsection \<open>Constructors\<close>

definition basic_block_init :: "nat \<Rightarrow> nat \<Rightarrow> nat \<Rightarrow> layer list option \<Rightarrow> basic_block" where
  "basic_block_init in_planes out_planes stride downsample =
     \<lparr>bb_conv1 = conv3x3 in_planes out_planes 1 1, bb_bn1 = BatchNorm2d out_planes,
      bb_conv2 = conv3x3 out_planes out_planes 1 1, bb_nb2 = BatchNorm2d out_planes,
      bb_downsample = downsample, bb_relu = ReLU\<rparr>"

definition bottleneck_init :: "nat \<Rightarrow> nat \<Rightarrow> nat \<Rightarrow> layer list option \<Rightarrow> bottleneck" where
  "bottleneck_init in_planes planes stride downsample =
     \<lparr>bt_conv1 = conv1x1 in_planes planes 1, bt_bn1 = BatchNorm2d planes,
      bt_conv2 = conv3x3 planes planes 1 1, bt_bn2 = BatchNorm2d planes,
      bt_conv3 = conv1x1 planes (planes * expansion BottleneckK) 1,
      bt_bn3 = BatchNorm2d (planes * expansion BottleneckK),
      bt_downsample = downsample, bt_relu = ReLU\<rparr>"

text \<open>\<open>block(in_planes, planes, stride, downsample)\<close> for the class \<open>block\<close>.\<close>

fun block_new :: "block_kind \<Rightarrow> nat \<Rightarrow> nat \<Rightarrow> nat \<Rightarrow> layer list option \<Rightarrow> block" where
  "block_new BasicBlockK i p s ds = Basic (basic_block_init i p s ds)"
| "block_new BottleneckK i p s ds = Bottle (bottleneck_init i p s ds)"

definition basic_block_init_spec :: "nat \<Rightarrow> nat \<Rightarrow> nat \<Rightarrow> layer list option \<Rightarrow> basic_block" where
  "basic_block_init_spec in_planes out_planes stride downsample =
     \<lparr>bb_conv1 = conv3x3 in_planes out_planes stride 1, bb_bn1 = BatchNorm2d out_planes,
      bb_conv2 = conv3x3 out_planes out_planes 1 1, bb_nb2 = BatchNorm2d out_planes,
      bb_downsample = downsample, bb_relu = ReLU\<rparr>"

definition bottleneck_init_spec :: "nat \<Rightarrow> nat \<Rightarrow> nat \<Rightarrow> layer list option \<Rightarrow> bottleneck" where
  "bottleneck_init_spec in_planes planes stride downsample =
     \<lparr>bt_conv1 = conv1x1 in_planes planes 1, bt_bn1 = BatchNorm2d planes,
      bt_conv2 = conv3x3 planes planes stride 1, bt_bn2 = BatchNorm2d planes,
      bt_conv3 = conv1x1 planes (planes * expansion BottleneckK) 1,
      bt_bn3 = BatchNorm2d (planes * expansion BottleneckK),
      bt_downsample = downsample, bt_relu = ReLU\<rparr>"

fun block_new_spec :: "block_kind \<Rightarrow> nat \<Rightarrow> nat \<Rightarrow> nat \<Rightarrow> layer list option \<Rightarrow> block" where
  "block_new_spec BasicBlockK i p s ds = Basic (basic_block_init_spec i p s ds)"
| "block_new_spec BottleneckK i p s ds = Bottle (bottleneck_init_spec i p s ds)"

fun block_downsample :: "block \<Rightarrow> layer list option" where
  "block_downsample (Basic b) = bb_downsample b"
| "block_downsample (Bottle b) = bt_downsample b"

subsection \<open>Forward passes as written\<close>

text \<open>
  Attribute lookup on a \<open>BasicBlock\<close> object: the submodule table its
  \<open>__init__\<close> builds by the assignments of lines 16--23, in that order; any other
  name raises \<open>AttributeError\<close>. \<open>self.downsample\<close> is not in the table: its
  value is \<open>None\<close> (a plain instance attribute) or an \<open>nn.Sequential\<close>, kept in the
  field \<open>bb_downsample\<close>, and the forward reads it there.
\<close>

definition basic_block_modules :: "basic_block \<Rightarrow> module_table" where
  "basic_block_modules b =
     fold (\<lambda>(k, v) m. module_setattr m k v)
       [(''conv1'', bb_conv1 b), (''bn1'', bb_bn1 b), (''conv2'', bb_conv2 b),
        (''nb2'', bb_nb2 b), (''relu'', bb_relu b)] []"

definition basic_getattr :: "basic_block \<Rightarrow> string \<Rightarrow> layer result" where
  "basic_getattr b name = module_getattr (basic_block_modules b) name"

definition basic_call :: "bool \<Rightarrow> basic_block \<Rightarrow> string \<Rightarrow> shape \<Rightarrow> shape result" where
  "basic_call t b name x = rbind (basic_getattr b name) (\<lambda>m. layer_forward t m x)"

text \<open>\<open>self.downsample(x)\<close> when the attribute is not \<open>None\<close>, else \<open>x\<close>.\<close>

definition shortcut_forward :: "bool \<Rightarrow> layer list option \<Rightarrow> shape \<Rightarrow> shape result" where
  "shortcut_forward t ds x = (case ds of None \<Rightarrow> Inr x | Some d \<Rightarrow> seq_forward t d x)"

definition basic_block_forward :: "bool \<Rightarrow> basic_block \<Rightarrow> shape \<Rightarrow> shape result" where
  "basic_block_forward t b x =
     rbind (basic_call t b ''conv1'' x) (\<lambda>out.
     rbind (basic_call t b ''bn1'' out) (\<lambda>out.
     rbind (basic_call t b ''relu'' out) (\<lambda>out.
     rbind (basic_call t b ''conv2'' out) (\<lambda>out.
     rbind (basic_call t b ''bn2'' out) (\<lambda>out.
     rbind (shortcut_forward t (bb_downsample b) x) (\<lambda>identity.
     rbind (add_inplace out identity) (\<lambda>out.
     basic_call t b ''relu'' out)))))))"

text \<open>
  A bare name in a method body is looked up in the module's global scope; \<open>genv\<close>
  gives the layer object a global name is bound to. No module-level name of the script
  is bound to a layer (its globals are the imports, the helper functions, the classes
  and the model instances of the inline tests), so in \<open>script_genv\<close> every name the
  Bottleneck forward calls is unbound.
\<close>

definition global_call :: "(string \<Rightarrow> layer option) \<Rightarrow> bool \<Rightarrow> string \<Rightarrow> shape \<Rightarrow> shape result" where
  "global_call genv t name x =
     (case genv name of None \<Rightarrow> Inl (NameError name) | Some m \<Rightarrow> layer_forward t m x)"

definition script_genv :: "string \<Rightarrow> layer option" where
  "script_genv = Map.empty"

definition bottleneck_forward_in ::
  "(string \<Rightarrow> layer option) \<Rightarrow> bool \<Rightarrow> bottleneck \<Rightarrow> shape \<Rightarrow> shape result" where
  "bottleneck_forward_in genv t b x =
     rbind (global_call genv t ''conv1'' x) (\<lambda>out.
     rbind (global_call genv t ''bn1'' out) (\<lambda>out.
     rbind (global_call genv t ''relu'' out) (\<lambda>out.
     rbind (global_call genv t ''conv2'' out) (\<lambda>out.
     rbind (global_call genv t ''bn2'' out) (\<lambda>out.
     rbind (global_call genv t ''relu'' out) (\<lambda>out.
     rbind (global_call genv t ''conv3'' out) (\<lambda>out.
     rbind (global_call genv t ''bn3'' out) (\<lambda>out.
     rbind (shortcut_forward t (bt_downsample b) x) (\<lambda>identity.
     rbind (add_inplace out identity) (\<lambda>out.
     global_call genv t ''relu'' out))))))))))"

definition bottleneck_forward :: "bool \<Rightarrow> bottleneck \<Rightarrow> shape \<Rightarrow> shape result" where
  "bottleneck_forward t b x = bottleneck_forward_in script_genv t b x"

fun block_forward :: "bool \<Rightarrow> block \<Rightarrow> shape \<Rightarrow> shape result" where
  "block_forward t (Basic b) x = basic_block_forward t b x"
| "block_forward t (Bottle b) x = bottleneck_forward t b x"

subsection \<open>Forward passes bound to the block's own submodules\<close>

definition basic_block_forward_bound :: "bool \<Rightarrow> basic_block \<Rightarrow> shape \<Rightarrow> shape result" where
  "basic_block_forward_bound t b x =
     rbind (layer_forward t (bb_conv1 b) x) (\<lambda>out.
     rbind (layer_forward t (bb_bn1 b) out) (\<lambda>out.
     rbind (layer_forward t (bb_relu b) out) (\<lambda>out.
     rbind (layer_forward t (bb_conv2 b) out) (\<lambda>out.
     rbind (layer_forward t (bb_nb2 b) out) (\<lambda>out.
     rbind (shortcut_forward t (bb_downsample b) x) (\<lambda>identity.
     rbind (add_inplace out identity) (\<lambda>out.
     layer_forward t (bb_relu b) out)))))))"

definition bottleneck_forward_bound :: "bool \<Rightarrow> bottleneck \<Rightarrow> shape \<Rightarrow> shape result" where
  "bottleneck_forward_bound t b x =
     rbind (layer_forward t (bt_conv1 b) x) (\<lambda>out.
     rbind (layer_forward t (bt_bn1 b) out) (\<lambda>out.
     rbind (layer_forward t (bt_relu b) out) (\<lambda>out.
     rbind (layer_forward t (bt_conv2 b) out) (\<lambda>out.
     rbind (layer_forward t (bt_bn2 b) out) (\<lambda>out.
     rbind (layer_forward t (bt_relu b) out) (\<lambda>out.
     rbind (layer_forward t (bt_conv3 b) out) (\<lambda>out.
     rbind (layer_forward t (bt_bn3 b) out) (\<lambda>out.
     rbind (shortcut_forward t (bt_downsample b) x) (\<lambda>identity.
     rbind (add_inplace out identity) (\<lambda>out.
     layer_forward t (bt_relu b) out))))))))))"

fun block_forward_bound :: "bool \<Rightarrow> block \<Rightarrow> shape \<Rightarrow> shape result" where
  "block_forward_bound t (Basic b) x = basic_block_forward_bound t b x"
| "block_forward_bound t (Bottle b) x = bottleneck_forward_bound t b x"

subsection \<open>The block invariant\<close>

text \<open>
  Spec section 3: the main path is the one of 4.1 or 4.2 for input width \<open>i\<close>,
  nominal width \<open>p\<close> and stride \<open>s\<close>, and it outputs \<open>p * expansion k\<close>
  channels; the shortcut is absent only when the input already has that shape (same
  width, stride 1), and otherwise is the 1x1 projection to \<open>p * expansion k\<close>
  channels at stride \<open>s\<close> followed by normalisation.
\<close>

definition shortcut_ok :: "nat \<Rightarrow> nat \<Rightarrow> nat \<Rightarrow> layer list option \<Rightarrow> bool" where
  "shortcut_ok i oc s ds =
     (case ds of None \<Rightarrow> i = oc \<and> s = 1 | Some d \<Rightarrow> d = [conv1x1 i oc s, BatchNorm2d oc])"

definition block_wf :: "block_kind \<Rightarrow> nat \<Rightarrow> nat \<Rightarrow> nat \<Rightarrow> block \<Rightarrow> bool" where
  "block_wf k i p s b \<longleftrightarrow>
     0 < s \<and> b = block_new_spec k i p s (block_downsample b) \<and>
     shortcut_ok i (p * expansion k) s (block_downsample b)"

subsection \<open>Reading a block's shape\<close>

text \<open>
  Observations on a block used to state properties: its input width (the input
  channels of its first convolution), its output width (the features of its last
  normalisation), its main-path layers and their combined stride, and the erasure
  that forgets what the spec adds to a block (the stride of the strided
  convolution and the shortcut).
\<close>

fun conv_in :: "layer \<Rightarrow> nat" where
  "conv_in (Conv2d c) = in_channels c"
| "conv_in _ = 0"

fun norm_features :: "layer \<Rightarrow> nat" where
  "norm_features (BatchNorm2d n) = n"
| "norm_features _ = 0"

fun layer_stride :: "layer \<Rightarrow> nat" where
  "layer_stride (Conv2d c) = conv_stride c"
| "layer_stride _ = 1"

fun set_conv_stride :: "nat \<Rightarrow> layer \<Rightarrow> layer" where
  "set_conv_stride s (Conv2d c) = Conv2d (c\<lparr>conv_stride := s\<rparr>)"
| "set_conv_stride s l = l"

fun block_in :: "block \<Rightarrow> nat" where
  "block_in (Basic b) = conv_in (bb_conv1 b)"
| "block_in (Bottle b) = conv_in (bt_conv1 b)"

fun block_out :: "block \<Rightarrow> nat" where
  "block_out (Basic b) = norm_features (bb_nb2 b)"
| "block_out (Bottle b) = norm_features (bt_bn3 b)"

fun block_main_layers :: "block \<Rightarrow> layer list" where
  "block_main_layers (Basic b) = [bb_conv1 b, bb_bn1 b, bb_conv2 b, bb_nb2 b, bb_relu b]"
| "block_main_layers (Bottle b) =
     [bt_conv1 b, bt_bn1 b, bt_conv2 b, bt_bn2 b, bt_conv3 b, bt_bn3 b, bt_relu b]"

definition block_stride :: "block \<Rightarrow> nat" where
  "block_stride b = prod_list (map layer_stride (block_main_layers b))"

fun erase_block :: "block \<Rightarrow> block" where
  "erase_block (Basic b) = Basic (b\<lparr>bb_conv1 := set_conv_stride 1 (bb_conv1 b), bb_downsample := None\<rparr>)"
| "erase_block (Bottle b) = Bottle (b\<lparr>bt_conv2 := set_conv_stride 1 (bt_conv2 b), bt_downsample := None\<rparr>)"

subsection \<open>The forwards as written always raise\<close>

lemma basic_block_forward_unfold:
  "basic_block_forward t b x =
     rbind (basic_call t b ''conv1'' x) (\<lambda>out.
     rbind (basic_call t b ''bn1'' out) (\<lambda>out.
     rbind (basic_call t b ''relu'' out) (\<lambda>out.
     rbind (basic_call t b ''conv2'' out) (\<lambda>_. Inl (AttributeError ''bn2'')))))"
  by (simp add: basic_block_forward_def basic_call_def basic_getattr_def module_getattr_def basic_block_modules_def)

lemma basic_block_forward_is_error: "is_error (basic_block_forward t b x)"
  unfolding basic_block_forward_unfold by (intro is_error_rbindI) simp

lemma bottleneck_forward_is_error: "is_error (bottleneck_forward t b x)"
  by (simp add: bottleneck_forward_def bottleneck_forward_in_def global_call_def script_genv_def)

lemma block_forward_is_error: "is_error (block_forward t b x)"
  by (cases b) (simp_all add: basic_block_forward_is_error bottleneck_forward_is_error)

subsection \<open>Blocks satisfying the invariant compute the spec's shape\<close>

lemma bn_ok_mono:
  assumes "\<not> (t \<and> n * h' * w' = (1::nat))" "0 < h'" "h' \<le> h" "0 < w'" "w' \<le> w"
  shows "\<not> (t \<and> n * h * w = 1)"
proof
  assume a: "t \<and> n * h * w = 1"
  then have "n = 1 \<and> h = 1 \<and> w = 1" by simp
  with assms(2-5) have "h' = 1 \<and> w' = 1" by simp
  with assms(1) a \<open>n = 1 \<and> h = 1 \<and> w = 1\<close> show False by simp
qed

lemma bn_ok_stride:
  "\<not> (t \<and> n * stride_dim h s * stride_dim w s = 1) \<Longrightarrow> 0 < h \<Longrightarrow> 0 < w \<Longrightarrow>
     \<not> (t \<and> n * h * w = 1)"
  by (rule bn_ok_mono [where h' = "stride_dim h s" and w' = "stride_dim w s"]) (simp_all add: stride_dim_le)

lemma shortcut_forward_ok:
  assumes "shortcut_ok i oc s ds" "0 < s" "0 < h" "0 < w"
    and "\<not> (t \<and> n * stride_dim h s * stride_dim w s = 1)"
  shows "shortcut_forward t ds [n, i, h, w] = Inr [n, oc, stride_dim h s, stride_dim w s]"
proof (cases ds)
  case None
  with assms show ?thesis by (simp add: shortcut_ok_def shortcut_forward_def)
next
  case (Some d)
  with assms show ?thesis
    by (simp add: shortcut_ok_def shortcut_forward_def shape_simps)
qed

lemma basic_block_forward_bound_spec:
  assumes "0 < s" "shortcut_ok i oc s ds" "0 < h" "0 < w"
    and bn: "\<not> (t \<and> n * stride_dim h s * stride_dim w s = 1)"
  shows "basic_block_forward_bound t (basic_block_init_spec i oc s ds) [n, i, h, w]
           = Inr [n, oc, stride_dim h s, stride_dim w s]"
proof -
  have sc: "shortcut_forward t ds [n, i, h, w] = Inr [n, oc, stride_dim h s, stride_dim w s]"
    using assms by (intro shortcut_forward_ok)
  show ?thesis
    using assms(1,3,4) bn sc
    by (simp add: basic_block_forward_bound_def basic_block_init_spec_def shape_simps)
qed

lemma bottleneck_forward_bound_spec:
  assumes "0 < s" "shortcut_ok i (p * 4) s ds" "0 < h" "0 < w"
    and bn: "\<not> (t \<and> n * stride_dim h s * stride_dim w s = 1)"
  shows "bottleneck_forward_bound t (bottleneck_init_spec i p s ds) [n, i, h, w]
           = Inr [n, p * 4, stride_dim h s, stride_dim w s]"
proof -
  have sc: "shortcut_forward t ds [n, i, h, w] = Inr [n, p * 4, stride_dim h s, stride_dim w s]"
    using assms by (intro shortcut_forward_ok)
  have bn0: "\<not> (t \<and> n * h * w = 1)"
    using bn assms(3,4) by (rule bn_ok_stride)
  show ?thesis
    using assms(1,3,4) bn bn0 sc
    by (simp add: bottleneck_forward_bound_def bottleneck_init_spec_def shape_simps)
qed

lemma block_forward_bound_wf:
  assumes "block_wf k i p s b" "0 < h" "0 < w"
    and bn: "\<not> (t \<and> n * stride_dim h s * stride_dim w s = 1)"
  shows "block_forward_bound t b [n, i, h, w] = Inr [n, p * expansion k, stride_dim h s, stride_dim w s]"
proof -
  obtain ds where ds: "block_downsample b = ds" by simp
  with assms(1) have s: "0 < s" and b: "b = block_new_spec k i p s ds"
    and sc: "shortcut_ok i (p * expansion k) s ds"
    by (simp_all add: block_wf_def)
  show ?thesis
  proof (cases k)
    case BasicBlockK
    with s sc assms(2,3) bn
    have "basic_block_forward_bound t (basic_block_init_spec i p s ds) [n, i, h, w]
            = Inr [n, p, stride_dim h s, stride_dim w s]"
      by (intro basic_block_forward_bound_spec) simp_all
    with b BasicBlockK show ?thesis by simp
  next
    case BottleneckK
    with s sc assms(2,3) bn
    have "bottleneck_forward_bound t (bottleneck_init_spec i p s ds) [n, i, h, w]
            = Inr [n, p * 4, stride_dim h s, stride_dim w s]"
      by (intro bottleneck_forward_bound_spec) simp_all
    with b BottleneckK show ?thesis by simp
  qed
qed

lemma block_forward_bound_single:
  assumes "block_wf k i p s b" "0 < h" "0 < w" "t" "n * stride_dim h s * stride_dim w s = 1"
  shows "block_forward_bound t b [n, i, h, w] = Inl bn_single_error"
proof -
  obtain ds where ds: "block_downsample b = ds" by simp
  with assms(1) have s: "0 < s" and b: "b = block_new_spec k i p s ds"
    by (simp_all add: block_wf_def)
  from assms(5) have one: "n = 1" "stride_dim h s = 1" "stride_dim w s = 1" by simp_all
  show ?thesis
  proof (cases k)
    case BasicBlockK
    with b s assms(2-4) one show ?thesis
      by (simp add: basic_block_forward_bound_def basic_block_init_spec_def shape_simps batch_norm_forward_def)
  next
    case BottleneckK
    with b s assms(2-4) one show ?thesis
      by (simp add: bottleneck_forward_bound_def bottleneck_init_spec_def shape_simps batch_norm_forward_def)
  qed
qed

lemma block_forward_bound_exact:
  assumes "block_wf k i p s b" "0 < h" "0 < w"
  shows "block_forward_bound t b [n, i, h, w] =
    (if t \<and> n * stride_dim h s * stride_dim w s = 1 then Inl bn_single_error
     else Inr [n, p * expansion k, stride_dim h s, stride_dim w s])"
  using block_forward_bound_wf [OF assms] block_forward_bound_single [OF assms] by auto

subsection \<open>Constructed blocks\<close>

lemma block_new_shape [simp]:
  "block_in (block_new k i p s ds) = i" "block_out (block_new k i p s ds) = p * expansion k"
  "block_stride (block_new k i p s ds) = 1" "block_downsample (block_new k i p s ds) = ds"
  by (cases k; simp add: basic_block_init_def bottleneck_init_def conv3x3_def conv1x1_def
      block_stride_def)+

lemma block_new_spec_shape [simp]:
  "block_in (block_new_spec k i p s ds) = i" "block_out (block_new_spec k i p s ds) = p * expansion k"
  "block_stride (block_new_spec k i p s ds) = s" "block_downsample (block_new_spec k i p s ds) = ds"
  by (cases k; simp add: basic_block_init_spec_def bottleneck_init_spec_def conv3x3_def conv1x1_def
      block_stride_def)+

lemma erase_block_new_spec [simp]: "erase_block (block_new_spec k i p s ds) = block_new k i p s None"
  by (cases k) (simp_all add: basic_block_init_spec_def bottleneck_init_spec_def basic_block_init_def
      bottleneck_init_def conv3x3_def)

subsection \<open>A block without shortcut between different widths always raises\<close>

lemma conv2d_forward_Inr:
  "conv2d_forward c x = Inr z \<Longrightarrow>
     length z = length x \<and> (length x = 4 \<longrightarrow> x ! 1 = in_channels c \<and> z ! 1 = out_channels c)"
  by (auto simp: conv2d_forward_def split: option.splits if_splits elim!: split_chw.elims)

lemma batch_norm_forward_Inr:
  "batch_norm_forward t c x = Inr z \<Longrightarrow> z = x \<and> length x = 4 \<and> x ! 1 = c"
  by (simp add: batch_norm_forward_def split: if_splits)

lemma add_inplace_4d_Inr:
  assumes "add_inplace out y = Inr z" "length out = 4" "length y = 4"
  shows "y ! 1 = out ! 1 \<or> y ! 1 = 1"
proof -
  from assms(2,3) obtain a b c d a' b' c' d' where "out = [a, b, c, d]" "y = [a', b', c', d']"
    by (auto simp: length_4_conv)
  with assms(1) show ?thesis
    by (simp add: add_inplace_def broadcastable_to_def split: if_splits)
qed
lemma block_no_shortcut_error:
  assumes "i \<noteq> p * expansion k" "i \<noteq> 1"
  shows "is_error (block_forward_bound t (block_new k i p s None) y)"
proof (rule ccontr)
  assume "\<not> is_error (block_forward_bound t (block_new k i p s None) y)"
  then obtain z where z: "block_forward_bound t (block_new k i p s None) y = Inr z"
    by (cases "block_forward_bound t (block_new k i p s None) y") simp_all
  show False
  proof (cases k)
    case BasicBlockK
    with z obtain a1 a2 a4 a5 z' where
      c1: "conv2d_forward (conv2d.make i p 3 1 1 True) y = Inr a1" and
      b1: "batch_norm_forward t p a1 = Inr a2" and
      c2: "conv2d_forward (conv2d.make p p 3 1 1 True) a2 = Inr a4" and
      b2: "batch_norm_forward t p a4 = Inr a5" and
      ad: "add_inplace a5 y = Inr z'"
      by (auto simp: basic_block_forward_bound_def basic_block_init_def conv3x3_def
          shortcut_forward_def rbind_eq_Inr_iff conv2d.make_def)
    from b1 have "length a1 = 4" by (simp add: batch_norm_forward_Inr)
    with c1 have y: "length y = 4" "y ! 1 = i" by (auto dest: conv2d_forward_Inr simp: conv2d.make_def)
    from b2 batch_norm_forward_Inr have a5: "a5 = a4" "length a4 = 4" "a4 ! 1 = p" by blast+
    from ad a5 y have "y ! 1 = a5 ! 1 \<or> y ! 1 = 1" by (intro add_inplace_4d_Inr) simp_all
    with assms BasicBlockK y a5 show False by simp
  next
    case BottleneckK
    with z obtain a1 a2 a4 a5 a7 a8 z' where
      c1: "conv2d_forward (conv2d.make i p 1 1 0 True) y = Inr a1" and
      b1: "batch_norm_forward t p a1 = Inr a2" and
      c2: "conv2d_forward (conv2d.make p p 3 1 1 True) a2 = Inr a4" and
      b2: "batch_norm_forward t p a4 = Inr a5" and
      c3: "conv2d_forward (conv2d.make p (p * 4) 1 1 0 True) a5 = Inr a7" and
      b3: "batch_norm_forward t (p * 4) a7 = Inr a8" and
      ad: "add_inplace a8 y = Inr z'"
      by (auto simp: bottleneck_forward_bound_def bottleneck_init_def conv3x3_def conv1x1_def
          shortcut_forward_def rbind_eq_Inr_iff conv2d.make_def)
    from b1 have "length a1 = 4" by (simp add: batch_norm_forward_Inr)
    with c1 have y: "length y = 4" "y ! 1 = i" by (auto dest: conv2d_forward_Inr simp: conv2d.make_def)
    from b3 batch_norm_forward_Inr have a8: "a8 = a7" "length a7 = 4" "a7 ! 1 = p * 4" by blast+
    from ad a8 y have "y ! 1 = a8 ! 1 \<or> y ! 1 = 1" by (intro add_inplace_4d_Inr) simp_all
    with assms BottleneckK y a8 show False by simp
  qed
qed
subsection \<open>Properties of the block forwards\<close>

text \<open>
  C6: \<open>BasicBlock.forward\<close> as written raises \<open>AttributeError: bn2\<close> on every
  batched input with the block's input width and positive spatial size (and, in
  training mode, more than one value per channel): conv1, bn1, relu and conv2 run,
  then \<open>self.bn2\<close> does not exist, because \<open>__init__\<close> named it \<open>nb2\<close>.
\<close>

theorem basic_block_forward_attribute_error:
  assumes "0 < h" "0 < w" "\<not> (t \<and> n * h * w = 1)"
  shows "basic_block_forward t (basic_block_init i oc s ds) [n, i, h, w] = Inl (AttributeError ''bn2'')"
  using assms
  by (simp add: basic_block_forward_unfold basic_call_def basic_getattr_def module_getattr_def basic_block_modules_def
      basic_block_init_def shape_simps)

theorem basic_block_forward_attribute_error_witness:
  "basic_block_forward True (basic_block_init 64 128 2 None) [2, 64, 8, 8] = Inl (AttributeError ''bn2'')"
  using basic_block_forward_attribute_error [of 8 8 True 2 64 128 2 None] by simp

text \<open>
  C7: \<open>Bottleneck.forward\<close> as written raises \<open>NameError: conv1\<close> on every input,
  whatever the block: its first statement calls the unbound global name \<open>conv1\<close>.
\<close>

theorem bottleneck_forward_name_error: "bottleneck_forward t b x = Inl (NameError ''conv1'')"
  by (simp add: bottleneck_forward_def bottleneck_forward_in_def global_call_def script_genv_def)

text \<open>
  C8: the names are the only defect of \<open>Bottleneck.forward\<close>: run in a scope where
  the bare names \<open>conv1\<close>, \<open>bn1\<close>, \<open>relu\<close>, \<open>conv2\<close>, \<open>bn2\<close>,
  \<open>conv3\<close>, \<open>bn3\<close> are bound to the block's own submodules, it computes exactly
  the forward bound to \<open>self\<close> that spec 4.2 asks for.
\<close>

theorem bottleneck_forward_in_bound:
  assumes "genv ''conv1'' = Some (bt_conv1 b)" "genv ''bn1'' = Some (bt_bn1 b)"
    "genv ''relu'' = Some (bt_relu b)" "genv ''conv2'' = Some (bt_conv2 b)"
    "genv ''bn2'' = Some (bt_bn2 b)" "genv ''conv3'' = Some (bt_conv3 b)"
    "genv ''bn3'' = Some (bt_bn3 b)"
  shows "bottleneck_forward_in genv t b x = bottleneck_forward_bound t b x"
  using assms by (simp add: bottleneck_forward_in_def bottleneck_forward_bound_def global_call_def)

theorem bottleneck_forward_in_bound_witness:
  "bottleneck_forward_in (map_of [(''conv1'', conv1x1 64 64 1), (''bn1'', BatchNorm2d 64), (''relu'', ReLU),
       (''conv2'', conv3x3 64 64 1 1), (''bn2'', BatchNorm2d 64), (''conv3'', conv1x1 64 256 1),
       (''bn3'', BatchNorm2d 256)]) True (bottleneck_init 64 64 1 None) [2, 64, 8, 8]
   = bottleneck_forward_bound True (bottleneck_init 64 64 1 None) [2, 64, 8, 8]"
  using bottleneck_forward_in_bound [of "map_of [(''conv1'', conv1x1 64 64 1), (''bn1'', BatchNorm2d 64),
       (''relu'', ReLU), (''conv2'', conv3x3 64 64 1 1), (''bn2'', BatchNorm2d 64),
       (''conv3'', conv1x1 64 256 1), (''bn3'', BatchNorm2d 256)]" "bottleneck_init 64 64 1 None" True
       "[2, 64, 8, 8]"]
  by (simp add: bottleneck_init_def)

end
