(* ===== verification/Stages.thy ===== *)
theory Stages
  imports Blocks
begin

text \<open>
  The stage builder \<open>ResNet._make_layers\<close> (src/resnet-study.py, lines 122--146) and
  the forward pass of a stage (\<open>nn.Sequential\<close> of blocks). The attribute
  \<open>self.inplanes\<close>, which \<open>_make_layers\<close> reads and overwrites, is passed in and
  returned explicitly: \<open>make_layers\<close> returns the stage and the new tally.

  As written, \<open>_make_layers\<close> computes the shortcut projection \<open>downsample\<close>
  (lines 125--130) but never passes it to the block constructor (line 136), so every
  block gets \<open>downsample=None\<close>. \<open>make_layers_spec\<close> is the builder of spec 4.3,
  which passes it to the first block and uses the constructors that apply the stride.
  The loop \<open>for _ in range(1, num_of_blocks)\<close> is a \<open>map\<close> over the Python range
  \<open>[1..num_of_blocks - 1]\<close>; \<open>num_of_blocks\<close> is a Python \<open>int\<close>.
  \<open>stage_wf\<close> is the stage invariant of spec section 3, which the spec's builder
  establishes (\<open>make_layers_spec_stage_wf\<close>).
\<close>

definition downsample_for :: "block_kind \<Rightarrow> nat \<Rightarrow> nat \<Rightarrow> nat \<Rightarrow> layer list option" where
  "downsample_for block planes stride inplanes =
     (if stride \<noteq> 1 \<or> inplanes \<noteq> planes * expansion block
      then Some [conv1x1 inplanes (planes * expansion block) stride,
                 BatchNorm2d (planes * expansion block)]
      else None)"

definition make_layers :: "block_kind \<Rightarrow> nat \<Rightarrow> int \<Rightarrow> nat \<Rightarrow> nat \<Rightarrow> block list \<times> nat" where
  "make_layers block planes num_of_blocks stride inplanes =
     (let downsample = downsample_for block planes stride inplanes;
          layers = [block_new block inplanes planes stride None];
          inplanes = planes * expansion block;
          layers = layers @ map (\<lambda>_. block_new block inplanes planes 1 None) [1..num_of_blocks - 1]
      in (layers, inplanes))"

definition make_layers_spec :: "block_kind \<Rightarrow> nat \<Rightarrow> int \<Rightarrow> nat \<Rightarrow> nat \<Rightarrow> block list \<times> nat" where
  "make_layers_spec block planes num_of_blocks stride inplanes =
     (let downsample = downsample_for block planes stride inplanes;
          layers = [block_new_spec block inplanes planes stride downsample];
          inplanes = planes * expansion block;
          layers = layers @ map (\<lambda>_. block_new_spec block inplanes planes 1 None) [1..num_of_blocks - 1]
      in (layers, inplanes))"

text \<open>\<open>nn.Sequential(*layers)\<close> of blocks, for a given forward of one block.\<close>

fun stage_forward ::
  "(bool \<Rightarrow> block \<Rightarrow> shape \<Rightarrow> shape result) \<Rightarrow> bool \<Rightarrow> block list \<Rightarrow> shape \<Rightarrow> shape result" where
  "stage_forward F t [] x = Inr x"
| "stage_forward F t (b # bs) x = rbind (F t b x) (stage_forward F t bs)"

text \<open>
  Spec section 3's stage: a non-empty sequence of blocks whose first block maps the
  running width \<open>i\<close> at the stage's stride and whose other blocks map
  \<open>planes * expansion\<close> to itself at stride 1, each satisfying the block invariant.
\<close>

definition stage_wf :: "block_kind \<Rightarrow> nat \<Rightarrow> nat \<Rightarrow> nat \<Rightarrow> block list \<Rightarrow> bool" where
  "stage_wf k i p s bs \<longleftrightarrow>
     bs \<noteq> [] \<and> block_wf k i p s (hd bs) \<and> list_all (block_wf k (p * expansion k) p 1) (tl bs)"

subsection \<open>What the builders return\<close>

lemma make_layers_eq:
  "make_layers block planes n stride inplanes =
     (block_new block inplanes planes stride None
        # replicate (nat (n - 1)) (block_new block (planes * expansion block) planes 1 None),
      planes * expansion block)"
  by (simp add: make_layers_def Let_def map_replicate_const)

lemma make_layers_spec_eq:
  "make_layers_spec block planes n stride inplanes =
     (block_new_spec block inplanes planes stride (downsample_for block planes stride inplanes)
        # replicate (nat (n - 1)) (block_new_spec block (planes * expansion block) planes 1 None),
      planes * expansion block)"
  by (simp add: make_layers_spec_def Let_def map_replicate_const)

lemma downsample_for_None_iff:
  "downsample_for block planes stride inplanes = None \<longleftrightarrow>
     stride = 1 \<and> inplanes = planes * expansion block"
  by (simp add: downsample_for_def)

lemma shortcut_ok_downsample_for:
  "shortcut_ok inplanes (planes * expansion block) stride (downsample_for block planes stride inplanes)"
  by (simp add: downsample_for_def shortcut_ok_def)

lemma block_downsample_new_spec [simp]: "block_downsample (block_new_spec k i p s ds) = ds"
  by (cases k) (simp_all add: basic_block_init_spec_def bottleneck_init_spec_def)

lemma block_downsample_new [simp]: "block_downsample (block_new k i p s ds) = ds"
  by (cases k) (simp_all add: basic_block_init_def bottleneck_init_def)

lemma block_wf_new_spec:
  "0 < s \<Longrightarrow> shortcut_ok i (p * expansion k) s ds \<Longrightarrow> block_wf k i p s (block_new_spec k i p s ds)"
  by (simp add: block_wf_def)

subsection \<open>Stage forward\<close>

lemma stage_forward_append:
  "stage_forward F t (bs @ bs') x = rbind (stage_forward F t bs x) (stage_forward F t bs')"
  by (induction bs arbitrary: x) (simp_all add: rbind_def split: sum.split)

lemma stage_forward_replicate:
  "F t b x = Inr x \<Longrightarrow> stage_forward F t (replicate m b) x = Inr x"
  by (induction m) simp_all

lemma stage_forward_Cons_error:
  "(\<And>x. is_error (F t b x)) \<Longrightarrow> is_error (stage_forward F t (b # bs) x)"
  by (simp add: is_error_rbind)

lemma block_wf_first: "0 < s \<Longrightarrow> block_wf k i p s (block_new_spec k i p s (downsample_for k p s i))"
  by (rule block_wf_new_spec) (simp_all add: shortcut_ok_downsample_for)

lemma block_wf_no_shortcut:
  "block_wf k i p s b \<Longrightarrow> block_downsample b = None \<Longrightarrow> i = p * expansion k \<and> s = 1"
  by (simp add: block_wf_def shortcut_ok_def)

lemma make_layers_spec_stage_wf: "0 < s \<Longrightarrow> stage_wf k i p s (fst (make_layers_spec k p m s i))"
proof -
  assume "0 < s"
  then have "block_wf k i p s (block_new_spec k i p s (downsample_for k p s i))" by (rule block_wf_first)
  moreover have "block_wf k (p * expansion k) p 1 (block_new_spec k (p * expansion k) p 1 None)"
    by (rule block_wf_new_spec) (simp_all add: shortcut_ok_def)
  ultimately show ?thesis by (simp add: stage_wf_def make_layers_spec_eq list_all_iff)
qed

lemma make_layers_spec_forward:
  assumes "0 < s" "0 < h" "0 < w" and bn: "\<not> (t \<and> n * stride_dim h s * stride_dim w s = 1)"
  shows "stage_forward block_forward_bound t (fst (make_layers_spec k p m s i)) [n, i, h, w]
           = Inr [n, p * expansion k, stride_dim h s, stride_dim w s]"
proof -
  let ?e = "p * expansion k" and ?h = "stride_dim h s" and ?w = "stride_dim w s"
  have wf1: "block_wf k i p s (block_new_spec k i p s (downsample_for k p s i))"
    using assms(1) by (rule block_wf_first)
  have first: "block_forward_bound t (block_new_spec k i p s (downsample_for k p s i)) [n, i, h, w]
      = Inr [n, ?e, ?h, ?w]"
    using wf1 assms(2,3) bn by (rule block_forward_bound_wf)
  have wf2: "block_wf k ?e p 1 (block_new_spec k ?e p 1 None)"
    by (rule block_wf_new_spec) (simp_all add: shortcut_ok_def)
  have rest: "block_forward_bound t (block_new_spec k ?e p 1 None) [n, ?e, ?h, ?w] = Inr [n, ?e, ?h, ?w]"
    using block_forward_bound_wf [OF wf2, of ?h ?w t n] bn by simp
  show ?thesis
    using first rest by (simp add: make_layers_spec_eq stage_forward_replicate)
qed

text \<open>
  In training mode a stage raises exactly when its output holds one value per channel:
  the first block then raises (its last normalisation sees that output), and otherwise
  no block does.
\<close>

lemma make_layers_spec_forward_exact:
  assumes "0 < s" "0 < h" "0 < w"
  shows "stage_forward block_forward_bound t (fst (make_layers_spec k p m s i)) [n, i, h, w] =
    (if t \<and> n * stride_dim h s * stride_dim w s = 1 then Inl bn_single_error
     else Inr [n, p * expansion k, stride_dim h s, stride_dim w s])"
proof (cases "t \<and> n * stride_dim h s * stride_dim w s = 1")
  case True
  have "block_forward_bound t (block_new_spec k i p s (downsample_for k p s i)) [n, i, h, w]
          = Inl bn_single_error"
    using block_forward_bound_single [OF block_wf_first [OF assms(1)] assms(2,3)] True by simp
  with True show ?thesis by (simp add: make_layers_spec_eq)
next
  case False
  with assms show ?thesis by (simp add: make_layers_spec_forward)
qed

subsection \<open>Properties of the stage builder as written\<close>

text \<open>
  C4: no block that \<open>_make_layers\<close> builds has a shortcut projection: the
  \<open>downsample\<close> it computes when the stride or the width changes (lines 125--130)
  is never passed to the block constructor (line 136).
\<close>

theorem make_layers_drops_downsample:
  "\<forall>b \<in> set (fst (make_layers block planes m stride inplanes)). block_downsample b = None"
  by (simp add: make_layers_eq)

theorem make_layers_drops_downsample_witness:
  "downsample_for BottleneckK 64 1 64 \<noteq> None \<and>
   block_downsample (hd (fst (make_layers BottleneckK 64 3 1 64))) = None"
proof -
  have "hd (fst (make_layers BottleneckK 64 3 1 64)) \<in> set (fst (make_layers BottleneckK 64 3 1 64))"
    by (simp add: make_layers_def)
  then show ?thesis
    using make_layers_drops_downsample [of BottleneckK 64 3 1 64] by (simp add: downsample_for_def)
qed

text \<open>
  C5: a stage built by \<open>_make_layers\<close> with \<open>num_of_blocks = m\<close> has \<open>m\<close>
  blocks when \<open>m \<ge> 1\<close>, and one block otherwise: the first block is appended
  before the loop over \<open>range(1, m)\<close>, which is empty for \<open>m \<le> 1\<close>.
\<close>

theorem make_layers_length:
  "length (fst (make_layers block planes m stride inplanes)) = (if m \<le> 1 then 1 else nat m)"
  by (simp add: make_layers_eq) arith

subsection \<open>The spec's builder, and how the builder as written relates to it\<close>

text \<open>
  C12: the builder as written is the spec's builder with two things erased from every
  block: the stride of its strided convolution (the constructors ignore their
  \<open>stride\<close>) and its shortcut (\<open>_make_layers\<close> drops \<open>downsample\<close>). The
  running tally it returns is the spec's.
\<close>

theorem make_layers_refines_spec:
  "make_layers block planes m stride inplanes
     = apfst (map erase_block) (make_layers_spec block planes m stride inplanes)"
  by (simp add: make_layers_eq make_layers_spec_eq)

text \<open>
  C13: the channel counts of a stage built as written are those of spec section 8:
  the first block reads the running width, every block outputs
  \<open>planes * expansion\<close>, and every block after the first reads that width.
\<close>

theorem make_layers_channels:
  "block_in (hd (fst (make_layers block planes m stride inplanes))) = inplanes \<and>
   (\<forall>b \<in> set (fst (make_layers block planes m stride inplanes)). block_out b = planes * expansion block) \<and>
   (\<forall>b \<in> set (tl (fst (make_layers block planes m stride inplanes))). block_in b = planes * expansion block)"
  by (simp add: make_layers_eq)

theorem make_layers_channels_witness:
  "block_in (hd (fst (make_layers BottleneckK 128 4 2 256))) = 256 \<and>
   block_out (last (fst (make_layers BottleneckK 128 4 2 256))) = 512 \<and>
   block_in (last (fst (make_layers BottleneckK 128 4 2 256))) = 512"
proof -
  have "last (fst (make_layers BottleneckK 128 4 2 256)) \<in> set (tl (fst (make_layers BottleneckK 128 4 2 256)))"
    "last (fst (make_layers BottleneckK 128 4 2 256)) \<in> set (fst (make_layers BottleneckK 128 4 2 256))"
    by (simp_all add: make_layers_eq)
  then show ?thesis using make_layers_channels [of BottleneckK 128 4 2 256] by simp
qed

text \<open>
  C14: the builder as written never downsamples: every block of every stage has main
  path stride 1, whatever the stage's \<open>stride\<close>, because neither block
  constructor uses its \<open>stride\<close> argument. The spec's builder applies the stride
  once, in the first block.
\<close>

theorem make_layers_stride_ignored:
  "map block_stride (fst (make_layers block planes m stride inplanes))
     = replicate (length (fst (make_layers block planes m stride inplanes))) 1 \<and>
   map block_stride (fst (make_layers_spec block planes m stride inplanes))
     = stride # replicate (length (fst (make_layers_spec block planes m stride inplanes)) - 1) 1"
  by (simp add: make_layers_eq make_layers_spec_eq)

end
