(* ===== verification/Model.thy ===== *)
theory Model
  imports Stages
begin

text \<open>
  The container \<open>ResNet\<close> (src/resnet-study.py, lines 87--164), the five presets
  (lines 170--183) and the script's top-level statements (lines 83--86, 166--168,
  185--187). A \<open>ResNet\<close> object is the record \<open>resnet\<close> of its attributes (the stage attributes \<open>conv2_\<close> ... \<open>conv5_\<close> are the fields \<open>conv2_x\<close> ... \<open>conv5_x\<close>, a trailing underscore not being a name of Isabelle's term language);
  \<open>inplanes\<close> holds the channel tally after construction.

  \<open>resnet_init_with\<close> is \<open>__init__\<close> over the stage builder it calls as
  \<open>self._make_layers\<close>; \<open>resnet_init\<close> instantiates it with the builder as written,
  \<open>resnet_init_spec\<close> with the builder of spec 4.3. Likewise \<open>resnet_forward_with\<close>
  is \<open>forward\<close> over the forward of one block: \<open>resnet_forward\<close> uses the block
  forwards as written, \<open>resnet_forward_spec\<close> the ones bound to the block's
  submodules. The bool argument of the forwards is the module's \<open>training\<close> flag,
  which PyTorch sets for the whole module tree; a freshly constructed model is in
  training mode. \<open>resnet_wf\<close> is the model invariant of spec section 3: the spec's
  construction establishes it and the construction as written never does.
\<close>

record resnet =
  inplanes :: nat
  conv1 :: layer
  bn1 :: layer
  relu :: layer
  maxpool :: layer
  conv2_x :: "block list"
  conv3_x :: "block list"
  conv4_x :: "block list"
  conv5_x :: "block list"
  fc :: layer
  avgpool :: layer

type_synonym stage_builder = "block_kind \<Rightarrow> nat \<Rightarrow> int \<Rightarrow> nat \<Rightarrow> nat \<Rightarrow> block list \<times> nat"

type_synonym block_semantics = "bool \<Rightarrow> block \<Rightarrow> shape \<Rightarrow> shape result"

definition stem_conv :: layer where
  "stem_conv = Conv2d \<lparr>in_channels = 3, out_channels = 64, kernel_size = 7,
                       conv_stride = 2, conv_padding = 3, conv_bias = False\<rparr>"

definition resnet_init_with :: "stage_builder \<Rightarrow> block_kind \<Rightarrow> int list \<Rightarrow> int \<Rightarrow> resnet result" where
  "resnet_init_with make_stage block layers num_classes =
     rbind (py_index layers 0) (\<lambda>n0. case make_stage block 64 n0 1 64 of (s2, i2) \<Rightarrow>
     rbind (py_index layers 1) (\<lambda>n1. case make_stage block 128 n1 2 i2 of (s3, i3) \<Rightarrow>
     rbind (py_index layers 2) (\<lambda>n2. case make_stage block 256 n2 2 i3 of (s4, i4) \<Rightarrow>
     rbind (py_index layers 3) (\<lambda>n3. case make_stage block 512 n3 2 i4 of (s5, i5) \<Rightarrow>
     rbind (linear_new (512 * expansion block) num_classes) (\<lambda>fc_layer.
     Inr \<lparr>inplanes = i5, conv1 = stem_conv, bn1 = BatchNorm2d 64, relu = ReLU,
          maxpool = MaxPool2d 3 2 1, conv2_x = s2, conv3_x = s3, conv4_x = s4, conv5_x = s5,
          fc = fc_layer, avgpool = AdaptiveAvgPool2d (1, 1)\<rparr>)))))"

definition resnet_init :: "block_kind \<Rightarrow> int list \<Rightarrow> int \<Rightarrow> resnet result" where
  "resnet_init = resnet_init_with make_layers"

definition resnet_init_spec :: "block_kind \<Rightarrow> int list \<Rightarrow> int \<Rightarrow> resnet result" where
  "resnet_init_spec = resnet_init_with make_layers_spec"

definition resnet_forward_with :: "block_semantics \<Rightarrow> bool \<Rightarrow> resnet \<Rightarrow> shape \<Rightarrow> shape result" where
  "resnet_forward_with F t net x =
     rbind (layer_forward t (conv1 net) x) (\<lambda>out.
     rbind (layer_forward t (bn1 net) out) (\<lambda>out.
     rbind (layer_forward t (relu net) out) (\<lambda>out.
     rbind (layer_forward t (maxpool net) out) (\<lambda>out.
     rbind (stage_forward F t (conv2_x net) out) (\<lambda>out.
     rbind (stage_forward F t (conv3_x net) out) (\<lambda>out.
     rbind (stage_forward F t (conv4_x net) out) (\<lambda>out.
     rbind (stage_forward F t (conv5_x net) out) (\<lambda>out.
     rbind (layer_forward t (avgpool net) out) (\<lambda>out.
     rbind (flatten out 1) (\<lambda>out.
     layer_forward t (fc net) out))))))))))"

definition resnet_forward :: "bool \<Rightarrow> resnet \<Rightarrow> shape \<Rightarrow> shape result" where
  "resnet_forward = resnet_forward_with block_forward"

definition resnet_forward_spec :: "bool \<Rightarrow> resnet \<Rightarrow> shape \<Rightarrow> shape result" where
  "resnet_forward_spec = resnet_forward_with block_forward_bound"

subsection \<open>Presets and the script\<close>

definition ResNet18 :: "resnet result" where
  "ResNet18 = resnet_init BasicBlockK [2, 2, 2, 2] 1000"

definition ResNet34 :: "resnet result" where
  "ResNet34 = resnet_init BasicBlockK [3, 4, 6, 3] 1000"

definition ResNet50 :: "resnet result" where
  "ResNet50 = resnet_init BottleneckK [3, 4, 6, 3] 1000"

definition ResNet101 :: "resnet result" where
  "ResNet101 = resnet_init BottleneckK [3, 4, 23, 3] 1000"

definition ResNet152 :: "resnet result" where
  "ResNet152 = resnet_init BottleneckK [3, 8, 36, 3] 1000"

text \<open>
  The statements the script runs at import time: the inline tests build
  \<open>myneck = Bottleneck(64, 64)\<close>, \<open>mynet50 = ResNet(Bottleneck, [3, 4, 6, 3])\<close>
  and \<open>mynet101 = ResNet101()\<close>; the bare expressions that display them have no
  effect on the state.
\<close>

definition script :: "(block \<times> resnet \<times> resnet) result" where
  "script =
     (let myneck = block_new BottleneckK 64 64 1 None in
      rbind (resnet_init BottleneckK [3, 4, 6, 3] 1000) (\<lambda>mynet50.
      rbind ResNet101 (\<lambda>mynet101. Inr (myneck, mynet50, mynet101))))"

subsection \<open>Depth\<close>

text \<open>
  The number in a ResNet's name counts its weighted layers (convolutions and the
  classifier) along the main path, shortcut projections excluded.
\<close>

fun is_weighted :: "layer \<Rightarrow> bool" where
  "is_weighted (Conv2d _) = True"
| "is_weighted (Linear _ _) = True"
| "is_weighted _ = False"

definition block_depth :: "block \<Rightarrow> nat" where
  "block_depth b = length (filter is_weighted (block_main_layers b))"

definition depth :: "resnet \<Rightarrow> nat" where
  "depth net =
     length (filter is_weighted [conv1 net, bn1 net, relu net, maxpool net])
     + sum_list (map block_depth (conv2_x net @ conv3_x net @ conv4_x net @ conv5_x net))
     + length (filter is_weighted [avgpool net, fc net])"

subsection \<open>The model invariant\<close>

text \<open>
  Spec section 3's model: four stages of the widths and strides of spec 4.4, each
  reading the width the previous one outputs, and the tally \<open>inplanes\<close> left at
  the width of the last stage once construction is over.
\<close>

definition resnet_wf :: "block_kind \<Rightarrow> resnet \<Rightarrow> bool" where
  "resnet_wf k net \<longleftrightarrow>
     stage_wf k 64 64 1 (conv2_x net) \<and>
     stage_wf k (64 * expansion k) 128 2 (conv3_x net) \<and>
     stage_wf k (128 * expansion k) 256 2 (conv4_x net) \<and>
     stage_wf k (256 * expansion k) 512 2 (conv5_x net) \<and>
     inplanes net = 512 * expansion k"

text \<open>
  The abstraction from the spec's model to the model as written: every block of every
  stage erased (\<open>erase_block\<close>: the stride of its strided convolution reset to 1,
  its shortcut dropped).
\<close>

definition erase_net :: "resnet \<Rightarrow> resnet" where
  "erase_net net = net\<lparr>conv2_x := map erase_block (conv2_x net), conv3_x := map erase_block (conv3_x net),
     conv4_x := map erase_block (conv4_x net), conv5_x := map erase_block (conv5_x net)\<rparr>"

subsection \<open>Construction\<close>

lemma resnet_init_with_short:
  "length layers < 4 \<Longrightarrow>
     resnet_init_with make_stage block layers num_classes = Inl (IndexError ''list index out of range'')"
  by (cases "length layers \<le> 0"; cases "length layers \<le> 1"; cases "length layers \<le> 2")
    (simp_all add: resnet_init_with_def split_def)

lemma resnet_init_with_negative:
  "4 \<le> length layers \<Longrightarrow> num_classes < 0 \<Longrightarrow>
     resnet_init_with make_stage block layers num_classes
       = Inl (RuntimeError ''Trying to create tensor with negative dimension'')"
proof -
  assume "4 \<le> length layers" "num_classes < 0"
  moreover from \<open>4 \<le> length layers\<close>
  have "layers \<noteq> []" "1 < length layers" "2 < length layers" "3 < length layers" by auto
  ultimately show ?thesis by (simp add: resnet_init_with_def split_def linear_new_def)
qed

lemma resnet_init_with_ok:
  assumes "4 \<le> length layers" "0 \<le> num_classes"
  shows "\<exists>net. resnet_init_with make_stage block layers num_classes = Inr net"
proof -
  from assms(1) have "layers \<noteq> []" "1 < length layers" "2 < length layers" "3 < length layers" by auto
  with assms(2) show ?thesis by (simp add: resnet_init_with_def split_def linear_new_def)
qed

lemma resnet_init_with_erase:
  assumes "\<And>p m s i. make1 block p m s i = apfst (map erase_block) (make2 block p m s i)"
  shows "resnet_init_with make1 block layers num_classes
           = map_sum id erase_net (resnet_init_with make2 block layers num_classes)"
  unfolding resnet_init_with_def assms
  by (simp add: rbind_def split_def erase_net_def split: sum.split)

lemma resnet_init_with_Inr:
  assumes "resnet_init_with make_stage block layers num_classes = Inr net"
  shows "4 \<le> length layers \<and> 0 \<le> num_classes \<and>
    (let (s2, i2) = make_stage block 64 (layers ! 0) 1 64;
         (s3, i3) = make_stage block 128 (layers ! 1) 2 i2;
         (s4, i4) = make_stage block 256 (layers ! 2) 2 i3;
         (s5, i5) = make_stage block 512 (layers ! 3) 2 i4
     in net = \<lparr>inplanes = i5, conv1 = stem_conv, bn1 = BatchNorm2d 64, relu = ReLU,
          maxpool = MaxPool2d 3 2 1, conv2_x = s2, conv3_x = s3, conv4_x = s4, conv5_x = s5,
          fc = Linear (512 * expansion block) (nat num_classes), avgpool = AdaptiveAvgPool2d (1, 1)\<rparr>)"
proof -
  have len: "4 \<le> length layers"
  proof (rule ccontr)
    assume "\<not> 4 \<le> length layers"
    with assms show False by (simp add: resnet_init_with_short)
  qed
  have nc: "0 \<le> num_classes"
  proof (rule ccontr)
    assume "\<not> 0 \<le> num_classes"
    with len assms show False by (simp add: resnet_init_with_negative)
  qed
  from len have "layers \<noteq> []" "1 < length layers" "2 < length layers" "3 < length layers"
    by auto
  with nc assms show ?thesis
    by (auto simp add: resnet_init_with_def split_def linear_new_def Let_def)
qed

subsection \<open>Forward through the stem and the head\<close>

lemma stem_conv_forward:
  "0 < h \<Longrightarrow> 0 < w \<Longrightarrow> layer_forward t stem_conv [n, 3, h, w] = Inr [n, 64, half_up h, half_up w]"
  by (simp add: stem_conv_def conv2d_forward_def out_dim_def half_up_def)

lemma maxpool_forward:
  "0 < c \<Longrightarrow> 0 < h \<Longrightarrow> 0 < w \<Longrightarrow>
     layer_forward t (MaxPool2d 3 2 1) [n, c, h, w] = Inr [n, c, half_up h, half_up w]"
  by (simp add: max_pool2d_forward_def out_dim_def half_up_def)

lemma avgpool_forward:
  "0 < c \<Longrightarrow> 0 < h \<Longrightarrow> 0 < w \<Longrightarrow>
     layer_forward t (AdaptiveAvgPool2d (1, 1)) [n, c, h, w] = Inr [n, c, 1, 1]"
  by (simp add: adaptive_avg_pool2d_forward_def)

subsection \<open>The spec's stages\<close>

lemma resnet_init_with_fields:
  assumes "resnet_init_with make_stage block layers num_classes = Inr net"
  shows "conv1 net = stem_conv \<and> bn1 net = BatchNorm2d 64 \<and> relu net = ReLU \<and>
    maxpool net = MaxPool2d 3 2 1 \<and> fc net = Linear (512 * expansion block) (nat num_classes) \<and>
    avgpool net = AdaptiveAvgPool2d (1, 1)"
  using resnet_init_with_Inr [OF assms] by (simp add: split_def Let_def)

lemma resnet_init_spec_stage_defs:
  assumes "resnet_init_spec k layers nc = Inr net"
  shows "conv2_x net = fst (make_layers_spec k 64 (layers ! 0) 1 64)"
    "conv3_x net = fst (make_layers_spec k 128 (layers ! 1) 2 (64 * expansion k))"
    "conv4_x net = fst (make_layers_spec k 256 (layers ! 2) 2 (128 * expansion k))"
    "conv5_x net = fst (make_layers_spec k 512 (layers ! 3) 2 (256 * expansion k))"
  using resnet_init_with_Inr [of make_layers_spec k layers nc net] assms
  by (simp_all add: resnet_init_spec_def make_layers_spec_eq Let_def)

text \<open>
  The four stages of the spec's model, each on the output of the previous one: stage
  \<open>conv2_x\<close> keeps the spatial size, the others halve it (rounding up); each raises
  exactly when its output holds one value per channel in training mode.
\<close>

lemma resnet_init_spec_stages_exact:
  assumes init: "resnet_init_spec k layers nc = Inr net" and "0 < h" "0 < w"
  shows "stage_forward block_forward_bound t (conv2_x net) [n, 64, h, w] =
      (if t \<and> n * h * w = 1 then Inl bn_single_error else Inr [n, 64 * expansion k, h, w])"
    "stage_forward block_forward_bound t (conv3_x net) [n, 64 * expansion k, h, w] =
      (if t \<and> n * half_up h * half_up w = 1 then Inl bn_single_error
       else Inr [n, 128 * expansion k, half_up h, half_up w])"
    "stage_forward block_forward_bound t (conv4_x net) [n, 128 * expansion k, half_up h, half_up w] =
      (if t \<and> n * half_up (half_up h) * half_up (half_up w) = 1 then Inl bn_single_error
       else Inr [n, 256 * expansion k, half_up (half_up h), half_up (half_up w)])"
    "stage_forward block_forward_bound t (conv5_x net)
        [n, 256 * expansion k, half_up (half_up h), half_up (half_up w)] =
      (if t \<and> n * half_up (half_up (half_up h)) * half_up (half_up (half_up w)) = 1
       then Inl bn_single_error
       else Inr [n, 512 * expansion k, half_up (half_up (half_up h)), half_up (half_up (half_up w))])"
  unfolding resnet_init_spec_stage_defs [OF init]
  using make_layers_spec_forward_exact [where s = 1 and h = h and w = w and p = 64 and i = 64]
    make_layers_spec_forward_exact [where s = 2 and h = h and w = w and p = 128 and i = "64 * expansion k"]
    make_layers_spec_forward_exact [where s = 2 and h = "half_up h" and w = "half_up w" and p = 256
      and i = "128 * expansion k"]
    make_layers_spec_forward_exact [where s = 2 and h = "half_up (half_up h)" and w = "half_up (half_up w)"
      and p = 512 and i = "256 * expansion k"]
    assms(2,3)
  by simp_all

lemma resnet_forward_with_empty_image:
  assumes "resnet_init_with make_stage block layers num_classes = Inr net" "h = 0 \<or> w = 0"
  shows "resnet_forward_with F t net [n, 3, h, w]
           = Inl (RuntimeError ''Kernel size cannot be greater than actual input size'')"
  using resnet_init_with_fields [OF assms(1)] assms(2) unfolding resnet_forward_with_def
  by (auto simp: stem_conv_def conv2d_forward_def)

subsection \<open>Properties of the model as written\<close>

lemma resnet_init_stages:
  assumes "resnet_init block layers num_classes = Inr net"
  shows "conv2_x net = fst (make_layers block 64 (layers ! 0) 1 64) \<and>
    conv3_x net = fst (make_layers block 128 (layers ! 1) 2 (64 * expansion block)) \<and>
    conv4_x net = fst (make_layers block 256 (layers ! 2) 2 (128 * expansion block)) \<and>
    conv5_x net = fst (make_layers block 512 (layers ! 3) 2 (256 * expansion block))"
  using resnet_init_with_Inr [of make_layers block layers num_classes net] assms
  by (simp add: resnet_init_def make_layers_eq Let_def)

lemma resnet_forward_with_conv2_error:
  "(\<And>y. is_error (stage_forward F t (conv2_x net) y)) \<Longrightarrow> is_error (resnet_forward_with F t net x)"
  unfolding resnet_forward_with_def by (simp add: is_error_rbindI is_error_rbind_first)

lemma resnet_forward_with_conv3_error:
  "(\<And>y. is_error (stage_forward F t (conv3_x net) y)) \<Longrightarrow> is_error (resnet_forward_with F t net x)"
  unfolding resnet_forward_with_def by (simp add: is_error_rbindI is_error_rbind_first)

lemma block_depth_new:
  "block_depth (block_new k i p s ds) = (case k of BasicBlockK \<Rightarrow> 2 | BottleneckK \<Rightarrow> 3)"
  by (cases k) (simp_all add: block_depth_def basic_block_init_def bottleneck_init_def conv3x3_def conv1x1_def)

lemma stage_depth:
  "sum_list (map block_depth (fst (make_layers k p m s i)))
     = (case k of BasicBlockK \<Rightarrow> 2 | BottleneckK \<Rightarrow> 3) * nat (max 1 m)"
proof -
  have "nat (max 1 m) = Suc (nat (m - 1))" by arith
  then show ?thesis by (simp add: make_layers_eq block_depth_new sum_list_replicate)
qed

text \<open>
  C3: no model built by \<open>ResNet.__init__\<close> as written can complete a forward
  pass: whatever the input, \<open>forward\<close> raises. Whatever the stem makes of the
  input, the first block of \<open>conv2_\<close> raises (C6, C7).
\<close>

theorem resnet_forward_always_raises:
  assumes "resnet_init block layers num_classes = Inr net"
  shows "is_error (resnet_forward t net x)"
proof -
  have "\<And>y. is_error (stage_forward block_forward t (conv2_x net) y)"
    using resnet_init_stages [OF assms] by (simp add: make_layers_eq is_error_rbind_first block_forward_is_error)
  then show ?thesis
    unfolding resnet_forward_def by (rule resnet_forward_with_conv2_error)
qed

theorem resnet_forward_always_raises_witness:
  "is_error (rbind ResNet18 (\<lambda>net. resnet_forward False net [2, 3, 64, 64]))"
proof -
  obtain net where net: "ResNet18 = Inr net"
    by (simp add: ResNet18_def resnet_init_def resnet_init_with_def split_def linear_new_def)
  then have "resnet_init BasicBlockK [2, 2, 2, 2] 1000 = Inr net" by (simp add: ResNet18_def)
  then have "is_error (resnet_forward False net [2, 3, 64, 64])" by (rule resnet_forward_always_raises)
  then show ?thesis unfolding net by simp
qed

text \<open>
  C10: \<open>ResNet(block, layers)\<close> with fewer than four repeat counts raises
  \<open>IndexError\<close> while reading \<open>layers[0..3]\<close>.
\<close>

theorem resnet_init_short_layers:
  "length layers < 4 \<Longrightarrow>
     resnet_init block layers num_classes = Inl (IndexError ''list index out of range'')"
  by (simp add: resnet_init_def resnet_init_with_short)

theorem resnet_init_short_layers_witness:
  "resnet_init BasicBlockK [2, 2, 2] 1000 = Inl (IndexError ''list index out of range'')"
  using resnet_init_short_layers [of "[2, 2, 2]" BasicBlockK 1000] by simp

text \<open>
  C11: with four repeat counts, a negative \<open>num_classes\<close> makes \<open>nn.Linear\<close>
  raise \<open>RuntimeError\<close>; it is the only other way construction can fail.
\<close>

theorem resnet_init_negative_classes:
  "4 \<le> length layers \<Longrightarrow>
     (is_error (resnet_init block layers num_classes) \<longleftrightarrow> num_classes < 0)"
proof -
  assume len: "4 \<le> length layers"
  have "\<not> is_error (resnet_init block layers num_classes)" if "0 \<le> num_classes"
  proof -
    from len have "layers \<noteq> []" "1 < length layers" "2 < length layers" "3 < length layers"
      by auto
    with that show ?thesis
      by (simp add: resnet_init_def resnet_init_with_def split_def linear_new_def)
  qed
  moreover have "is_error (resnet_init block layers num_classes)" if "num_classes < 0"
    using len that by (simp add: resnet_init_def resnet_init_with_negative)
  ultimately show ?thesis by linarith
qed

theorem resnet_init_negative_classes_witness:
  "is_error (resnet_init BottleneckK [3, 4, 6, 3] (-1)) \<and> \<not> is_error (resnet_init BottleneckK [3, 4, 6, 3] 10)"
  using resnet_init_negative_classes [of "[3, 4, 6, 3]" BottleneckK "-1"]
    resnet_init_negative_classes [of "[3, 4, 6, 3]" BottleneckK 10]
  by simp

text \<open>
  C16: the depth of any model built as written, for repeat counts \<open>[a, b, c, d]\<close>:
  the stem convolution and the classifier, plus 2 weighted layers per BasicBlock or 3
  per Bottleneck, with a count below 1 giving one block (C5).
\<close>

theorem depth_formula:
  assumes "resnet_init block [a, b, c, d] num_classes = Inr net"
  shows "depth net = 2 + (case block of BasicBlockK \<Rightarrow> 2 | BottleneckK \<Rightarrow> 3)
                           * (nat (max 1 a) + nat (max 1 b) + nat (max 1 c) + nat (max 1 d))"
proof -
  have fields: "conv1 net = stem_conv \<and> bn1 net = BatchNorm2d 64 \<and> relu net = ReLU \<and>
      maxpool net = MaxPool2d 3 2 1 \<and> fc net = Linear (512 * expansion block) (nat num_classes) \<and>
      avgpool net = AdaptiveAvgPool2d (1, 1)"
    using assms unfolding resnet_init_def by (rule resnet_init_with_fields)
  from resnet_init_stages [OF assms] fields show ?thesis
    by (simp add: depth_def stage_depth stem_conv_def algebra_simps)
qed

theorem depth_formula_witness:
  "map_sum id depth (resnet_init BottleneckK [3, 4, 23, 3] 1000) = Inr 101"
proof -
  obtain net where net: "resnet_init BottleneckK [3, 4, 23, 3] 1000 = Inr net"
    by (simp add: resnet_init_def resnet_init_with_def split_def linear_new_def)
  have "depth net = 101" using depth_formula [OF net] by simp
  then show ?thesis unfolding net by simp
qed

subsection \<open>Construction and the model invariant\<close>

text \<open>
  C18: every model built by the spec's construction satisfies the invariant of spec
  section 3: four stages, each a chain of blocks satisfying the block invariant at
  the widths and strides of spec 4.4, and the tally \<open>inplanes\<close> at
  \<open>512 * expansion\<close> once construction is over.
\<close>

theorem resnet_init_spec_wf:
  assumes "resnet_init_spec k layers nc = Inr net"
  shows "resnet_wf k net"
proof -
  have "inplanes net = 512 * expansion k"
    using resnet_init_with_Inr [of make_layers_spec k layers nc net] assms
    by (simp add: resnet_init_spec_def make_layers_spec_eq Let_def)
  then show ?thesis
    unfolding resnet_wf_def resnet_init_spec_stage_defs [OF assms] by (simp add: make_layers_spec_stage_wf)
qed

theorem resnet_init_spec_wf_witness:
  "rbind (resnet_init_spec BottleneckK [3, 4, 6, 3] 1000) (\<lambda>net. Inr (resnet_wf BottleneckK net)) = Inr True"
proof -
  obtain net where net: "resnet_init_spec BottleneckK [3, 4, 6, 3] 1000 = Inr net"
    by (simp add: resnet_init_spec_def resnet_init_with_def split_def linear_new_def)
  then have "resnet_wf BottleneckK net" by (rule resnet_init_spec_wf)
  with net show ?thesis by simp
qed

text \<open>
  C19: \<open>ResNet.__init__\<close> as written returns a model that violates that invariant,
  for every block class and all repeat counts, without raising: the first block of
  \<open>conv3_\<close> halves the spatial size (stride 2 in the spec's invariant) and has no
  shortcut. Spec section 7 asks for this to be rejected at construction; the script
  only fails in \<open>forward\<close> (C3).
\<close>

theorem resnet_init_not_wf:
  assumes "resnet_init k layers nc = Inr net"
  shows "\<not> resnet_wf k net"
proof -
  have "hd (conv3_x net) = block_new k (64 * expansion k) 128 2 None"
    using resnet_init_stages [OF assms] by (simp add: make_layers_eq)
  then show ?thesis by (auto simp: resnet_wf_def stage_wf_def dest: block_wf_no_shortcut)
qed

theorem resnet_init_not_wf_witness:
  "rbind ResNet18 (\<lambda>net. Inr (resnet_wf BasicBlockK net)) = Inr False"
proof -
  obtain net where net: "ResNet18 = Inr net"
    by (simp add: ResNet18_def resnet_init_def resnet_init_with_def split_def linear_new_def)
  then have "resnet_init BasicBlockK [2, 2, 2, 2] 1000 = Inr net" by (simp add: ResNet18_def)
  then have "\<not> resnet_wf BasicBlockK net" by (rule resnet_init_not_wf)
  then show ?thesis unfolding net by simp
qed

text \<open>
  C20: the stem's input checks, for every model built by either construction and with
  either block semantics. An unbatched image \<open>[3, h, w]\<close> passes the first
  convolution (\<open>nn.Conv2d\<close> accepts 3-d input) and is then refused by
  \<open>nn.BatchNorm2d\<close>, which requires 4-d input; a batched input whose channel count is
  not 3 is refused by the first convolution.
\<close>

theorem resnet_forward_stem_errors:
  assumes "resnet_init_with make_stage block layers num_classes = Inr net"
  shows "(0 < h \<and> 0 < w \<longrightarrow>
      resnet_forward_with F t net [3, h, w] = Inl (ValueError ''expected 4D input'')) \<and>
    (c \<noteq> 3 \<longrightarrow> resnet_forward_with F t net [n, c, h, w]
      = Inl (RuntimeError ''expected input to have in_channels channels''))"
  using resnet_init_with_fields [OF assms] unfolding resnet_forward_with_def
  by (simp add: stem_conv_def conv2d_forward_def batch_norm_forward_def)

theorem resnet_forward_stem_errors_witness:
  "rbind ResNet18 (\<lambda>net. resnet_forward True net [3, 224, 224]) = Inl (ValueError ''expected 4D input'') \<and>
   rbind ResNet18 (\<lambda>net. resnet_forward True net [1, 1, 224, 224])
     = Inl (RuntimeError ''expected input to have in_channels channels'')"
proof -
  obtain net where net: "ResNet18 = Inr net"
    by (simp add: ResNet18_def resnet_init_def resnet_init_with_def split_def linear_new_def)
  then have "resnet_init_with make_layers BasicBlockK [2, 2, 2, 2] 1000 = Inr net"
    by (simp add: ResNet18_def resnet_init_def)
  from resnet_forward_stem_errors [OF this, where h = 224 and w = 224 and c = 1 and n = 1 and F = block_forward
      and t = True]
  show ?thesis unfolding net resnet_forward_def by simp
qed

end
