(* ===== verification/Typing.thy ===== *)
theory Typing
  imports Model
begin

text \<open>
  A shape typing of the layers, blocks and stages, and the construction-time check
  that spec section 7 asks for (\<open>resnet_validate\<close>): the script has no such check
  (the model as written is accepted by \<open>ResNet.__init__\<close> and fails in
  \<open>forward\<close>, C3, C19), so this theory is the spec's requirement, stated
  executably and proved sound against the forward semantics.

  The type of a layer on a given input width is its output width and its spatial
  stride: a layer is typed only when its output size is \<open>stride_dim h s\<close> for every
  input size \<open>h \<ge> 1\<close>, which holds for convolutions and max-pooling whose padding is
  half their (odd) kernel, and for normalisation and activation. A block is typed
  when its main path and its shortcut have the same type and its activation keeps
  the width; a stage when its blocks chain. The validator walks the model the way
  \<open>ResNet.forward\<close> runs it and stops at the first block that is not typed,
  naming its stage and index (\<open>ConfigError\<close>).
\<close>

subsection \<open>Shape types\<close>

fun layer_ty :: "layer \<Rightarrow> nat \<Rightarrow> (nat \<times> nat) option" where
  "layer_ty (Conv2d cv) c =
     (if in_channels cv = c \<and> kernel_size cv = 2 * conv_padding cv + 1 \<and> 0 < conv_stride cv
      then Some (out_channels cv, conv_stride cv) else None)"
| "layer_ty (BatchNorm2d m) c = (if m = c then Some (c, 1) else None)"
| "layer_ty ReLU c = Some (c, 1)"
| "layer_ty (MaxPool2d k s p) c = (if 0 < c \<and> k = 2 * p + 1 \<and> 0 < s then Some (c, s) else None)"
| "layer_ty (AdaptiveAvgPool2d _) c = None"
| "layer_ty (Linear _ _) c = None"

fun seq_ty :: "layer list \<Rightarrow> nat \<Rightarrow> (nat \<times> nat) option" where
  "seq_ty [] c = Some (c, 1)"
| "seq_ty (l # ls) c =
     (case layer_ty l c of
        None \<Rightarrow> None
      | Some (c1, s1) \<Rightarrow> (case seq_ty ls c1 of None \<Rightarrow> None | Some (c2, s2) \<Rightarrow> Some (c2, s1 * s2)))"

text \<open>A block's main path in the order its forward runs it, and its final activation.\<close>

fun block_path :: "block \<Rightarrow> layer list" where
  "block_path (Basic b) = [bb_conv1 b, bb_bn1 b, bb_relu b, bb_conv2 b, bb_nb2 b]"
| "block_path (Bottle b) =
     [bt_conv1 b, bt_bn1 b, bt_relu b, bt_conv2 b, bt_bn2 b, bt_relu b, bt_conv3 b, bt_bn3 b]"

fun block_relu :: "block \<Rightarrow> layer" where
  "block_relu (Basic b) = bb_relu b"
| "block_relu (Bottle b) = bt_relu b"

definition shortcut_ty :: "layer list option \<Rightarrow> nat \<Rightarrow> (nat \<times> nat) option" where
  "shortcut_ty ds c = (case ds of None \<Rightarrow> Some (c, 1) | Some d \<Rightarrow> seq_ty d c)"

definition block_ty :: "block \<Rightarrow> nat \<Rightarrow> (nat \<times> nat) option" where
  "block_ty b c =
     (case seq_ty (block_path b) c of
        None \<Rightarrow> None
      | Some (c', s) \<Rightarrow>
          if shortcut_ty (block_downsample b) c = Some (c', s) \<and> layer_ty (block_relu b) c' = Some (c', 1)
          then Some (c', s) else None)"

subsection \<open>The construction-time check of spec section 7\<close>

fun check_blocks :: "string \<Rightarrow> nat \<Rightarrow> block list \<Rightarrow> nat \<Rightarrow> (nat \<times> nat) result" where
  "check_blocks stage j [] c = Inr (c, 1)"
| "check_blocks stage j (b # bs) c =
     (case block_ty b c of
        None \<Rightarrow> Inl (ConfigError stage j)
      | Some (c1, s1) \<Rightarrow> rbind (check_blocks stage (Suc j) bs c1) (\<lambda>(c2, s2). Inr (c2, s1 * s2)))"

definition resnet_validate :: "resnet \<Rightarrow> nat result" where
  "resnet_validate net =
     (case seq_ty [conv1 net, bn1 net, relu net, maxpool net] 3 of
        None \<Rightarrow> Inl (ConfigError ''stem'' 0)
      | Some (c1, _) \<Rightarrow>
     rbind (check_blocks ''conv2_'' 0 (conv2_x net) c1) (\<lambda>(c2, _).
     rbind (check_blocks ''conv3_'' 0 (conv3_x net) c2) (\<lambda>(c3, _).
     rbind (check_blocks ''conv4_'' 0 (conv4_x net) c3) (\<lambda>(c4, _).
     rbind (check_blocks ''conv5_'' 0 (conv5_x net) c4) (\<lambda>(c5, _).
     (case fc net of
        Linear i k \<Rightarrow>
          if avgpool net = AdaptiveAvgPool2d (1, 1) \<and> 0 < c5 \<and> i = c5 then Inr k
          else Inl (ConfigError ''fc'' 0)
      | _ \<Rightarrow> Inl (ConfigError ''fc'' 0)))))))"

text \<open>
  The outcomes a typed computation may have: its typed result, or, in training mode,
  batch normalisation's refusal of a single value per channel, which no static check
  can exclude (it depends on the input size, C17).
\<close>

definition outcome :: "bool \<Rightarrow> shape \<Rightarrow> shape result set" where
  "outcome t y = (if t then {Inr y, Inl bn_single_error} else {Inr y})"

subsection \<open>Soundness of the typing\<close>

lemma stride_dim_mult: "0 < a \<Longrightarrow> 0 < b \<Longrightarrow> stride_dim (stride_dim h a) b = stride_dim h (a * b)"
  by (simp add: stride_dim_def div_mult2_eq)

lemma outcome_Inr [simp]: "Inr y \<in> outcome t y"
  by (simp add: outcome_def)

lemma outcome_rbind: "r \<in> outcome t y \<Longrightarrow> f y \<in> outcome t z \<Longrightarrow> rbind r f \<in> outcome t z"
  by (auto simp: outcome_def split: if_splits)

lemma layer_ty_pos: "layer_ty l c = Some (c', s) \<Longrightarrow> 0 < s"
  by (cases l) (auto split: if_splits)

lemma seq_ty_pos: "seq_ty ls c = Some (c', s) \<Longrightarrow> 0 < s"
  by (induction ls arbitrary: c c' s) (auto dest!: layer_ty_pos split: option.splits)

lemma layer_ty_sound:
  assumes "layer_ty l c = Some (c', s)" "0 < h" "0 < w"
  shows "layer_forward t l [n, c, h, w] \<in> outcome t [n, c', stride_dim h s, stride_dim w s]"
  using assms
  by (cases l) (auto simp: outcome_def conv2d_forward_def batch_norm_forward_def max_pool2d_forward_def
      out_dim_def stride_dim_def split: if_splits)

lemma seq_ty_sound:
  "seq_ty ls c = Some (c', s) \<Longrightarrow> 0 < h \<Longrightarrow> 0 < w \<Longrightarrow>
     seq_forward t ls [n, c, h, w] \<in> outcome t [n, c', stride_dim h s, stride_dim w s]"
proof (induction ls arbitrary: c h w s)
  case Nil
  then show ?case by auto
next
  case (Cons l ls)
  then obtain c1 s1 s2 where l: "layer_ty l c = Some (c1, s1)" and ls: "seq_ty ls c1 = Some (c', s2)"
    and s: "s = s1 * s2"
    by (auto split: option.splits)
  have "seq_forward t ls [n, c1, stride_dim h s1, stride_dim w s1]
          \<in> outcome t [n, c', stride_dim (stride_dim h s1) s2, stride_dim (stride_dim w s1) s2]"
    using ls by (rule Cons.IH) simp_all
  moreover have "0 < s1" "0 < s2" using l ls by (simp_all add: layer_ty_pos seq_ty_pos)
  ultimately have "seq_forward t ls [n, c1, stride_dim h s1, stride_dim w s1]
      \<in> outcome t [n, c', stride_dim h s, stride_dim w s]"
    using s by (simp add: stride_dim_mult)
  then show ?case
    unfolding seq_forward.simps by (rule outcome_rbind [OF layer_ty_sound [OF l Cons.prems(2,3)]])
qed

lemma block_forward_bound_path:
  "block_forward_bound t b x =
     rbind (seq_forward t (block_path b) x) (\<lambda>out.
     rbind (shortcut_forward t (block_downsample b) x) (\<lambda>identity.
     rbind (add_inplace out identity) (layer_forward t (block_relu b))))"
  by (cases b) (simp_all add: basic_block_forward_bound_def bottleneck_forward_bound_def rbind_assoc)

lemma shortcut_ty_sound:
  "shortcut_ty ds c = Some (c', s) \<Longrightarrow> 0 < h \<Longrightarrow> 0 < w \<Longrightarrow>
     shortcut_forward t ds [n, c, h, w] \<in> outcome t [n, c', stride_dim h s, stride_dim w s]"
  by (cases ds) (auto simp: shortcut_ty_def shortcut_forward_def seq_ty_sound)

lemma block_ty_pos: "block_ty b c = Some (c', s) \<Longrightarrow> 0 < s"
  by (auto simp: block_ty_def dest!: seq_ty_pos split: option.splits if_splits)

lemma block_ty_sound:
  assumes "block_ty b c = Some (c', s)" "0 < h" "0 < w"
  shows "block_forward_bound t b [n, c, h, w] \<in> outcome t [n, c', stride_dim h s, stride_dim w s]"
proof -
  let ?y = "[n, c', stride_dim h s, stride_dim w s]"
  from assms(1) have path: "seq_ty (block_path b) c = Some (c', s)"
    and sc: "shortcut_ty (block_downsample b) c = Some (c', s)"
    and r: "layer_ty (block_relu b) c' = Some (c', 1)"
    by (auto simp: block_ty_def split: option.splits if_splits)
  have "layer_forward t (block_relu b) ?y \<in> outcome t ?y"
    using layer_ty_sound [OF r, of "stride_dim h s" "stride_dim w s" t n] by simp
  then have "rbind (shortcut_forward t (block_downsample b) [n, c, h, w])
      (\<lambda>identity. rbind (add_inplace ?y identity) (layer_forward t (block_relu b))) \<in> outcome t ?y"
    by (intro outcome_rbind [OF shortcut_ty_sound [OF sc assms(2,3)]]) (simp add: add_inplace_same)
  then show ?thesis
    unfolding block_forward_bound_path by (intro outcome_rbind [OF seq_ty_sound [OF path assms(2,3)]])
qed

lemma check_blocks_pos: "check_blocks stage j bs c = Inr (c', s) \<Longrightarrow> 0 < s"
  by (induction bs arbitrary: j c c' s)
    (auto simp: rbind_eq_Inr_iff dest!: block_ty_pos split: option.splits)

lemma check_blocks_sound:
  "check_blocks stage j bs c = Inr (c', s) \<Longrightarrow> 0 < h \<Longrightarrow> 0 < w \<Longrightarrow>
     stage_forward block_forward_bound t bs [n, c, h, w] \<in> outcome t [n, c', stride_dim h s, stride_dim w s]"
proof (induction bs arbitrary: j c h w s)
  case Nil
  then show ?case by auto
next
  case (Cons b bs)
  then obtain c1 s1 s2 where b: "block_ty b c = Some (c1, s1)"
    and bs: "check_blocks stage (Suc j) bs c1 = Inr (c', s2)" and s: "s = s1 * s2"
    by (auto simp: rbind_eq_Inr_iff split: option.splits)
  have "stage_forward block_forward_bound t bs [n, c1, stride_dim h s1, stride_dim w s1]
          \<in> outcome t [n, c', stride_dim (stride_dim h s1) s2, stride_dim (stride_dim w s1) s2]"
    using bs by (rule Cons.IH) simp_all
  moreover have "0 < s1" "0 < s2" using b bs by (simp_all add: block_ty_pos check_blocks_pos)
  ultimately have "stage_forward block_forward_bound t bs [n, c1, stride_dim h s1, stride_dim w s1]
      \<in> outcome t [n, c', stride_dim h s, stride_dim w s]"
    using s by (simp add: stride_dim_mult)
  then show ?case
    unfolding stage_forward.simps by (rule outcome_rbind [OF block_ty_sound [OF b Cons.prems(2,3)]])
qed

lemma resnet_forward_with_stem:
  "resnet_forward_with F t net x =
     rbind (seq_forward t [conv1 net, bn1 net, relu net, maxpool net] x) (\<lambda>out.
     rbind (stage_forward F t (conv2_x net) out) (\<lambda>out.
     rbind (stage_forward F t (conv3_x net) out) (\<lambda>out.
     rbind (stage_forward F t (conv4_x net) out) (\<lambda>out.
     rbind (stage_forward F t (conv5_x net) out) (\<lambda>out.
     rbind (layer_forward t (avgpool net) out) (\<lambda>out.
     rbind (flatten out 1) (\<lambda>out.
     layer_forward t (fc net) out)))))))"
  by (simp add: resnet_forward_with_def rbind_assoc)

lemma resnet_validate_Inr:
  assumes "resnet_validate net = Inr k"
  obtains c1 s1 c2 s2 c3 s3 c4 s4 c5 s5 where
    "seq_ty [conv1 net, bn1 net, relu net, maxpool net] 3 = Some (c1, s1)"
    "check_blocks ''conv2_'' 0 (conv2_x net) c1 = Inr (c2, s2)"
    "check_blocks ''conv3_'' 0 (conv3_x net) c2 = Inr (c3, s3)"
    "check_blocks ''conv4_'' 0 (conv4_x net) c3 = Inr (c4, s4)"
    "check_blocks ''conv5_'' 0 (conv5_x net) c4 = Inr (c5, s5)"
    "fc net = Linear c5 k" "avgpool net = AdaptiveAvgPool2d (1, 1)" "0 < c5"
  using assms
  by (auto simp: resnet_validate_def rbind_eq_Inr_iff split: option.splits prod.splits layer.splits if_splits)

subsection \<open>The check on constructed blocks and stages\<close>

lemma block_ty_new_spec:
  "0 < s \<Longrightarrow> shortcut_ok i (p * expansion k) s ds \<Longrightarrow>
     block_ty (block_new_spec k i p s ds) i = Some (p * expansion k, s)"
  by (cases k; cases ds) (auto simp: block_ty_def shortcut_ty_def shortcut_ok_def basic_block_init_spec_def
      bottleneck_init_spec_def conv3x3_def conv1x1_def)

lemma block_ty_new:
  "block_ty (block_new k i p s None) i = (if i = p * expansion k then Some (i, 1) else None)"
  by (cases k) (auto simp: block_ty_def shortcut_ty_def basic_block_init_def bottleneck_init_def
      conv3x3_def conv1x1_def)

lemma check_blocks_replicate:
  "block_ty b c = Some (c, 1) \<Longrightarrow> check_blocks stage j (replicate m b) c = Inr (c, 1)"
  by (induction m arbitrary: j) simp_all

lemma check_blocks_spec_stage:
  assumes "0 < s"
  shows "check_blocks stage j (fst (make_layers_spec k p m s i)) i = Inr (p * expansion k, s)"
proof -
  have "block_ty (block_new_spec k i p s (downsample_for k p s i)) i = Some (p * expansion k, s)"
    using assms shortcut_ok_downsample_for by (rule block_ty_new_spec)
  moreover have "block_ty (block_new_spec k (p * expansion k) p 1 None) (p * expansion k)
      = Some (p * expansion k, 1)"
    by (rule block_ty_new_spec) (simp_all add: shortcut_ok_def)
  ultimately show ?thesis by (simp add: make_layers_spec_eq check_blocks_replicate)
qed

lemma check_blocks_stage:
  "check_blocks stage j (fst (make_layers k p m s i)) i
     = (if i = p * expansion k then Inr (i, 1) else Inl (ConfigError stage j))"
  by (simp add: make_layers_eq block_ty_new check_blocks_replicate)

lemma expansion_pos: "0 < expansion k"
  by (cases k) simp_all

text \<open>
  C21: soundness of the check (type soundness: well-typed models do not go wrong).
  Whatever its blocks, a model that passes \<open>resnet_validate\<close> maps every batched RGB
  input with \<open>h, w \<ge> 1\<close> to logits \<open>[n, k]\<close>, \<open>k\<close> the classifier's output
  size; the only exception it can raise is, in training mode, batch normalisation's
  refusal of a single value per channel, and in evaluation mode it raises none.
\<close>

theorem resnet_validate_sound:
  assumes "resnet_validate net = Inr k" "0 < h" "0 < w"
  shows "resnet_forward_spec t net [n, 3, h, w] \<in> outcome t [n, k]"
proof -
  obtain c1 s1 c2 s2 c3 s3 c4 s4 c5 s5 where
    stem: "seq_ty [conv1 net, bn1 net, relu net, maxpool net] 3 = Some (c1, s1)"
    and st2: "check_blocks ''conv2_'' 0 (conv2_x net) c1 = Inr (c2, s2)"
    and st3: "check_blocks ''conv3_'' 0 (conv3_x net) c2 = Inr (c3, s3)"
    and st4: "check_blocks ''conv4_'' 0 (conv4_x net) c3 = Inr (c4, s4)"
    and st5: "check_blocks ''conv5_'' 0 (conv5_x net) c4 = Inr (c5, s5)"
    and head: "fc net = Linear c5 k" "avgpool net = AdaptiveAvgPool2d (1, 1)" "0 < c5"
    using assms(1) by (rule resnet_validate_Inr)
  define h1 w1 where "h1 = stride_dim h s1" and "w1 = stride_dim w s1"
  define h2 w2 where "h2 = stride_dim h1 s2" and "w2 = stride_dim w1 s2"
  define h3 w3 where "h3 = stride_dim h2 s3" and "w3 = stride_dim w2 s3"
  define h4 w4 where "h4 = stride_dim h3 s4" and "w4 = stride_dim w3 s4"
  define h5 w5 where "h5 = stride_dim h4 s5" and "w5 = stride_dim w4 s5"
  have y1: "seq_forward t [conv1 net, bn1 net, relu net, maxpool net] [n, 3, h, w] \<in> outcome t [n, c1, h1, w1]"
    unfolding h1_def w1_def using stem assms(2,3) by (rule seq_ty_sound)
  have y2: "stage_forward block_forward_bound t (conv2_x net) [n, c1, h1, w1] \<in> outcome t [n, c2, h2, w2]"
    unfolding h2_def w2_def using check_blocks_sound [OF st2] h1_def w1_def by simp
  have y3: "stage_forward block_forward_bound t (conv3_x net) [n, c2, h2, w2] \<in> outcome t [n, c3, h3, w3]"
    unfolding h3_def w3_def using check_blocks_sound [OF st3] h2_def w2_def by simp
  have y4: "stage_forward block_forward_bound t (conv4_x net) [n, c3, h3, w3] \<in> outcome t [n, c4, h4, w4]"
    unfolding h4_def w4_def using check_blocks_sound [OF st4] h3_def w3_def by simp
  have y5: "stage_forward block_forward_bound t (conv5_x net) [n, c4, h4, w4] \<in> outcome t [n, c5, h5, w5]"
    unfolding h5_def w5_def using check_blocks_sound [OF st5] h4_def w4_def by simp
  have y6: "rbind (layer_forward t (avgpool net) [n, c5, h5, w5]) (\<lambda>out.
      rbind (flatten out 1) (\<lambda>out. layer_forward t (fc net) out)) = Inr [n, k]"
    using head by (simp add: h5_def w5_def adaptive_avg_pool2d_forward_def flatten_def linear_forward_def)
  show ?thesis
    unfolding resnet_forward_spec_def resnet_forward_with_stem
    by (intro outcome_rbind [OF y1] outcome_rbind [OF y2] outcome_rbind [OF y3] outcome_rbind [OF y4]
        outcome_rbind [OF y5]) (use y6 in simp)
qed

text \<open>
  A small model that no constructor of the script builds: a 3x3 stem of width 8, one
  BasicBlock of the spec in the first stage, three empty stages (an empty
  \<open>nn.Sequential\<close> is the identity) and a classifier to 10 classes.
\<close>

definition tiny_net :: resnet where
  "tiny_net = \<lparr>inplanes = 8,
     conv1 = Conv2d \<lparr>in_channels = 3, out_channels = 8, kernel_size = 3, conv_stride = 1,
                     conv_padding = 1, conv_bias = False\<rparr>,
     bn1 = BatchNorm2d 8, relu = ReLU, maxpool = MaxPool2d 3 2 1,
     conv2_x = [block_new_spec BasicBlockK 8 8 1 None], conv3_x = [], conv4_x = [], conv5_x = [],
     fc = Linear 8 10, avgpool = AdaptiveAvgPool2d (1, 1)\<rparr>"

theorem resnet_validate_sound_witness:
  "resnet_validate tiny_net = Inr 10 \<and> resnet_forward_spec False tiny_net [2, 3, 5, 7] \<in> outcome False [2, 10]"
proof -
  have v: "resnet_validate tiny_net = Inr 10"
    by (simp add: tiny_net_def resnet_validate_def block_ty_def shortcut_ty_def basic_block_init_spec_def
        conv3x3_def)
  then show ?thesis using resnet_validate_sound [OF v, of 5 7 False 2] by simp
qed

text \<open>
  C22: the spec's construction passes the check: every model built as spec 4.3 and 4.4
  describe is accepted, with the requested class count.
\<close>

theorem resnet_init_spec_validates:
  assumes "resnet_init_spec k layers nc = Inr net"
  shows "resnet_validate net = Inr (nat nc)"
proof -
  have "conv1 net = stem_conv \<and> bn1 net = BatchNorm2d 64 \<and> relu net = ReLU \<and>
    maxpool net = MaxPool2d 3 2 1 \<and> fc net = Linear (512 * expansion k) (nat nc) \<and>
    avgpool net = AdaptiveAvgPool2d (1, 1)"
    using assms unfolding resnet_init_spec_def by (rule resnet_init_with_fields)
  then show ?thesis
    by (simp add: resnet_validate_def resnet_init_spec_stage_defs [OF assms] stem_conv_def check_blocks_spec_stage
        expansion_pos)
qed

theorem resnet_init_spec_validates_witness:
  "rbind (resnet_init_spec BottleneckK [3, 4, 6, 3] 1000) resnet_validate = Inr 1000"
proof -
  obtain net where net: "resnet_init_spec BottleneckK [3, 4, 6, 3] 1000 = Inr net"
    by (simp add: resnet_init_spec_def resnet_init_with_def split_def linear_new_def)
  then have "resnet_validate net = Inr (nat 1000)" by (rule resnet_init_spec_validates)
  with net show ?thesis by simp
qed

text \<open>
  C23: the construction as written fails the check, at a named place: a BasicBlock
  network at block 0 of \<open>conv3_\<close> (64 to 128 channels without shortcut), a Bottleneck
  network at block 0 of \<open>conv2_\<close> (64 to 256 channels without shortcut). This is
  the configuration error spec section 7 asks for; the script raises nothing at
  construction and fails only in \<open>forward\<close>.
\<close>

theorem resnet_init_validate_rejects:
  assumes "resnet_init k layers nc = Inr net"
  shows "resnet_validate net
           = Inl (ConfigError (case k of BasicBlockK \<Rightarrow> ''conv3_'' | BottleneckK \<Rightarrow> ''conv2_'') 0)"
proof -
  have "conv1 net = stem_conv \<and> bn1 net = BatchNorm2d 64 \<and> relu net = ReLU \<and>
    maxpool net = MaxPool2d 3 2 1 \<and> fc net = Linear (512 * expansion k) (nat nc) \<and>
    avgpool net = AdaptiveAvgPool2d (1, 1)"
    using assms unfolding resnet_init_def by (rule resnet_init_with_fields)
  then show ?thesis
    using resnet_init_stages [OF assms]
    by (cases k) (simp_all add: resnet_validate_def stem_conv_def check_blocks_stage)
qed

theorem resnet_init_validate_rejects_witness:
  "rbind ResNet18 resnet_validate = Inl (ConfigError ''conv3_'' 0) \<and>
   rbind ResNet50 resnet_validate = Inl (ConfigError ''conv2_'' 0)"
proof -
  obtain n18 where n18: "ResNet18 = Inr n18"
    by (simp add: ResNet18_def resnet_init_def resnet_init_with_def split_def linear_new_def)
  obtain n50 where n50: "ResNet50 = Inr n50"
    by (simp add: ResNet50_def resnet_init_def resnet_init_with_def split_def linear_new_def)
  have "resnet_init BasicBlockK [2, 2, 2, 2] 1000 = Inr n18" using n18 by (simp add: ResNet18_def)
  then have a: "resnet_validate n18 = Inl (ConfigError ''conv3_'' 0)"
    using resnet_init_validate_rejects [of BasicBlockK] by simp
  have "resnet_init BottleneckK [3, 4, 6, 3] 1000 = Inr n50" using n50 by (simp add: ResNet50_def)
  then have b: "resnet_validate n50 = Inl (ConfigError ''conv2_'' 0)"
    using resnet_init_validate_rejects [of BottleneckK] by simp
  show ?thesis unfolding n18 n50 using a b by simp
qed

end
