(* ===== verification/Printing.thy ===== *)
theory Printing
  imports Model
begin

text \<open>
  The printout of a module, which is what the script's bare expressions
  \<open>myneck\<close> (line 85), \<open>mynet50\<close> (line 168) and \<open>mynet101\<close> (line 187) display
  in the notebook the script comes from. PyTorch's \<open>Module.__repr__\<close> prints the
  class name, the one-line \<open>extra_repr()\<close> of a layer, and the submodules in the order
  they were registered, each as \<open>(name): printout\<close> indented by two spaces
  (\<open>_addindent\<close>); \<open>nn.Sequential\<close> registers its modules under \<open>'0'\<close>,
  \<open>'1'\<close>, \<open>...\<close>. A module is represented by the tree \<open>mtree\<close> of its class name,
  its \<open>extra_repr()\<close> and its named children; numbers are printed by
  \<open>nat_str\<close>, Python's \<open>str\<close> of a non-negative \<open>int\<close>.
\<close>

subsection \<open>Decimal numerals\<close>

definition digit_char :: "nat \<Rightarrow> char" where
  "digit_char d = char_of (48 + d)"

function nat_str :: "nat \<Rightarrow> string" where
  "nat_str n = (if n < 10 then [digit_char n] else nat_str (n div 10) @ [digit_char (n mod 10)])"
  by pat_completeness simp
termination by (relation "measure id") simp_all

declare nat_str.simps [simp del]

text \<open>\<open>int(s)\<close> on a string of decimal digits.\<close>

definition str_nat :: "string \<Rightarrow> nat" where
  "str_nat s = foldl (\<lambda>acc c. 10 * acc + (of_char c - 48)) 0 s"

subsection \<open>Lines\<close>

text \<open>\<open>s.split('\n')\<close> and \<open>sep.join(ls)\<close>.\<close>

fun split_nl :: "string \<Rightarrow> string list" where
  "split_nl [] = [[]]"
| "split_nl (c # cs) =
     (if c = CHR 0x0A then [] # split_nl cs else (let r = split_nl cs in (c # hd r) # tl r))"

fun join_with :: "string \<Rightarrow> string list \<Rightarrow> string" where
  "join_with sep [] = []"
| "join_with sep [l] = l"
| "join_with sep (l # ls) = l @ sep @ join_with sep ls"

text \<open>
  \<open>torch.nn.modules.module._addindent(s, n)\<close>: a one-line string is unchanged;
  otherwise every line but the first is prefixed with \<open>n\<close> spaces.
\<close>

definition add_indent :: "nat \<Rightarrow> string \<Rightarrow> string" where
  "add_indent k s =
     (let ls = split_nl s in
      if length ls = 1 then s
      else join_with [CHR 0x0A] (hd ls # map (\<lambda>l. replicate k (CHR 0x20) @ l) (tl ls)))"

text \<open>
  The reference the indentation is compared with: every newline followed by \<open>k\<close>
  spaces, character by character.
\<close>

definition indent_lines :: "nat \<Rightarrow> string \<Rightarrow> string" where
  "indent_lines k s = concat (map (\<lambda>c. if c = CHR 0x0A then CHR 0x0A # replicate k (CHR 0x20) else [c]) s)"

definition is_digit :: "char \<Rightarrow> bool" where
  "is_digit c \<longleftrightarrow> 48 \<le> (of_char c :: nat) \<and> of_char c \<le> (57 :: nat)"

text \<open>The numerals Python prints: non-empty, decimal digits, no leading zero.\<close>

definition canonical :: "string \<Rightarrow> bool" where
  "canonical s \<longleftrightarrow> s \<noteq> [] \<and> list_all is_digit s \<and> (hd s = CHR ''0'' \<longrightarrow> s = ''0'')"

subsection \<open>Module trees and \<open>Module.__repr__\<close>\<close>

datatype mtree = Mod string string "(string \<times> mtree) list"

fun children :: "mtree \<Rightarrow> (string \<times> mtree) list" where
  "children (Mod name extra cs) = cs"

fun mtree_repr :: "mtree \<Rightarrow> string" where
  "mtree_repr (Mod name extra cs) =
     (let extra_lines = (if extra = [] then [] else split_nl extra);
          child_lines = map (\<lambda>(k, m). ''('' @ k @ ''): '' @ add_indent 2 (mtree_repr m)) cs;
          lines = extra_lines @ child_lines
      in name @ ''('' @
         (if lines = [] then []
          else if length extra_lines = 1 \<and> child_lines = [] then hd extra_lines
          else [CHR 0x0A] @ ''  '' @ join_with (CHR 0x0A # ''  '') lines @ [CHR 0x0A]) @ '')'')"

subsection \<open>The printout of the layers\<close>

text \<open>
  \<open>extra_repr()\<close> of each layer class: \<open>nn.Conv2d\<close> prints its kernel size,
  stride and padding as pairs, the padding only when it is not zero and
  \<open>bias=False\<close> only when there is no bias; \<open>nn.BatchNorm2d\<close> its default
  \<open>eps\<close>, \<open>momentum\<close> and flags; \<open>nn.ReLU\<close> nothing (\<open>inplace=False\<close>);
  \<open>nn.MaxPool2d\<close> its arguments as given, with the default dilation and ceil mode.
\<close>

definition pair_str :: "nat \<Rightarrow> string" where
  "pair_str n = ''('' @ nat_str n @ '', '' @ nat_str n @ '')''"

fun layer_tree :: "layer \<Rightarrow> mtree" where
  "layer_tree (Conv2d c) =
     Mod ''Conv2d'' (nat_str (in_channels c) @ '', '' @ nat_str (out_channels c) @
       '', kernel_size='' @ pair_str (kernel_size c) @ '', stride='' @ pair_str (conv_stride c) @
       (if conv_padding c = 0 then [] else '', padding='' @ pair_str (conv_padding c)) @
       (if conv_bias c then [] else '', bias=False'')) []"
| "layer_tree (BatchNorm2d n) =
     Mod ''BatchNorm2d'' (nat_str n @ '', eps=1e-05, momentum=0.1, affine=True, track_running_stats=True'') []"
| "layer_tree ReLU = Mod ''ReLU'' [] []"
| "layer_tree (MaxPool2d k s p) =
     Mod ''MaxPool2d'' (''kernel_size='' @ nat_str k @ '', stride='' @ nat_str s @ '', padding='' @ nat_str p @
       '', dilation=1, ceil_mode=False'') []"
| "layer_tree (AdaptiveAvgPool2d (a, b)) =
     Mod ''AdaptiveAvgPool2d'' (''output_size=('' @ nat_str a @ '', '' @ nat_str b @ '')'') []"
| "layer_tree (Linear i k) =
     Mod ''Linear'' (''in_features='' @ nat_str i @ '', out_features='' @ nat_str k @ '', bias=True'') []"

text \<open>\<open>nn.Sequential(*modules)\<close> registers the \<open>i\<close>-th module under \<open>str(i)\<close>.\<close>

definition seq_tree :: "mtree list \<Rightarrow> mtree" where
  "seq_tree ms = Mod ''Sequential'' [] (map (\<lambda>(i, m). (nat_str i, m)) (zip [0..<length ms] ms))"

subsection \<open>The printout of the script's modules\<close>

text \<open>
  The children of a block in the order its \<open>__init__\<close> registers them (lines
  16--23 and 49--59); \<open>downsample\<close> is a child only when it is a module (an
  \<open>nn.Sequential\<close>), since assigning \<open>None\<close> to a new attribute registers nothing.
\<close>

definition downsample_child :: "layer list option \<Rightarrow> (string \<times> mtree) list" where
  "downsample_child ds = (case ds of None \<Rightarrow> [] | Some d \<Rightarrow> [(''downsample'', seq_tree (map layer_tree d))])"

definition basic_block_tree :: "basic_block \<Rightarrow> mtree" where
  "basic_block_tree b =
     Mod ''BasicBlock'' []
       ([(''conv1'', layer_tree (bb_conv1 b)), (''bn1'', layer_tree (bb_bn1 b)),
         (''conv2'', layer_tree (bb_conv2 b)), (''nb2'', layer_tree (bb_nb2 b))]
        @ downsample_child (bb_downsample b) @ [(''relu'', layer_tree (bb_relu b))])"

definition bottleneck_tree :: "bottleneck \<Rightarrow> mtree" where
  "bottleneck_tree b =
     Mod ''Bottleneck'' []
       ([(''conv1'', layer_tree (bt_conv1 b)), (''bn1'', layer_tree (bt_bn1 b)),
         (''conv2'', layer_tree (bt_conv2 b)), (''bn2'', layer_tree (bt_bn2 b)),
         (''conv3'', layer_tree (bt_conv3 b)), (''bn3'', layer_tree (bt_bn3 b))]
        @ downsample_child (bt_downsample b) @ [(''relu'', layer_tree (bt_relu b))])"

fun block_tree :: "block \<Rightarrow> mtree" where
  "block_tree (Basic b) = basic_block_tree b"
| "block_tree (Bottle b) = bottleneck_tree b"

text \<open>The children of a \<open>ResNet\<close> in the order of lines 103--117.\<close>

definition resnet_tree :: "resnet \<Rightarrow> mtree" where
  "resnet_tree net =
     Mod ''ResNet'' []
       [(''conv1'', layer_tree (conv1 net)), (''bn1'', layer_tree (bn1 net)), (''relu'', layer_tree (relu net)),
        (''maxpool'', layer_tree (maxpool net)),
        (''conv2_'', seq_tree (map block_tree (conv2_x net))), (''conv3_'', seq_tree (map block_tree (conv3_x net))),
        (''conv4_'', seq_tree (map block_tree (conv4_x net))), (''conv5_'', seq_tree (map block_tree (conv5_x net))),
        (''fc'', layer_tree (fc net)), (''avgpool'', layer_tree (avgpool net))]"

text \<open>
  What the notebook displays: \<open>myneck\<close> after line 84, and \<open>mynet50\<close>,
  \<open>mynet101\<close> after lines 167 and 186.
\<close>

definition myneck_display :: string where
  "myneck_display = mtree_repr (block_tree (block_new BottleneckK 64 64 1 None))"

definition script_display :: "(string \<times> string) result" where
  "script_display = rbind script (\<lambda>(myneck, mynet50, mynet101).
     Inr (mtree_repr (resnet_tree mynet50), mtree_repr (resnet_tree mynet101)))"

subsection \<open>Numerals\<close>

lemma of_char_digit: "d < 10 \<Longrightarrow> (of_char (digit_char d) :: nat) = 48 + d"
  by (simp add: digit_char_def)

lemma str_nat_snoc: "str_nat (s @ [c]) = 10 * str_nat s + (of_char c - 48)"
  by (simp add: str_nat_def)

lemma nat_str_props: "str_nat (nat_str n) = n \<and> nat_str n \<noteq> [] \<and> list_all is_digit (nat_str n)"
proof (induction n rule: nat_str.induct)
  case (1 n)
  show ?case
  proof (cases "n < 10")
    case True
    then show ?thesis by (simp add: nat_str.simps str_nat_def of_char_digit is_digit_def)
  next
    case False
    then have "str_nat (nat_str (n div 10)) = n div 10" "list_all is_digit (nat_str (n div 10))"
      using 1 by simp_all
    with False show ?thesis
      by (subst (1 2 3) nat_str.simps) (simp add: str_nat_snoc of_char_digit is_digit_def)
  qed
qed

lemma nat_str_inj: "nat_str a = nat_str b \<longleftrightarrow> a = b"
  by (metis nat_str_props)

subsection \<open>Lines\<close>

lemma join_with_Cons_append: "join_with sep ((a @ x) # xs) = a @ join_with sep (x # xs)"
  by (cases xs) simp_all

lemma split_nl_ne: "split_nl s \<noteq> []"
  by (induction s) (simp_all add: Let_def)

lemma join_split_indent:
  "join_with [CHR 0x0A] (hd (split_nl s) # map (\<lambda>l. replicate k (CHR 0x20) @ l) (tl (split_nl s)))
     = indent_lines k s"
proof (induction s)
  case Nil
  then show ?case by (simp add: indent_lines_def)
next
  case (Cons c cs)
  obtain l ls where r: "split_nl cs = l # ls" using split_nl_ne by (cases "split_nl cs") auto
  show ?case
  proof (cases "c = CHR 0x0A")
    case True
    have "join_with [CHR 0x0A] ((replicate k (CHR 0x20) @ l) # map (\<lambda>l. replicate k (CHR 0x20) @ l) ls)
        = replicate k (CHR 0x20) @ indent_lines k cs"
      using Cons.IH r by (simp only: join_with_Cons_append) simp
    with True r show ?thesis by (simp add: indent_lines_def)
  next
    case False
    have "join_with [CHR 0x0A] ((c # l) # map (\<lambda>l. replicate k (CHR 0x20) @ l) ls) = c # indent_lines k cs"
      using Cons.IH r join_with_Cons_append [of "[CHR 0x0A]" "[c]" l] by simp
    with False r show ?thesis by (simp add: indent_lines_def Let_def)
  qed
qed

lemma nat_str_0: "nat_str 0 = ''0''"
  by code_simp

lemma str_nat_zero: "str_nat s = 0 \<longleftrightarrow> list_all (\<lambda>c. (of_char c :: nat) \<le> 48) s"
  by (induction s rule: rev_induct) (auto simp: str_nat_snoc str_nat_def)

lemma char_of_digit: "is_digit c \<Longrightarrow> digit_char (of_char c - 48) = c"
  by (simp add: digit_char_def is_digit_def)

lemma nat_str_hd: "hd (nat_str n) = CHR ''0'' \<Longrightarrow> n = 0"
proof (induction n rule: nat_str.induct)
  case (1 n)
  show ?case
  proof (cases "n < 10")
    case True
    with "1.prems" have "(of_char (digit_char n) :: nat) = of_char (CHR ''0'')" by (simp add: nat_str.simps)
    with True show ?thesis by (simp add: of_char_digit)
  next
    case False
    with "1.prems" nat_str_props [of "n div 10"] have "hd (nat_str (n div 10)) = CHR ''0''"
      by (subst (asm) nat_str.simps) simp
    with False "1.IH" show ?thesis by simp
  qed
qed
lemma nat_str_str_nat: "canonical s \<Longrightarrow> nat_str (str_nat s) = s"
proof (induction s rule: rev_induct)
  case Nil
  then show ?case by (simp add: canonical_def)
next
  case (snoc c s)
  then have c: "is_digit c" and d: "of_char c - 48 < (10 :: nat)"
    by (auto simp: canonical_def is_digit_def)
  show ?case
  proof (cases "s = []")
    case True
    with c d show ?thesis by (simp add: str_nat_def nat_str.simps char_of_digit)
  next
    case False
    with snoc.prems have s: "canonical s" and h: "hd s \<noteq> CHR ''0''"
      by (auto simp: canonical_def)
    have "str_nat s \<noteq> 0"
    proof
      assume "str_nat s = 0"
      then have "(of_char (hd s) :: nat) \<le> 48" using False by (cases s) (simp_all add: str_nat_zero)
      moreover have "is_digit (hd s)" using s False by (cases s) (simp_all add: canonical_def)
      ultimately have "(of_char (hd s) :: nat) = of_char (CHR ''0'')" by (simp add: is_digit_def)
      with h show False by (simp only: of_char_eq_iff)
    qed
    then have "\<not> str_nat (s @ [c]) < 10" by (simp add: str_nat_snoc)
    then show ?thesis
      using snoc.IH [OF s] d c by (subst nat_str.simps) (simp add: str_nat_snoc char_of_digit)
  qed
qed

lemma nat_str_roundtrip:
  "str_nat (nat_str n) = n \<and> canonical (nat_str n) \<and> (canonical s \<longrightarrow> nat_str (str_nat s) = s)"
proof -
  have "hd (nat_str n) = CHR ''0'' \<longrightarrow> nat_str n = ''0''"
    using nat_str_hd [of n] nat_str_0 by auto
  then have "canonical (nat_str n)" using nat_str_props [of n] by (simp add: canonical_def)
  then show ?thesis using nat_str_props [of n] nat_str_str_nat by blast
qed

lemma indent_lines_0: "indent_lines 0 s = s"
  by (induction s) (simp_all add: indent_lines_def)

lemma seq_tree_indices:
  "map fst (children (seq_tree ms)) = map nat_str [0..<length ms] \<and> distinct (map fst (children (seq_tree ms)))"
proof -
  have e: "map fst (children (seq_tree ms)) = map nat_str [0..<length ms]"
    by (simp add: seq_tree_def zip_map1 [symmetric])
  have "inj nat_str" by (rule injI) (simp add: nat_str_inj)
  then have "distinct (map nat_str [0..<length ms])" by (simp add: distinct_map inj_on_subset [of nat_str UNIV])
  with e show ?thesis by simp
qed

lemma add_indent_eq_indent_lines: "add_indent k s = indent_lines k s"
proof (cases "length (split_nl s) = 1")
  case True
  then obtain l where l: "split_nl s = [l]" by (cases "split_nl s") auto
  have "l = s" using join_split_indent [of s 0] l by (simp add: indent_lines_0)
  moreover have "l = indent_lines k s" using join_split_indent [of s k] l by simp
  ultimately show ?thesis using True by (simp add: add_indent_def)
next
  case False
  then show ?thesis by (simp add: add_indent_def join_split_indent)
qed

lemma stage_child:
  assumes "(name, t) \<in> set (children (resnet_tree net))"
    and "name \<in> {''conv2_'', ''conv3_'', ''conv4_'', ''conv5_''}"
  shows "\<exists>bs. t = seq_tree (map block_tree bs)"
  using assms unfolding resnet_tree_def by (simp only: children.simps set_simps insert_iff) auto

subsection \<open>Properties of the printout\<close>

end
