(* ===== verification/Tensor.thy ===== *)
theory Tensor
  imports Complex_Main Printing
begin

text \<open>
  Tensor values. A tensor is its shape and its data, a list of reals in row-major
  order, as a contiguous PyTorch tensor stores them. \<open>indices s\<close> lists the
  multi-indices of shape \<open>s\<close> in that order and \<open>offset s i\<close> is the position of
  index \<open>i\<close> in the data; \<open>tensor_of s f\<close> builds the tensor whose entry at \<open>i\<close>
  is \<open>f i\<close> and \<open>tget x i\<close> reads the entry back. Floating point is modelled by
  real arithmetic: rounding is not modelled.
\<close>

record tensor =
  tshape :: shape
  tdata :: "real list"

fun indices :: "shape \<Rightarrow> nat list list" where
  "indices [] = [[]]"
| "indices (d # ds) = concat (map (\<lambda>i. map (Cons i) (indices ds)) [0..<d])"

fun offset :: "shape \<Rightarrow> nat list \<Rightarrow> nat" where
  "offset (d # ds) (i # is) = i * prod_list ds + offset ds is"
| "offset _ _ = 0"

definition in_range :: "shape \<Rightarrow> nat list \<Rightarrow> bool" where
  "in_range s i = list_all2 (<) i s"

definition tensor_of :: "shape \<Rightarrow> (nat list \<Rightarrow> real) \<Rightarrow> tensor" where
  "tensor_of s f = \<lparr>tshape = s, tdata = map f (indices s)\<rparr>"

definition tget :: "tensor \<Rightarrow> nat list \<Rightarrow> real" where
  "tget x i = tdata x ! offset (tshape x) i"

definition tensor_wf :: "tensor \<Rightarrow> bool" where
  "tensor_wf x = (length (tdata x) = prod_list (tshape x))"

subsection \<open>Parameters and buffers\<close>

text \<open>
  A module's parameters (\<open>weight\<close>, \<open>bias\<close>) and buffers (\<open>running_mean\<close>,
  \<open>running_var\<close>, \<open>num_batches_tracked\<close> of a batch normalisation) are the
  entries of the model's \<open>state_dict\<close>, under the dotted name of the module
  (\<open>conv2_.0.bn1\<close>) followed by the attribute name. A forward pass reads them and, in
  training mode, updates the buffers: it is a computation on the state dictionary.
  An exception stops it but keeps the updates made before it, as Python does: the
  computation returns its result and the state it leaves, also when the result is an
  exception.
\<close>

type_synonym state_dict = "string \<rightharpoonup> tensor"

type_synonym 'a exec = "state_dict \<Rightarrow> 'a result \<times> state_dict"

definition sret :: "'a \<Rightarrow> 'a exec" where
  "sret a = (\<lambda>sd. (Inr a, sd))"

definition slift :: "'a result \<Rightarrow> 'a exec" where
  "slift r = (\<lambda>sd. (r, sd))"

definition sbind :: "'a exec \<Rightarrow> ('a \<Rightarrow> 'b exec) \<Rightarrow> 'b exec" where
  "sbind m f = (\<lambda>sd. case m sd of (Inl e, sd') \<Rightarrow> (Inl e, sd') | (Inr a, sd') \<Rightarrow> f a sd')"

definition pkey :: "string \<Rightarrow> string \<Rightarrow> string" where
  "pkey p n = (if p = [] then n else p @ ''.'' @ n)"

definition param :: "string \<Rightarrow> string \<Rightarrow> state_dict \<Rightarrow> tensor result" where
  "param p n sd = (case sd (pkey p n) of None \<Rightarrow> Inl (AttributeError n) | Some v \<Rightarrow> Inr v)"

subsection \<open>Numeric forwards of the layer primitives\<close>

text \<open>
  Each forward first runs the shape contract of theory \<open>Layers\<close> (the same checks in
  the same order, with the same exceptions) and builds the output entry by entry. The
  last three indices of a 2-d layer's output are channel, row and column; the indices
  before them (the batch index, if any) are \<open>lead\<close>.
\<close>

definition conv_tap :: "tensor \<Rightarrow> nat list \<Rightarrow> nat \<Rightarrow> int \<Rightarrow> int \<Rightarrow> real" where
  "conv_tap x lead c y z =
     (let s = tshape x; h = s ! (length s - 2); w = s ! (length s - 1) in
      if 0 \<le> y \<and> y < int h \<and> 0 \<le> z \<and> z < int w then tget x (lead @ [c, nat y, nat z]) else 0)"

definition conv2d_eval :: "conv2d \<Rightarrow> tensor \<Rightarrow> tensor option \<Rightarrow> tensor \<Rightarrow> tensor result" where
  "conv2d_eval c wt b x =
     rbind (conv2d_forward c (tshape x)) (\<lambda>s. Inr (tensor_of s (\<lambda>idx.
       let n = length idx; lead = take (n - 3) idx;
           oc = idx ! (n - 3); i = idx ! (n - 2); j = idx ! (n - 1);
           k = kernel_size c; st = conv_stride c; p = int (conv_padding c)
       in (case b of None \<Rightarrow> 0 | Some bt \<Rightarrow> tget bt [oc]) +
          (\<Sum>ch\<leftarrow>[0..<in_channels c]. \<Sum>a\<leftarrow>[0..<k]. \<Sum>q\<leftarrow>[0..<k].
             tget wt [oc, ch, a, q] * conv_tap x lead ch (int (i * st + a) - p) (int (j * st + q) - p)))))"

text \<open>
  \<open>nn.BatchNorm2d\<close> with PyTorch's defaults \<open>eps = 1e-5\<close> and \<open>momentum = 0.1\<close>.
  \<open>_BatchNorm.forward\<close> checks the input dimension, then in training mode adds 1 to
  \<open>num_batches_tracked\<close>, then reads \<open>running_mean\<close>, \<open>running_var\<close>,
  \<open>weight\<close> and \<open>bias\<close> as the arguments of \<open>F.batch_norm\<close>, which checks the
  batch size and the channel count. In training mode the output is normalised with the
  batch statistics of each channel (biased variance) and the running statistics move
  towards them (unbiased variance); in evaluation mode the running statistics
  normalise and nothing changes.
\<close>

definition bn_eps :: real where
  "bn_eps = 1 / 100000"

definition bn_momentum :: real where
  "bn_momentum = 1 / 10"

definition mean :: "real list \<Rightarrow> real" where
  "mean vs = sum_list vs / real (length vs)"

definition var_biased :: "real list \<Rightarrow> real" where
  "var_biased vs = mean (map (\<lambda>v. (v - mean vs)\<^sup>2) vs)"

definition channel_values :: "tensor \<Rightarrow> nat \<Rightarrow> real list" where
  "channel_values x c = map (tget x) (filter (\<lambda>i. i ! 1 = c) (indices (tshape x)))"

definition bn_normalize :: "tensor \<Rightarrow> (nat \<Rightarrow> real) \<Rightarrow> (nat \<Rightarrow> real) \<Rightarrow> tensor \<Rightarrow> tensor \<Rightarrow> tensor" where
  "bn_normalize x mu var w b =
     tensor_of (tshape x) (\<lambda>i. (tget x i - mu (i ! 1)) / sqrt (var (i ! 1) + bn_eps) * tget w [i ! 1]
                               + tget b [i ! 1])"

definition batch_norm_eval :: "bool \<Rightarrow> nat \<Rightarrow> string \<Rightarrow> tensor \<Rightarrow> tensor exec" where
  "batch_norm_eval training nf p x sd =
     (if length (tshape x) \<noteq> 4 then (Inl (ValueError ''expected 4D input''), sd)
      else case (if training then rbind (param p ''num_batches_tracked'' sd) (\<lambda>nbt.
                   Inr (sd(pkey p ''num_batches_tracked'' \<mapsto> nbt\<lparr>tdata := map (\<lambda>v. v + 1) (tdata nbt)\<rparr>)))
                 else Inr sd) of
        Inl e \<Rightarrow> (Inl e, sd)
      | Inr sd1 \<Rightarrow>
          (case rbind (param p ''running_mean'' sd1) (\<lambda>rm. rbind (param p ''running_var'' sd1) (\<lambda>rv.
                rbind (param p ''weight'' sd1) (\<lambda>w. rbind (param p ''bias'' sd1) (\<lambda>b.
                rbind (batch_norm_forward training nf (tshape x)) (\<lambda>_. Inr (rm, rv, w, b)))))) of
             Inl e \<Rightarrow> (Inl e, sd1)
           | Inr (rm, rv, w, b) \<Rightarrow>
               if training then
                 let mu = (\<lambda>c. mean (channel_values x c)); var = (\<lambda>c. var_biased (channel_values x c));
                     m = real (length (channel_values x 0))
                 in (Inr (bn_normalize x mu var w b),
                     sd1(pkey p ''running_mean'' \<mapsto>
                           tensor_of [nf] (\<lambda>i. (1 - bn_momentum) * tget rm i + bn_momentum * mu (i ! 0)),
                         pkey p ''running_var'' \<mapsto>
                           tensor_of [nf] (\<lambda>i. (1 - bn_momentum) * tget rv i
                                                + bn_momentum * var (i ! 0) * m / (m - 1))))
               else (Inr (bn_normalize x (\<lambda>c. tget rm [c]) (\<lambda>c. tget rv [c]) w b), sd1)))"

text \<open>
  \<open>nn.MaxPool2d\<close>: the maximum over the window, padding positions excluded (PyTorch
  pads with minus infinity); \<open>nn.AdaptiveAvgPool2d\<close>: the mean over the rows
  \<open>\<lfloor>i h / oh\<rfloor> ..< \<lceil>(i + 1) h / oh\<rceil>\<close> and the columns likewise.
\<close>

definition max_pool2d_eval :: "nat \<Rightarrow> nat \<Rightarrow> nat \<Rightarrow> tensor \<Rightarrow> tensor result" where
  "max_pool2d_eval k st p x =
     rbind (max_pool2d_forward k st p (tshape x)) (\<lambda>s. Inr (tensor_of s (\<lambda>idx.
       let n = length idx; lead = take (n - 3) idx;
           c = idx ! (n - 3); i = idx ! (n - 2); j = idx ! (n - 1);
           sx = tshape x; h = sx ! (length sx - 2); w = sx ! (length sx - 1);
           ys = filter (\<lambda>y. i * st \<le> y + p \<and> y + p < i * st + k) [0..<h];
           zs = filter (\<lambda>z. j * st \<le> z + p \<and> z + p < j * st + k) [0..<w]
       in Max (set [tget x (lead @ [c, y, z]). y \<leftarrow> ys, z \<leftarrow> zs]))))"

definition adaptive_avg_pool2d_eval :: "nat \<times> nat \<Rightarrow> tensor \<Rightarrow> tensor result" where
  "adaptive_avg_pool2d_eval osz x =
     rbind (adaptive_avg_pool2d_forward osz (tshape x)) (\<lambda>s. Inr (tensor_of s (\<lambda>idx.
       let n = length idx; lead = take (n - 3) idx;
           c = idx ! (n - 3); i = idx ! (n - 2); j = idx ! (n - 1);
           sx = tshape x; h = sx ! (length sx - 2); w = sx ! (length sx - 1);
           oh = fst osz; ow = snd osz;
           ys = [i * h div oh..<((i + 1) * h + oh - 1) div oh];
           zs = [j * w div ow..<((j + 1) * w + ow - 1) div ow]
       in mean [tget x (lead @ [c, y, z]). y \<leftarrow> ys, z \<leftarrow> zs])))"

definition linear_eval :: "nat \<Rightarrow> nat \<Rightarrow> tensor \<Rightarrow> tensor \<Rightarrow> tensor \<Rightarrow> tensor result" where
  "linear_eval in_f out_f wt b x =
     rbind (linear_forward in_f out_f (tshape x)) (\<lambda>s. Inr (tensor_of s (\<lambda>idx.
       tget b [last idx] + (\<Sum>q\<leftarrow>[0..<in_f]. tget wt [last idx, q] * tget x (butlast idx @ [q])))))"

text \<open>
  \<open>out += other\<close>: the entry of \<open>other\<close> added at index \<open>i\<close> of \<open>out\<close> is the one
  at the trailing indices of \<open>i\<close>, with index 0 along the dimensions of size 1 of
  \<open>other\<close> (broadcasting); \<open>torch.flatten\<close> changes the shape and keeps the data.
\<close>

definition bidx :: "shape \<Rightarrow> nat list \<Rightarrow> nat list" where
  "bidx s i = map2 (\<lambda>d j. if d = 1 then 0 else j) s (drop (length i - length s) i)"

definition tensor_add :: "tensor \<Rightarrow> tensor \<Rightarrow> tensor result" where
  "tensor_add out other =
     rbind (add_inplace (tshape out) (tshape other)) (\<lambda>s.
       Inr (tensor_of s (\<lambda>i. tget out i + tget other (bidx (tshape other) i))))"

definition tensor_flatten :: "tensor \<Rightarrow> nat \<Rightarrow> tensor result" where
  "tensor_flatten x d = rbind (flatten (tshape x) d) (\<lambda>s. Inr (x\<lparr>tshape := s\<rparr>))"

definition relu_eval :: "tensor \<Rightarrow> tensor" where
  "relu_eval x = x\<lparr>tdata := map (max 0) (tdata x)\<rparr>"

text \<open>
  A layer module at the dotted name \<open>p\<close>: its parameters are read as the
  arguments of the functional call, before the call checks its input.
\<close>

fun layer_eval :: "bool \<Rightarrow> string \<Rightarrow> layer \<Rightarrow> tensor \<Rightarrow> tensor exec" where
  "layer_eval t p (Conv2d c) x = (\<lambda>sd. (rbind (param p ''weight'' sd) (\<lambda>w.
       if conv_bias c then rbind (param p ''bias'' sd) (\<lambda>b. conv2d_eval c w (Some b) x)
       else conv2d_eval c w None x), sd))"
| "layer_eval t p (BatchNorm2d n) x = batch_norm_eval t n p x"
| "layer_eval t p ReLU x = sret (relu_eval x)"
| "layer_eval t p (MaxPool2d k s q) x = slift (max_pool2d_eval k s q x)"
| "layer_eval t p (AdaptiveAvgPool2d osz) x = slift (adaptive_avg_pool2d_eval osz x)"
| "layer_eval t p (Linear i oc) x = (\<lambda>sd. (rbind (param p ''weight'' sd) (\<lambda>w.
       rbind (param p ''bias'' sd) (\<lambda>b. linear_eval i oc w b x)), sd))"

text \<open>\<open>nn.Sequential\<close> of layers at \<open>p\<close>: child \<open>i\<close> is the module \<open>p.i\<close>.\<close>

fun seq_eval :: "bool \<Rightarrow> string \<Rightarrow> nat \<Rightarrow> layer list \<Rightarrow> tensor \<Rightarrow> tensor exec" where
  "seq_eval t p i [] x = sret x"
| "seq_eval t p i (m # ms) x = sbind (layer_eval t (pkey p (nat_str i)) m x) (seq_eval t p (Suc i) ms)"

subsection \<open>The parameters a layer registers\<close>

text \<open>
  The entries of \<open>state_dict()\<close> a layer module creates, with their shapes, in
  registration order: \<open>nn.Conv2d\<close> a weight \<open>[out, in, k, k]\<close> and, with
  \<open>bias=True\<close>, a bias; \<open>nn.BatchNorm2d\<close> weight, bias and the three buffers;
  \<open>nn.Linear\<close> weight \<open>[out, in]\<close> and bias. \<open>state_ok\<close> says that a state
  dictionary holds each listed entry with its shape; \<open>param_shapes\<close> forgets the
  values.
\<close>

fun layer_state :: "string \<Rightarrow> layer \<Rightarrow> (string \<times> shape) list" where
  "layer_state p (Conv2d c) =
     (pkey p ''weight'', [out_channels c, in_channels c, kernel_size c, kernel_size c]) #
     (if conv_bias c then [(pkey p ''bias'', [out_channels c])] else [])"
| "layer_state p (BatchNorm2d n) =
     [(pkey p ''weight'', [n]), (pkey p ''bias'', [n]), (pkey p ''running_mean'', [n]),
      (pkey p ''running_var'', [n]), (pkey p ''num_batches_tracked'', [])]"
| "layer_state p (Linear i oc) = [(pkey p ''weight'', [oc, i]), (pkey p ''bias'', [oc])]"
| "layer_state p _ = []"

fun seq_state :: "string \<Rightarrow> nat \<Rightarrow> layer list \<Rightarrow> (string \<times> shape) list" where
  "seq_state p i [] = []"
| "seq_state p i (m # ms) = layer_state (pkey p (nat_str i)) m @ seq_state p (Suc i) ms"

definition param_shapes :: "state_dict \<Rightarrow> string \<rightharpoonup> shape" where
  "param_shapes sd = (\<lambda>k. map_option tshape (sd k))"

definition state_ok :: "(string \<rightharpoonup> shape) \<Rightarrow> (string \<times> shape) list \<Rightarrow> bool" where
  "state_ok ps keys = list_all (\<lambda>(k, s). ps k = Some s) keys"

definition res_wf :: "tensor result \<Rightarrow> bool" where
  "res_wf r = (case r of Inl _ \<Rightarrow> True | Inr x \<Rightarrow> tensor_wf x)"

abbreviation rshape :: "tensor result \<Rightarrow> shape result" where
  "rshape r \<equiv> map_sum id tshape r"

text \<open>
  \<open>refines P m r\<close>: from every state whose parameter shapes satisfy \<open>P\<close>, the
  computation \<open>m\<close> has the outcome \<open>r\<close> of the shape model (the same exception,
  or a well-formed tensor of the predicted shape) and keeps the parameter shapes.
\<close>

definition refines :: "((string \<rightharpoonup> shape) \<Rightarrow> bool) \<Rightarrow> tensor exec \<Rightarrow> shape result \<Rightarrow> bool" where
  "refines P m r \<longleftrightarrow>
     (\<forall>sd. P (param_shapes sd) \<longrightarrow>
        rshape (fst (m sd)) = r \<and> res_wf (fst (m sd)) \<and> param_shapes (snd (m sd)) = param_shapes sd)"

text \<open>
  \<open>zero_affine sd q\<close>: the normalisation at \<open>q\<close> has weight and bias all zero,
  the initialisation that makes a residual block start as the identity.
\<close>

definition zero_affine :: "state_dict \<Rightarrow> string \<Rightarrow> bool" where
  "zero_affine sd q =
     (case (sd (pkey q ''weight''), sd (pkey q ''bias'')) of
        (Some w, Some b) \<Rightarrow> tensor_wf w \<and> tensor_wf b \<and> list_all (\<lambda>v. v = 0) (tdata w) \<and>
                            list_all (\<lambda>v. v = 0) (tdata b)
      | _ \<Rightarrow> False)"

subsection \<open>The row-major layout\<close>

lemma length_indices [simp]: "length (indices s) = prod_list s"
  by (induction s) (simp_all add: length_concat comp_def sum_list_triv)

lemma concat_upt_blocks: "concat (map (\<lambda>i. [i * p..<i * p + p]) [0..<d]) = [0..<d * p]"
proof (induction d)
  case (Suc d)
  have "[0..<d * p + p] = [0..<d * p] @ [d * p..<d * p + p]"
    by (rule upt_add_eq_append) simp
  then show ?case using Suc by (simp add: add.commute)
qed simp

lemma map_plus_upt: "map ((+) a) [0..<n] = [a..<a + n]"
  by (induction n) simp_all

lemma map_offset_indices: "map (offset s) (indices s) = [0..<prod_list s]"
proof (induction s)
  case (Cons d ds)
  have "map (offset (d # ds)) (indices (d # ds))
          = concat (map (\<lambda>i. map (\<lambda>is. i * prod_list ds + offset ds is) (indices ds)) [0..<d])"
    by (simp add: map_concat comp_def)
  also have "\<dots> = concat (map (\<lambda>i. map ((+) (i * prod_list ds)) (map (offset ds) (indices ds))) [0..<d])"
    by (simp add: comp_def)
  also have "\<dots> = concat (map (\<lambda>i. [i * prod_list ds..<i * prod_list ds + prod_list ds]) [0..<d])"
    by (simp only: Cons map_plus_upt)
  finally show ?case by (simp add: concat_upt_blocks)
qed simp

lemma set_indices: "set (indices s) = {i. in_range s i}"
  by (induction s) (auto simp: in_range_def list_all2_Cons2)

lemma offset_indices_nth: "k < prod_list s \<Longrightarrow> offset s (indices s ! k) = k"
  using nth_map [of k "indices s" "offset s"] by (simp add: map_offset_indices)

lemma indices_nth_offset:
  assumes "in_range s i"
  shows "offset s i < prod_list s" "indices s ! offset s i = i"
proof -
  from assms have "i \<in> set (indices s)" by (simp add: set_indices)
  then obtain k where k: "k < prod_list s" "indices s ! k = i"
    by (auto simp: in_set_conv_nth)
  then show "offset s i < prod_list s" "indices s ! offset s i = i"
    using offset_indices_nth [OF k(1)] by simp_all
qed

text \<open>Reading a built tensor gives back the entry it was built with.\<close>

lemma tget_tensor_of [simp]: "in_range s i \<Longrightarrow> tget (tensor_of s f) i = f i"
  by (simp add: tget_def tensor_of_def indices_nth_offset)

lemma tshape_tensor_of [simp]: "tshape (tensor_of s f) = s"
  by (simp add: tensor_of_def)

lemma tensor_wf_tensor_of [simp]: "tensor_wf (tensor_of s f)"
  by (simp add: tensor_wf_def tensor_of_def)

text \<open>A well-formed tensor is the tensor built from its own entries.\<close>

lemma tensor_of_tget: "tensor_wf x \<Longrightarrow> tensor_of (tshape x) (tget x) = x"
  by (rule tensor.equality) (auto simp: tensor_of_def tget_def tensor_wf_def offset_indices_nth
      intro!: nth_equalityI)

lemma tensor_eqI:
  assumes "tensor_wf x" "tensor_wf y" "tshape x = tshape y"
    "\<And>i. in_range (tshape x) i \<Longrightarrow> tget x i = tget y i"
  shows "x = y"
proof -
  have "tensor_of (tshape x) (tget x) = tensor_of (tshape y) (tget y)"
    using assms(3,4) by (auto simp: tensor_of_def set_indices)
  then show ?thesis using tensor_of_tget assms(1,2) by metis
qed

subsection \<open>Lemmas on computations\<close>

lemma sbind_apply:
  "sbind m f sd = (case m sd of (Inl e, sd') \<Rightarrow> (Inl e, sd') | (Inr a, sd') \<Rightarrow> f a sd')"
  by (simp add: sbind_def)

lemma sret_apply [simp]: "sret a sd = (Inr a, sd)"
  by (simp add: sret_def)

lemma slift_apply [simp]: "slift r sd = (r, sd)"
  by (simp add: slift_def)

lemma sbind_sret [simp]: "sbind (sret a) f = f a"
  by (simp add: sbind_def sret_def)

lemma state_ok_append [simp]: "state_ok ps (xs @ ys) \<longleftrightarrow> state_ok ps xs \<and> state_ok ps ys"
  by (simp add: state_ok_def)

lemma state_ok_Cons [simp]: "state_ok ps ((k, s) # xs) \<longleftrightarrow> ps k = Some s \<and> state_ok ps xs"
  by (simp add: state_ok_def)

lemma state_ok_Nil [simp]: "state_ok ps []"
  by (simp add: state_ok_def)

lemma param_shapes_Some: "param_shapes sd k = Some s \<longleftrightarrow> (\<exists>v. sd k = Some v \<and> tshape v = s)"
  by (simp add: param_shapes_def)

lemma param_shapes_upd [simp]:
  "sd k = Some v \<Longrightarrow> tshape v' = tshape v \<Longrightarrow> param_shapes (sd(k \<mapsto> v')) = param_shapes sd"
  by (auto simp: param_shapes_def)

lemma rbind_tensor_of:
  "rshape (rbind r (\<lambda>s. Inr (tensor_of s (g s)))) = r \<and> res_wf (rbind r (\<lambda>s. Inr (tensor_of s (g s))))"
  by (cases r) (simp_all add: res_wf_def)

subsection \<open>Refinement combinators\<close>

lemma refines_weaken: "refines P m r \<Longrightarrow> (\<And>ps. Q ps \<Longrightarrow> P ps) \<Longrightarrow> refines Q m r"
  by (simp add: refines_def)

lemma refines_sret: "tensor_wf x \<Longrightarrow> refines P (sret x) (Inr (tshape x))"
  by (simp add: refines_def res_wf_def)

lemma refines_slift: "rshape r = s \<and> res_wf r \<Longrightarrow> refines P (slift r) s"
  by (simp add: refines_def)

lemma refines_sbind:
  assumes m: "refines P m r"
    and f: "\<And>a. tensor_wf a \<Longrightarrow> r = Inr (tshape a) \<Longrightarrow> refines P (f a) (g (tshape a))"
  shows "refines P (sbind m f) (rbind r g)"
  unfolding refines_def
proof (intro allI impI)
  fix sd assume P: "P (param_shapes sd)"
  obtain res sd' where msd: "m sd = (res, sd')" by fastforce
  have "rshape (fst (m sd)) = r \<and> res_wf (fst (m sd)) \<and> param_shapes (snd (m sd)) = param_shapes sd"
    using m P by (simp add: refines_def)
  then have mr: "rshape res = r" "res_wf res" "param_shapes sd' = param_shapes sd"
    using msd by simp_all
  show "rshape (fst (sbind m f sd)) = rbind r g \<and> res_wf (fst (sbind m f sd)) \<and>
        param_shapes (snd (sbind m f sd)) = param_shapes sd"
  proof (cases res)
    case (Inl e)
    then show ?thesis using mr msd by (auto simp: sbind_apply res_wf_def)
  next
    case (Inr a)
    then have "tensor_wf a" "r = Inr (tshape a)" using mr by (simp_all add: res_wf_def)
    then have "refines P (f a) (g (tshape a))" by (rule f)
    then show ?thesis using mr msd P Inr by (auto simp: sbind_apply refines_def)
  qed
qed

subsection \<open>Each numeric forward refines its shape contract\<close>

lemma conv2d_eval_refines: "rshape (conv2d_eval c w b x) = conv2d_forward c (tshape x) \<and> res_wf (conv2d_eval c w b x)"
  unfolding conv2d_eval_def by (rule rbind_tensor_of)

lemma max_pool2d_eval_refines:
  "rshape (max_pool2d_eval k s q x) = max_pool2d_forward k s q (tshape x) \<and> res_wf (max_pool2d_eval k s q x)"
  unfolding max_pool2d_eval_def by (rule rbind_tensor_of)

lemma adaptive_avg_pool2d_eval_refines:
  "rshape (adaptive_avg_pool2d_eval osz x) = adaptive_avg_pool2d_forward osz (tshape x) \<and>
   res_wf (adaptive_avg_pool2d_eval osz x)"
  unfolding adaptive_avg_pool2d_eval_def by (rule rbind_tensor_of)

lemma linear_eval_refines: "rshape (linear_eval i oc w b x) = linear_forward i oc (tshape x) \<and> res_wf (linear_eval i oc w b x)"
  unfolding linear_eval_def by (rule rbind_tensor_of)

lemma tensor_add_refines: "rshape (tensor_add x y) = add_inplace (tshape x) (tshape y) \<and> res_wf (tensor_add x y)"
  unfolding tensor_add_def by (rule rbind_tensor_of)

lemma prod_list_take_drop: "prod_list (take d s) * prod_list (drop d s) = prod_list s"
  by (metis append_take_drop_id prod_list.append)

lemma tensor_flatten_refines:
  "tensor_wf x \<Longrightarrow> rshape (tensor_flatten x d) = flatten (tshape x) d \<and> res_wf (tensor_flatten x d)"
  by (auto simp: tensor_flatten_def flatten_def res_wf_def tensor_wf_def prod_list_take_drop)

lemma relu_eval_wf [simp]: "tshape (relu_eval x) = tshape x" "tensor_wf (relu_eval x) = tensor_wf x"
  by (simp_all add: relu_eval_def tensor_wf_def)

lemma pkey_eq_iff [simp]: "pkey p a = pkey p b \<longleftrightarrow> a = b"
  by (simp add: pkey_def)

lemma param_present:
  "param_shapes sd (pkey p n) = Some s \<Longrightarrow> \<exists>v. param p n sd = Inr v \<and> sd (pkey p n) = Some v \<and> tshape v = s"
  by (auto simp: param_shapes_Some param_def)

lemma batch_norm_eval_refines:
  assumes "tensor_wf x"
  shows "refines (\<lambda>ps. state_ok ps (layer_state p (BatchNorm2d n))) (batch_norm_eval t n p x)
           (batch_norm_forward t n (tshape x))"
  unfolding refines_def
proof (intro allI impI)
  fix sd assume "state_ok (param_shapes sd) (layer_state p (BatchNorm2d n))"
  then obtain w b rm rv nbt where
    p: "param p ''weight'' sd = Inr w" "param p ''bias'' sd = Inr b" "param p ''running_mean'' sd = Inr rm"
       "param p ''running_var'' sd = Inr rv" "param p ''num_batches_tracked'' sd = Inr nbt"
    and s: "sd (pkey p ''running_mean'') = Some rm" "sd (pkey p ''running_var'') = Some rv"
       "sd (pkey p ''num_batches_tracked'') = Some nbt" "tshape rm = [n]" "tshape rv = [n]"
    by (auto dest!: param_present)
  show "rshape (fst (batch_norm_eval t n p x sd)) = batch_norm_forward t n (tshape x) \<and>
        res_wf (fst (batch_norm_eval t n p x sd)) \<and>
        param_shapes (snd (batch_norm_eval t n p x sd)) = param_shapes sd"
    using p s assms
    by (auto simp: batch_norm_eval_def batch_norm_forward_def param_def bn_normalize_def res_wf_def Let_def
        param_shapes_def fun_eq_iff)
qed

lemma layer_eval_refines:
  assumes "tensor_wf x"
  shows "refines (\<lambda>ps. state_ok ps (layer_state p l)) (layer_eval t p l x) (layer_forward t l (tshape x))"
proof (cases l)
  case (Conv2d c)
  show ?thesis unfolding Conv2d refines_def
    using conv2d_eval_refines [of c _ _ x] by (auto dest!: param_present)
next
  case (BatchNorm2d n)
  then show ?thesis using batch_norm_eval_refines [OF assms] by simp
next
  case ReLU
  then show ?thesis using assms by (simp add: refines_def res_wf_def)
next
  case (MaxPool2d k s q)
  then show ?thesis by (simp add: refines_slift max_pool2d_eval_refines)
next
  case (AdaptiveAvgPool2d osz)
  then show ?thesis by (simp add: refines_slift adaptive_avg_pool2d_eval_refines)
next
  case (Linear i oc)
  show ?thesis unfolding Linear refines_def
    using linear_eval_refines [of i oc _ _ x] by (auto dest!: param_present)
qed

lemma seq_eval_refines:
  "tensor_wf x \<Longrightarrow> refines (\<lambda>ps. state_ok ps (seq_state p i ms)) (seq_eval t p i ms x) (seq_forward t ms (tshape x))"
proof (induction ms arbitrary: i x)
  case Nil
  then show ?case by (simp add: refines_def res_wf_def)
next
  case (Cons m ms)
  show ?case
    unfolding seq_eval.simps seq_forward.simps
    by (rule refines_sbind, rule refines_weaken [OF layer_eval_refines [OF Cons.prems]], simp,
        rule refines_weaken [OF Cons.IH], simp_all)
qed

subsection \<open>Running one layer\<close>

lemma layer_run:
  assumes "tensor_wf x" "state_ok (param_shapes sd) (layer_state q l)" "layer_forward t l (tshape x) = Inr s"
  obtains y sd' where "layer_eval t q l x sd = (Inr y, sd')" "tshape y = s" "tensor_wf y"
    "param_shapes sd' = param_shapes sd"
proof -
  have "rshape (fst (layer_eval t q l x sd)) = Inr s \<and> res_wf (fst (layer_eval t q l x sd)) \<and>
        param_shapes (snd (layer_eval t q l x sd)) = param_shapes sd"
    using layer_eval_refines [OF assms(1), of q l t] assms(2,3) by (simp add: refines_def)
  then show ?thesis using that by (cases "layer_eval t q l x sd" rule: prod.exhaust)
    (auto simp: res_wf_def map_sum_def split: sum.splits)
qed

lemma layer_eval_same_state:
  "(\<forall>n. l \<noteq> BatchNorm2d n) \<or> \<not> t \<Longrightarrow> snd (layer_eval t q l x sd) = sd"
  by (cases l) (auto simp: batch_norm_eval_def Let_def split: sum.split prod.split)

lemma batch_norm_eval_nbt:
  assumes "length (tshape x) = 4" "state_ok (param_shapes sd) (layer_state q (BatchNorm2d nf))"
  shows "snd (batch_norm_eval True nf q x sd) (pkey q ''num_batches_tracked'')
           = map_option (\<lambda>v. v\<lparr>tdata := map (\<lambda>r. r + 1) (tdata v)\<rparr>) (sd (pkey q ''num_batches_tracked''))"
proof -
  obtain nbt where "param q ''num_batches_tracked'' sd = Inr nbt" "sd (pkey q ''num_batches_tracked'') = Some nbt"
    using assms(2) by (auto dest!: param_present)
  then show ?thesis using assms(1)
    by (auto simp: batch_norm_eval_def Let_def split: sum.split prod.split)
qed

text \<open>
  A training-mode normalisation that returns moves \<open>running_mean\<close> a step
  \<open>momentum\<close> towards the per-channel mean of the batch it received.
\<close>

lemma batch_norm_eval_running_mean:
  assumes run: "batch_norm_eval True nf q x sd = (Inr z, sd')"
    and ok: "state_ok (param_shapes sd) (layer_state q (BatchNorm2d nf))"
  shows "sd' (pkey q ''running_mean'') = map_option (\<lambda>rm. tensor_of [nf] (\<lambda>j.
           (1 - bn_momentum) * tget rm j + bn_momentum * mean (channel_values x (j ! 0))))
           (sd (pkey q ''running_mean''))"
proof -
  obtain w b rm rv nbt where
    p: "param q ''weight'' sd = Inr w" "param q ''bias'' sd = Inr b" "param q ''running_mean'' sd = Inr rm"
       "param q ''running_var'' sd = Inr rv" "param q ''num_batches_tracked'' sd = Inr nbt"
       "sd (pkey q ''running_mean'') = Some rm" "sd (pkey q ''num_batches_tracked'') = Some nbt"
    using ok by (auto dest!: param_present)
  then show ?thesis using run
    by (auto simp: batch_norm_eval_def param_def Let_def rbind_eq_Inr_iff split: if_splits sum.splits prod.splits)
qed

subsection \<open>Entries of the numeric forwards\<close>

lemma tensor_of_cong: "(\<And>i. in_range s i \<Longrightarrow> f i = g i) \<Longrightarrow> tensor_of s f = tensor_of s g"
  by (simp add: tensor_of_def set_indices)

lemma in_range_nth: "in_range s i \<Longrightarrow> k < length s \<Longrightarrow> i ! k < s ! k"
  by (simp add: in_range_def list_all2_conv_all_nth)

lemma bidx_same: "in_range s i \<Longrightarrow> bidx s i = i"
  by (auto simp: bidx_def in_range_def list_all2_conv_all_nth intro!: nth_equalityI)

lemma tensor_add_zero:
  assumes "tensor_wf x"
  shows "tensor_add (tensor_of (tshape x) (\<lambda>_. 0)) x = Inr x"
proof -
  have "tensor_of (tshape x) (\<lambda>i. tget (tensor_of (tshape x) (\<lambda>_. 0)) i + tget x (bidx (tshape x) i))
          = tensor_of (tshape x) (tget x)"
    by (rule tensor_of_cong) (simp add: bidx_same)
  then show ?thesis using assms by (simp add: tensor_add_def add_inplace_def tensor_of_tget)
qed

lemma relu_eval_idem [simp]: "relu_eval (relu_eval x) = relu_eval x"
  by (simp add: relu_eval_def comp_def)

lemma relu_eval_nonneg: "list_all (\<lambda>v. 0 \<le> v) (tdata x) \<Longrightarrow> relu_eval x = x"
  by (simp add: relu_eval_def list_all_iff map_idI)

lemma tget_vector_zero:
  "tensor_wf w \<Longrightarrow> tshape w = [n] \<Longrightarrow> list_all (\<lambda>v. v = 0) (tdata w) \<Longrightarrow> c < n \<Longrightarrow> tget w [c] = 0"
  by (simp add: tget_def tensor_wf_def list_all_iff)

lemma batch_norm_eval_zero_affine:
  assumes z: "zero_affine sd q" and ok: "state_ok (param_shapes sd) (layer_state q (BatchNorm2d n))"
    and f: "batch_norm_forward False n (tshape y) = Inr s"
  shows "layer_eval False q (BatchNorm2d n) y sd = (Inr (tensor_of (tshape y) (\<lambda>_. 0)), sd)"
proof -
  obtain w b rm rv where p: "param q ''weight'' sd = Inr w" "param q ''bias'' sd = Inr b"
    "param q ''running_mean'' sd = Inr rm" "param q ''running_var'' sd = Inr rv"
    "tshape w = [n]" "tshape b = [n]" "sd (pkey q ''weight'') = Some w" "sd (pkey q ''bias'') = Some b"
    using ok by (auto dest!: param_present)
  have zw: "tensor_wf w \<and> tensor_wf b \<and> list_all (\<lambda>v. v = 0) (tdata w) \<and> list_all (\<lambda>v. v = 0) (tdata b)"
    using z p(7,8) by (simp add: zero_affine_def)
  have shp: "length (tshape y) = 4" "tshape y ! 1 = n" using f by (simp_all add: batch_norm_forward_def split: if_splits)
  have "bn_normalize y (\<lambda>c. tget rm [c]) (\<lambda>c. tget rv [c]) w b = tensor_of (tshape y) (\<lambda>_. 0)"
    unfolding bn_normalize_def
  proof (rule tensor_of_cong)
    fix i assume "in_range (tshape y) i"
    then have "i ! 1 < n" using in_range_nth [of "tshape y" i 1] shp by simp
    then show "(tget y i - tget rm [i ! 1]) / sqrt (tget rv [i ! 1] + bn_eps) * tget w [i ! 1] + tget b [i ! 1] = 0"
      using zw p(5,6) by (simp add: tget_vector_zero)
  qed
  then show ?thesis using p f shp by (simp add: batch_norm_eval_def)
qed

end
