(* ===== verification/Dataflow.thy ===== *)
theory Dataflow
  imports Tensor Typing
begin

text \<open>
  The forward passes of src/resnet-study.py over tensor values: the blocks' forwards
  (lines 25--41 and 61--81), the stages (\<open>nn.Sequential\<close> of blocks) and
  \<open>ResNet.forward\<close> (lines 148--164), each a computation on the model's state
  dictionary at the dotted name of the module. They use the same block objects and
  the same attribute lookups as the shape model of theories Blocks and Model: the
  forwards as written (\<open>basic_block_eval\<close>, \<open>bottleneck_eval\<close>), the forwards
  bound to the block's own submodules as the spec describes them
  (\<open>block_eval_bound\<close>). \<open>block_state\<close>, \<open>stage_state\<close> and
  \<open>resnet_state\<close> list the entries of \<open>state_dict()\<close> the constructors register,
  in registration order (BasicBlock lines 16--23, Bottleneck lines 49--59, ResNet
  lines 103--117).
\<close>

subsection \<open>Block forwards as written\<close>

definition basic_call_eval :: "bool \<Rightarrow> string \<Rightarrow> basic_block \<Rightarrow> string \<Rightarrow> tensor \<Rightarrow> tensor exec" where
  "basic_call_eval t p b name x = sbind (slift (basic_getattr b name)) (\<lambda>m. layer_eval t (pkey p name) m x)"

definition shortcut_eval :: "bool \<Rightarrow> string \<Rightarrow> layer list option \<Rightarrow> tensor \<Rightarrow> tensor exec" where
  "shortcut_eval t p ds x =
     (case ds of None \<Rightarrow> sret x | Some d \<Rightarrow> seq_eval t (pkey p ''downsample'') 0 d x)"

definition basic_block_eval :: "bool \<Rightarrow> string \<Rightarrow> basic_block \<Rightarrow> tensor \<Rightarrow> tensor exec" where
  "basic_block_eval t p b x =
     sbind (basic_call_eval t p b ''conv1'' x) (\<lambda>out.
     sbind (basic_call_eval t p b ''bn1'' out) (\<lambda>out.
     sbind (basic_call_eval t p b ''relu'' out) (\<lambda>out.
     sbind (basic_call_eval t p b ''conv2'' out) (\<lambda>out.
     sbind (basic_call_eval t p b ''bn2'' out) (\<lambda>out.
     sbind (shortcut_eval t p (bb_downsample b) x) (\<lambda>identity.
     sbind (slift (tensor_add out identity)) (\<lambda>out.
     basic_call_eval t p b ''relu'' out)))))))"

text \<open>A bare name is a module of the global scope, whose entries have its name as prefix.\<close>

definition global_call_eval :: "(string \<Rightarrow> layer option) \<Rightarrow> bool \<Rightarrow> string \<Rightarrow> tensor \<Rightarrow> tensor exec" where
  "global_call_eval genv t name x =
     (case genv name of None \<Rightarrow> slift (Inl (NameError name)) | Some m \<Rightarrow> layer_eval t name m x)"

definition bottleneck_eval_in ::
  "(string \<Rightarrow> layer option) \<Rightarrow> bool \<Rightarrow> string \<Rightarrow> bottleneck \<Rightarrow> tensor \<Rightarrow> tensor exec" where
  "bottleneck_eval_in genv t p b x =
     sbind (global_call_eval genv t ''conv1'' x) (\<lambda>out.
     sbind (global_call_eval genv t ''bn1'' out) (\<lambda>out.
     sbind (global_call_eval genv t ''relu'' out) (\<lambda>out.
     sbind (global_call_eval genv t ''conv2'' out) (\<lambda>out.
     sbind (global_call_eval genv t ''bn2'' out) (\<lambda>out.
     sbind (global_call_eval genv t ''relu'' out) (\<lambda>out.
     sbind (global_call_eval genv t ''conv3'' out) (\<lambda>out.
     sbind (global_call_eval genv t ''bn3'' out) (\<lambda>out.
     sbind (shortcut_eval t p (bt_downsample b) x) (\<lambda>identity.
     sbind (slift (tensor_add out identity)) (\<lambda>out.
     global_call_eval genv t ''relu'' out))))))))))"

definition bottleneck_eval :: "bool \<Rightarrow> string \<Rightarrow> bottleneck \<Rightarrow> tensor \<Rightarrow> tensor exec" where
  "bottleneck_eval t p b x = bottleneck_eval_in script_genv t p b x"

fun block_eval :: "bool \<Rightarrow> string \<Rightarrow> block \<Rightarrow> tensor \<Rightarrow> tensor exec" where
  "block_eval t p (Basic b) x = basic_block_eval t p b x"
| "block_eval t p (Bottle b) x = bottleneck_eval t p b x"

subsection \<open>Block forwards bound to the block's submodules\<close>

fun block_eval_bound :: "bool \<Rightarrow> string \<Rightarrow> block \<Rightarrow> tensor \<Rightarrow> tensor exec" where
  "block_eval_bound t p (Basic b) x =
     sbind (layer_eval t (pkey p ''conv1'') (bb_conv1 b) x) (\<lambda>out.
     sbind (layer_eval t (pkey p ''bn1'') (bb_bn1 b) out) (\<lambda>out.
     sbind (layer_eval t (pkey p ''relu'') (bb_relu b) out) (\<lambda>out.
     sbind (layer_eval t (pkey p ''conv2'') (bb_conv2 b) out) (\<lambda>out.
     sbind (layer_eval t (pkey p ''nb2'') (bb_nb2 b) out) (\<lambda>out.
     sbind (shortcut_eval t p (bb_downsample b) x) (\<lambda>identity.
     sbind (slift (tensor_add out identity)) (\<lambda>out.
     layer_eval t (pkey p ''relu'') (bb_relu b) out)))))))"
| "block_eval_bound t p (Bottle b) x =
     sbind (layer_eval t (pkey p ''conv1'') (bt_conv1 b) x) (\<lambda>out.
     sbind (layer_eval t (pkey p ''bn1'') (bt_bn1 b) out) (\<lambda>out.
     sbind (layer_eval t (pkey p ''relu'') (bt_relu b) out) (\<lambda>out.
     sbind (layer_eval t (pkey p ''conv2'') (bt_conv2 b) out) (\<lambda>out.
     sbind (layer_eval t (pkey p ''bn2'') (bt_bn2 b) out) (\<lambda>out.
     sbind (layer_eval t (pkey p ''relu'') (bt_relu b) out) (\<lambda>out.
     sbind (layer_eval t (pkey p ''conv3'') (bt_conv3 b) out) (\<lambda>out.
     sbind (layer_eval t (pkey p ''bn3'') (bt_bn3 b) out) (\<lambda>out.
     sbind (shortcut_eval t p (bt_downsample b) x) (\<lambda>identity.
     sbind (slift (tensor_add out identity)) (\<lambda>out.
     layer_eval t (pkey p ''relu'') (bt_relu b) out))))))))))"

subsection \<open>Stages and the network\<close>

type_synonym block_exec = "bool \<Rightarrow> string \<Rightarrow> block \<Rightarrow> tensor \<Rightarrow> tensor exec"

fun stage_eval :: "block_exec \<Rightarrow> bool \<Rightarrow> string \<Rightarrow> nat \<Rightarrow> block list \<Rightarrow> tensor \<Rightarrow> tensor exec" where
  "stage_eval F t p i [] x = sret x"
| "stage_eval F t p i (b # bs) x = sbind (F t (pkey p (nat_str i)) b x) (stage_eval F t p (Suc i) bs)"

definition resnet_eval_with :: "block_exec \<Rightarrow> bool \<Rightarrow> resnet \<Rightarrow> tensor \<Rightarrow> tensor exec" where
  "resnet_eval_with F t net x =
     sbind (layer_eval t ''conv1'' (conv1 net) x) (\<lambda>out.
     sbind (layer_eval t ''bn1'' (bn1 net) out) (\<lambda>out.
     sbind (layer_eval t ''relu'' (relu net) out) (\<lambda>out.
     sbind (layer_eval t ''maxpool'' (maxpool net) out) (\<lambda>out.
     sbind (stage_eval F t ''conv2_'' 0 (conv2_x net) out) (\<lambda>out.
     sbind (stage_eval F t ''conv3_'' 0 (conv3_x net) out) (\<lambda>out.
     sbind (stage_eval F t ''conv4_'' 0 (conv4_x net) out) (\<lambda>out.
     sbind (stage_eval F t ''conv5_'' 0 (conv5_x net) out) (\<lambda>out.
     sbind (layer_eval t ''avgpool'' (avgpool net) out) (\<lambda>out.
     sbind (slift (tensor_flatten out 1)) (\<lambda>out.
     layer_eval t ''fc'' (fc net) out))))))))))"

definition resnet_eval :: "bool \<Rightarrow> resnet \<Rightarrow> tensor \<Rightarrow> tensor exec" where
  "resnet_eval = resnet_eval_with block_eval"

subsection \<open>The registered parameters\<close>

fun block_state :: "string \<Rightarrow> block \<Rightarrow> (string \<times> shape) list" where
  "block_state p (Basic b) =
     layer_state (pkey p ''conv1'') (bb_conv1 b) @ layer_state (pkey p ''bn1'') (bb_bn1 b) @
     layer_state (pkey p ''conv2'') (bb_conv2 b) @ layer_state (pkey p ''nb2'') (bb_nb2 b) @
     (case bb_downsample b of None \<Rightarrow> [] | Some d \<Rightarrow> seq_state (pkey p ''downsample'') 0 d) @
     layer_state (pkey p ''relu'') (bb_relu b)"
| "block_state p (Bottle b) =
     layer_state (pkey p ''conv1'') (bt_conv1 b) @ layer_state (pkey p ''bn1'') (bt_bn1 b) @
     layer_state (pkey p ''conv2'') (bt_conv2 b) @ layer_state (pkey p ''bn2'') (bt_bn2 b) @
     layer_state (pkey p ''conv3'') (bt_conv3 b) @ layer_state (pkey p ''bn3'') (bt_bn3 b) @
     (case bt_downsample b of None \<Rightarrow> [] | Some d \<Rightarrow> seq_state (pkey p ''downsample'') 0 d) @
     layer_state (pkey p ''relu'') (bt_relu b)"

fun stage_state :: "string \<Rightarrow> nat \<Rightarrow> block list \<Rightarrow> (string \<times> shape) list" where
  "stage_state p i [] = []"
| "stage_state p i (b # bs) = block_state (pkey p (nat_str i)) b @ stage_state p (Suc i) bs"

definition resnet_state :: "resnet \<Rightarrow> (string \<times> shape) list" where
  "resnet_state net =
     layer_state ''conv1'' (conv1 net) @ layer_state ''bn1'' (bn1 net) @ layer_state ''relu'' (relu net) @
     layer_state ''maxpool'' (maxpool net) @ stage_state ''conv2_'' 0 (conv2_x net) @
     stage_state ''conv3_'' 0 (conv3_x net) @ stage_state ''conv4_'' 0 (conv4_x net) @
     stage_state ''conv5_'' 0 (conv5_x net) @ layer_state ''fc'' (fc net) @ layer_state ''avgpool'' (avgpool net)"

text \<open>
  A state dictionary that holds every listed entry with its shape and all values 0,
  used to instantiate the theorems below.
\<close>

definition zero_state :: "(string \<times> shape) list \<Rightarrow> state_dict" where
  "zero_state keys = map_of (map (\<lambda>(k, s). (k, tensor_of s (\<lambda>_. 0))) keys)"

text \<open>
  A block whose last normalisation has zero weight and bias and which has no
  shortcut projection (the zero-initialised residual of the ResNet literature), and a
  stage of such blocks.
\<close>

fun is_norm :: "layer \<Rightarrow> bool" where
  "is_norm (BatchNorm2d _) = True"
| "is_norm _ = False"

fun zero_residual :: "state_dict \<Rightarrow> string \<Rightarrow> block \<Rightarrow> bool" where
  "zero_residual sd q (Basic c) =
     (bb_downsample c = None \<and> bb_relu c = ReLU \<and> is_norm (bb_nb2 c) \<and> zero_affine sd (pkey q ''nb2''))"
| "zero_residual sd q (Bottle c) =
     (bt_downsample c = None \<and> bt_relu c = ReLU \<and> is_norm (bt_bn3 c) \<and> zero_affine sd (pkey q ''bn3''))"

fun stage_zero_residual :: "state_dict \<Rightarrow> string \<Rightarrow> nat \<Rightarrow> block list \<Rightarrow> bool" where
  "stage_zero_residual sd p i [] = True"
| "stage_zero_residual sd p i (b # bs) =
     (zero_residual sd (pkey p (nat_str i)) b \<and> stage_zero_residual sd p (Suc i) bs)"

subsection \<open>Instances\<close>

lemma nat_str_1: "nat_str (Suc 0) = ''1''"
  by code_simp

lemma zero_state_ok: "distinct (map fst keys) \<Longrightarrow> state_ok (param_shapes (zero_state keys)) keys"
  by (auto simp: state_ok_def list_all_iff zero_state_def param_shapes_def map_of_eq_Some_iff
      image_iff split_def comp_def)

subsection \<open>The BasicBlock forward as written updates bn1 before it raises\<close>

lemma basic_getattr_init:
  "basic_getattr (basic_block_init i oc s ds) ''conv1'' = Inr (conv3x3 i oc 1 1)"
  "basic_getattr (basic_block_init i oc s ds) ''bn1'' = Inr (BatchNorm2d oc)"
  "basic_getattr (basic_block_init i oc s ds) ''relu'' = Inr ReLU"
  "basic_getattr (basic_block_init i oc s ds) ''conv2'' = Inr (conv3x3 oc oc 1 1)"
  "basic_getattr (basic_block_init i oc s ds) ''bn2'' = Inl (AttributeError ''bn2'')"
  by (simp_all add: basic_getattr_def basic_block_modules_def module_getattr_def basic_block_init_def)

text \<open>
  C25: in training mode, the BasicBlock forward as written raises
  \<open>AttributeError\<close> at \<open>self.bn2\<close> (line 33), but only after \<open>self.bn1\<close> has run
  (line 29) on the output \<open>y\<close> of \<open>self.conv1\<close>: the exception leaves bn1's
  \<open>num_batches_tracked\<close> incremented by 1 and its \<open>running_mean\<close> moved to
  \<open>0.9 running_mean + 0.1 mean(y)\<close> per channel. A failed forward pass is not free
  of effects.
\<close>

theorem basic_block_eval_raises_after_bn1:
  assumes ok: "state_ok (param_shapes sd) (block_state p (Basic (basic_block_init i oc s ds)))"
    and x: "tensor_wf x" "tshape x = [n, i, h, w]" "0 < h" "0 < w" "n * h * w \<noteq> 1"
  shows "fst (basic_block_eval True p (basic_block_init i oc s ds) x sd) = Inl (AttributeError ''bn2'') \<and>
         snd (basic_block_eval True p (basic_block_init i oc s ds) x sd) (pkey (pkey p ''bn1'') ''num_batches_tracked'')
           = map_option (\<lambda>v. v\<lparr>tdata := map (\<lambda>r. r + 1) (tdata v)\<rparr>)
               (sd (pkey (pkey p ''bn1'') ''num_batches_tracked'')) \<and>
         (\<exists>y. fst (layer_eval True (pkey p ''conv1'') (conv3x3 i oc 1 1) x sd) = Inr y \<and>
            snd (basic_block_eval True p (basic_block_init i oc s ds) x sd) (pkey (pkey p ''bn1'') ''running_mean'')
              = map_option (\<lambda>rm. tensor_of [oc] (\<lambda>j.
                  (1 - bn_momentum) * tget rm j + bn_momentum * mean (channel_values y (j ! 0))))
                  (sd (pkey (pkey p ''bn1'') ''running_mean'')))"
proof -
  let ?b = "basic_block_init i oc s ds"
  have oks: "state_ok (param_shapes sd) (layer_state (pkey p ''conv1'') (conv3x3 i oc 1 1))"
    "state_ok (param_shapes sd) (layer_state (pkey p ''bn1'') (BatchNorm2d oc))"
    "state_ok (param_shapes sd) (layer_state (pkey p ''conv2'') (conv3x3 oc oc 1 1))"
    using ok by (simp_all add: basic_block_init_def)
  have f1: "layer_forward True (conv3x3 i oc 1 1) (tshape x) = Inr [n, oc, h, w]"
    using x by (simp add: shape_simps)
  obtain y1 sd1 where y1: "layer_eval True (pkey p ''conv1'') (conv3x3 i oc 1 1) x sd = (Inr y1, sd1)"
    "tshape y1 = [n, oc, h, w]" "tensor_wf y1" "param_shapes sd1 = param_shapes sd"
    by (rule layer_run [OF x(1) oks(1) f1])
  have sd1: "sd1 = sd" using layer_eval_same_state [of "conv3x3 i oc 1 1" True] y1(1)
    by (metis conv3x3_def layer.distinct(1) snd_conv)
  have f2: "layer_forward True (BatchNorm2d oc) (tshape y1) = Inr [n, oc, h, w]"
    using y1(2) x(5) by (simp add: batch_norm_forward_def)
  obtain y2 sd2 where y2: "layer_eval True (pkey p ''bn1'') (BatchNorm2d oc) y1 sd = (Inr y2, sd2)"
    "tshape y2 = [n, oc, h, w]" "tensor_wf y2" "param_shapes sd2 = param_shapes sd"
    by (rule layer_run [OF y1(3) oks(2) f2])
  have nbt: "sd2 (pkey (pkey p ''bn1'') ''num_batches_tracked'')
      = map_option (\<lambda>v. v\<lparr>tdata := map (\<lambda>r. r + 1) (tdata v)\<rparr>) (sd (pkey (pkey p ''bn1'') ''num_batches_tracked''))"
    using batch_norm_eval_nbt [of y1 sd "pkey p ''bn1''" oc] y1(2) oks(2) y2(1) by simp
  have ok2: "state_ok (param_shapes sd2) (layer_state (pkey p ''conv2'') (conv3x3 oc oc 1 1))"
    using oks(3) y2(4) by simp
  have f4: "layer_forward True (conv3x3 oc oc 1 1) (tshape (relu_eval y2)) = Inr [n, oc, h, w]"
    using y2(2) x by (simp add: shape_simps)
  obtain y4 sd4 where y4: "layer_eval True (pkey p ''conv2'') (conv3x3 oc oc 1 1) (relu_eval y2) sd2 = (Inr y4, sd4)"
    "tshape y4 = [n, oc, h, w]" "tensor_wf y4" "param_shapes sd4 = param_shapes sd2"
    by (rule layer_run [OF _ ok2 f4]) (use y2(3) in simp_all)
  have sd4: "sd4 = sd2" using layer_eval_same_state [of "conv3x3 oc oc 1 1" True] y4(1)
    by (metis conv3x3_def layer.distinct(1) snd_conv)
  have "basic_block_eval True p ?b x sd = (Inl (AttributeError ''bn2''), sd2)"
    using y1(1) y2(1) y4 sd1 sd4
    by (simp add: basic_block_eval_def basic_call_eval_def sbind_apply basic_getattr_init)
  moreover have "sd2 (pkey (pkey p ''bn1'') ''running_mean'') = map_option (\<lambda>rm. tensor_of [oc] (\<lambda>j.
      (1 - bn_momentum) * tget rm j + bn_momentum * mean (channel_values y1 (j ! 0))))
      (sd (pkey (pkey p ''bn1'') ''running_mean''))"
    using batch_norm_eval_running_mean [of oc "pkey p ''bn1''" y1 sd y2 sd2] y2(1) oks(2) by simp
  ultimately show ?thesis using nbt y1(1) sd1 by auto
qed

theorem basic_block_eval_raises_after_bn1_witness:
  "fst (basic_block_eval True [] (basic_block_init 1 1 1 None) (tensor_of [2, 1, 1, 1] (\<lambda>_. 1))
      ((zero_state (block_state [] (Basic (basic_block_init 1 1 1 None))))
         (''conv1.weight'' \<mapsto> tensor_of [1, 1, 3, 3] (\<lambda>_. 1)))) = Inl (AttributeError ''bn2'') \<and>
   snd (basic_block_eval True [] (basic_block_init 1 1 1 None) (tensor_of [2, 1, 1, 1] (\<lambda>_. 1))
      ((zero_state (block_state [] (Basic (basic_block_init 1 1 1 None))))
         (''conv1.weight'' \<mapsto> tensor_of [1, 1, 3, 3] (\<lambda>_. 1)))) ''bn1.num_batches_tracked''
     = Some \<lparr>tshape = [], tdata = [1]\<rparr> \<and>
   snd (basic_block_eval True [] (basic_block_init 1 1 1 None) (tensor_of [2, 1, 1, 1] (\<lambda>_. 1))
      ((zero_state (block_state [] (Basic (basic_block_init 1 1 1 None))))
         (''conv1.weight'' \<mapsto> tensor_of [1, 1, 3, 3] (\<lambda>_. 1)))) ''bn1.running_mean''
     = Some \<lparr>tshape = [1], tdata = [1 / 10]\<rparr>"
proof -
  let ?b = "basic_block_init 1 1 1 None" and ?x = "tensor_of [2, 1, 1, 1] (\<lambda>_. 1)"
  let ?sd = "(zero_state (block_state [] (Basic ?b)))(''conv1.weight'' \<mapsto> tensor_of [1, 1, 3, 3] (\<lambda>_. 1))"
  have ok: "state_ok (param_shapes ?sd) (block_state [] (Basic ?b))"
    by code_simp
  have y: "fst (layer_eval True (pkey [] ''conv1'') (conv3x3 1 1 1 1) ?x ?sd) = Inr (tensor_of [2, 1, 1, 1] (\<lambda>_. 1))"
    unfolding conv3x3_def layer_eval.simps fst_conv by code_simp
  have r: "fst (basic_block_eval True [] ?b ?x ?sd) = Inl (AttributeError ''bn2'') \<and>
      snd (basic_block_eval True [] ?b ?x ?sd) (pkey (pkey [] ''bn1'') ''num_batches_tracked'')
        = map_option (\<lambda>v. v\<lparr>tdata := map (\<lambda>r. r + 1) (tdata v)\<rparr>) (?sd (pkey (pkey [] ''bn1'') ''num_batches_tracked'')) \<and>
      (\<exists>y. fst (layer_eval True (pkey [] ''conv1'') (conv3x3 1 1 1 1) ?x ?sd) = Inr y \<and>
         snd (basic_block_eval True [] ?b ?x ?sd) (pkey (pkey [] ''bn1'') ''running_mean'')
           = map_option (\<lambda>rm. tensor_of [1] (\<lambda>j.
               (1 - bn_momentum) * tget rm j + bn_momentum * mean (channel_values y (j ! 0))))
               (?sd (pkey (pkey [] ''bn1'') ''running_mean'')))"
    by (rule basic_block_eval_raises_after_bn1 [OF ok, of ?x 2 1 1]) simp_all
  have v: "map_option (\<lambda>v. v\<lparr>tdata := map (\<lambda>r. r + 1) (tdata v)\<rparr>) (?sd (pkey (pkey [] ''bn1'') ''num_batches_tracked''))
      = Some \<lparr>tshape = [], tdata = [1]\<rparr>"
    by code_simp
  have m: "map_option (\<lambda>rm. tensor_of [1] (\<lambda>j.
      (1 - bn_momentum) * tget rm j + bn_momentum * mean (channel_values (tensor_of [2, 1, 1, 1] (\<lambda>_. 1)) (j ! 0))))
      (?sd (pkey (pkey [] ''bn1'') ''running_mean'')) = Some \<lparr>tshape = [1], tdata = [1 / 10]\<rparr>"
    by code_simp
  show ?thesis using r v m y by (simp add: pkey_def)
qed

subsection \<open>A zero-initialised residual stage computes the activation of its input\<close>

lemma eval_step:
  assumes "tensor_wf y" "state_ok (param_shapes sd) (layer_state q l)" "layer_forward False l (tshape y) = Inr s"
  obtains y' where "layer_eval False q l y sd = (Inr y', sd)" "tshape y' = s" "tensor_wf y'"
proof -
  obtain y' sd' where "layer_eval False q l y sd = (Inr y', sd')" "tshape y' = s" "tensor_wf y'"
    by (rule layer_run [OF assms])
  moreover have "sd' = sd" using layer_eval_same_state [of l False q y sd] calculation(1) by simp
  ultimately show ?thesis using that by simp
qed

lemma is_norm_BatchNorm2d: "is_norm l \<Longrightarrow> \<exists>n. l = BatchNorm2d n"
  by (cases l) simp_all

lemma batch_norm_forward_same: "batch_norm_forward t n s = Inr s' \<Longrightarrow> s' = s"
  by (simp add: batch_norm_forward_def split: if_splits)

lemma basic_zero_residual:
  assumes z: "bb_downsample c = None" "bb_relu c = ReLU" "bb_nb2 c = BatchNorm2d n" "zero_affine sd (pkey q ''nb2'')"
    and ok: "state_ok (param_shapes sd) (block_state q (Basic c))" and x: "tensor_wf x"
    and f: "block_forward_bound False (Basic c) (tshape x) = Inr (tshape x)"
  shows "block_eval_bound False q (Basic c) x sd = (Inr (relu_eval x), sd)"
proof -
  from f z obtain s1 s2 s4 where f1: "layer_forward False (bb_conv1 c) (tshape x) = Inr s1"
    and f2: "layer_forward False (bb_bn1 c) s1 = Inr s2" and f4: "layer_forward False (bb_conv2 c) s2 = Inr s4"
    and f5: "batch_norm_forward False n s4 = Inr (tshape x)"
    by (auto simp: basic_block_forward_bound_def rbind_eq_Inr_iff shortcut_forward_def add_inplace_def
        split: if_splits)
  have oks: "state_ok (param_shapes sd) (layer_state (pkey q ''conv1'') (bb_conv1 c))"
    "state_ok (param_shapes sd) (layer_state (pkey q ''bn1'') (bb_bn1 c))"
    "state_ok (param_shapes sd) (layer_state (pkey q ''conv2'') (bb_conv2 c))"
    "state_ok (param_shapes sd) (layer_state (pkey q ''nb2'') (BatchNorm2d n))"
    using ok z by simp_all
  obtain y1 where y1: "layer_eval False (pkey q ''conv1'') (bb_conv1 c) x sd = (Inr y1, sd)" "tshape y1 = s1" "tensor_wf y1"
    by (rule eval_step [OF x oks(1) f1])
  obtain y2 where y2: "layer_eval False (pkey q ''bn1'') (bb_bn1 c) y1 sd = (Inr y2, sd)" "tshape y2 = s2" "tensor_wf y2"
    by (rule eval_step [OF y1(3) oks(2)]) (use y1(2) f2 in simp_all)
  have r2: "tensor_wf (relu_eval y2)" "layer_forward False (bb_conv2 c) (tshape (relu_eval y2)) = Inr s4"
    using y2 f4 by simp_all
  obtain y4 where y4: "layer_eval False (pkey q ''conv2'') (bb_conv2 c) (relu_eval y2) sd = (Inr y4, sd)"
    "tshape y4 = s4" "tensor_wf y4"
    by (rule eval_step [OF r2(1) oks(3) r2(2)])
  have "s4 = tshape x" using batch_norm_forward_same [OF f5] by simp
  then have y5: "layer_eval False (pkey q ''nb2'') (BatchNorm2d n) y4 sd = (Inr (tensor_of (tshape x) (\<lambda>_. 0)), sd)"
    using batch_norm_eval_zero_affine [OF z(4) oks(4)] f5 y4(2) by simp
  show ?thesis using y1(1) y2(1) y4(1) y5 z x
    by (simp add: sbind_apply shortcut_eval_def tensor_add_zero)
qed

lemma bottleneck_zero_residual:
  assumes z: "bt_downsample c = None" "bt_relu c = ReLU" "bt_bn3 c = BatchNorm2d n" "zero_affine sd (pkey q ''bn3'')"
    and ok: "state_ok (param_shapes sd) (block_state q (Bottle c))" and x: "tensor_wf x"
    and f: "block_forward_bound False (Bottle c) (tshape x) = Inr (tshape x)"
  shows "block_eval_bound False q (Bottle c) x sd = (Inr (relu_eval x), sd)"
proof -
  from f z obtain s1 s2 s4 s5 s7 where f1: "layer_forward False (bt_conv1 c) (tshape x) = Inr s1"
    and f2: "layer_forward False (bt_bn1 c) s1 = Inr s2" and f4: "layer_forward False (bt_conv2 c) s2 = Inr s4"
    and f5: "layer_forward False (bt_bn2 c) s4 = Inr s5" and f7: "layer_forward False (bt_conv3 c) s5 = Inr s7"
    and f8: "batch_norm_forward False n s7 = Inr (tshape x)"
    by (auto simp: bottleneck_forward_bound_def rbind_eq_Inr_iff shortcut_forward_def add_inplace_def
        split: if_splits)
  have oks: "state_ok (param_shapes sd) (layer_state (pkey q ''conv1'') (bt_conv1 c))"
    "state_ok (param_shapes sd) (layer_state (pkey q ''bn1'') (bt_bn1 c))"
    "state_ok (param_shapes sd) (layer_state (pkey q ''conv2'') (bt_conv2 c))"
    "state_ok (param_shapes sd) (layer_state (pkey q ''bn2'') (bt_bn2 c))"
    "state_ok (param_shapes sd) (layer_state (pkey q ''conv3'') (bt_conv3 c))"
    "state_ok (param_shapes sd) (layer_state (pkey q ''bn3'') (BatchNorm2d n))"
    using ok z by simp_all
  obtain y1 where y1: "layer_eval False (pkey q ''conv1'') (bt_conv1 c) x sd = (Inr y1, sd)" "tshape y1 = s1" "tensor_wf y1"
    by (rule eval_step [OF x oks(1) f1])
  obtain y2 where y2: "layer_eval False (pkey q ''bn1'') (bt_bn1 c) y1 sd = (Inr y2, sd)" "tshape y2 = s2" "tensor_wf y2"
    by (rule eval_step [OF y1(3) oks(2)]) (use y1(2) f2 in simp_all)
  have r2: "tensor_wf (relu_eval y2)" "layer_forward False (bt_conv2 c) (tshape (relu_eval y2)) = Inr s4"
    using y2 f4 by simp_all
  obtain y4 where y4: "layer_eval False (pkey q ''conv2'') (bt_conv2 c) (relu_eval y2) sd = (Inr y4, sd)"
    "tshape y4 = s4" "tensor_wf y4"
    by (rule eval_step [OF r2(1) oks(3) r2(2)])
  obtain y5 where y5: "layer_eval False (pkey q ''bn2'') (bt_bn2 c) y4 sd = (Inr y5, sd)" "tshape y5 = s5" "tensor_wf y5"
    by (rule eval_step [OF y4(3) oks(4)]) (use y4(2) f5 in simp_all)
  have r5: "tensor_wf (relu_eval y5)" "layer_forward False (bt_conv3 c) (tshape (relu_eval y5)) = Inr s7"
    using y5 f7 by simp_all
  obtain y7 where y7: "layer_eval False (pkey q ''conv3'') (bt_conv3 c) (relu_eval y5) sd = (Inr y7, sd)"
    "tshape y7 = s7" "tensor_wf y7"
    by (rule eval_step [OF r5(1) oks(5) r5(2)])
  have "s7 = tshape x" using batch_norm_forward_same [OF f8] by simp
  then have y8: "layer_eval False (pkey q ''bn3'') (BatchNorm2d n) y7 sd = (Inr (tensor_of (tshape x) (\<lambda>_. 0)), sd)"
    using batch_norm_eval_zero_affine [OF z(4) oks(6)] f8 y7(2) by simp
  show ?thesis using y1(1) y2(1) y4(1) y5(1) y7(1) y8 z x
    by (simp add: sbind_apply shortcut_eval_def tensor_add_zero)
qed

lemma block_zero_residual:
  assumes "zero_residual sd q b" "state_ok (param_shapes sd) (block_state q b)" "tensor_wf x"
    "block_forward_bound False b (tshape x) = Inr (tshape x)"
  shows "block_eval_bound False q b x sd = (Inr (relu_eval x), sd)"
proof (cases b)
  case (Basic c)
  then obtain n where "bb_nb2 c = BatchNorm2d n" using assms(1) by (auto dest: is_norm_BatchNorm2d)
  then show ?thesis using assms unfolding Basic by (intro basic_zero_residual) simp_all
next
  case (Bottle c)
  then obtain n where "bt_bn3 c = BatchNorm2d n" using assms(1) by (auto dest: is_norm_BatchNorm2d)
  then show ?thesis using assms unfolding Bottle by (intro bottleneck_zero_residual) simp_all
qed

text \<open>
  C26: in evaluation mode, a stage whose blocks have no shortcut projection and whose
  last normalisation has zero weight and bias computes exactly the activation
  \<open>relu(x)\<close> of its input, and changes nothing in the state: each block's residual
  branch adds zero to the identity. On the non-negative tensors a ReLU produces
  (\<open>relu_eval_nonneg\<close>) such a stage is the identity.
\<close>

theorem stage_eval_zero_residual:
  assumes "bs \<noteq> []" "stage_zero_residual sd p i bs" "state_ok (param_shapes sd) (stage_state p i bs)"
    "tensor_wf x" "list_all (\<lambda>b. block_forward_bound False b (tshape x) = Inr (tshape x)) bs"
  shows "stage_eval block_eval_bound False p i bs x sd = (Inr (relu_eval x), sd)"
  using assms
proof (induction bs arbitrary: i x)
  case (Cons b bs)
  have blk: "block_eval_bound False (pkey p (nat_str i)) b x sd = (Inr (relu_eval x), sd)"
    using Cons.prems by (intro block_zero_residual) simp_all
  show ?case
  proof (cases "bs = []")
    case True
    then show ?thesis using blk by (simp add: sbind_apply)
  next
    case False
    have "stage_eval block_eval_bound False p (Suc i) bs (relu_eval x) sd = (Inr (relu_eval (relu_eval x)), sd)"
      using Cons.prems False by (intro Cons.IH) simp_all
    then show ?thesis using blk by (simp add: sbind_apply)
  qed
qed simp

theorem stage_eval_zero_residual_witness:
  "stage_eval block_eval_bound False ''conv2_'' 0
     [block_new_spec BasicBlockK 1 1 1 None, block_new_spec BasicBlockK 1 1 1 None]
     \<lparr>tshape = [1, 1, 2, 2], tdata = [1, -2, 3, 4]\<rparr>
     (zero_state (stage_state ''conv2_'' 0 [block_new_spec BasicBlockK 1 1 1 None, block_new_spec BasicBlockK 1 1 1 None]))
   = (Inr \<lparr>tshape = [1, 1, 2, 2], tdata = [1, 0, 3, 4]\<rparr>,
      zero_state (stage_state ''conv2_'' 0 [block_new_spec BasicBlockK 1 1 1 None, block_new_spec BasicBlockK 1 1 1 None]))"
proof -
  let ?bs = "[block_new_spec BasicBlockK 1 1 1 None, block_new_spec BasicBlockK 1 1 1 None]"
  let ?sd = "zero_state (stage_state ''conv2_'' 0 ?bs)"
  let ?x = "\<lparr>tshape = [1, 1, 2, 2], tdata = [1, -2, 3, 4 :: real]\<rparr>"
  have ok: "state_ok (param_shapes ?sd) (stage_state ''conv2_'' 0 ?bs)"
    by (rule zero_state_ok) (simp add: basic_block_init_spec_def conv3x3_def pkey_def nat_str_0 nat_str_1)
  have z: "stage_zero_residual ?sd ''conv2_'' 0 ?bs"
    by (simp add: zero_state_def basic_block_init_spec_def conv3x3_def pkey_def nat_str_0 nat_str_1
        zero_affine_def tensor_of_def tensor_wf_def)
  have f: "list_all (\<lambda>b. block_forward_bound False b (tshape ?x) = Inr (tshape ?x)) ?bs"
    by (simp add: basic_block_init_spec_def basic_block_forward_bound_def conv3x3_def conv2d_forward_def
        out_dim_def batch_norm_forward_def shortcut_forward_def add_inplace_def broadcastable_to_def)
  have "stage_eval block_eval_bound False ''conv2_'' 0 ?bs ?x ?sd = (Inr (relu_eval ?x), ?sd)"
    by (rule stage_eval_zero_residual [OF _ z ok _ f]) (simp_all add: tensor_wf_def)
  then show ?thesis by (simp add: relu_eval_def)
qed

end
