(* ===== verification/Spec2Isabelle.thy ===== *)
theory Spec2Isabelle
  imports Typing Printing Dataflow
begin

text \<open>
  \<^bold>\<open>A verification development for DaeunYang/Resnet-Study.\<close>

  The repository is one Python script, src/resnet-study.py, that defines the ResNet
  family (ResNet-18/34/50/101/152) on top of PyTorch's layer classes, and runs a few
  inline tests that build models. Its parts and how they interact:
  \<^item> the helpers \<open>conv3x3\<close> and \<open>conv1x1\<close> (lines 4--8), which build
    \<open>nn.Conv2d\<close> layers;
  \<^item> the residual blocks \<open>BasicBlock\<close> (lines 10--41) and \<open>Bottleneck\<close>
    (lines 43--81), each an \<open>nn.Module\<close> whose \<open>__init__\<close> registers its
    layers and whose \<open>forward\<close> runs them and adds the (projected) input;
  \<^item> the container \<open>ResNet\<close> (lines 87--164): \<open>__init__\<close> builds a stem, four
    stages through \<open>_make_layers\<close> (lines 122--146), which threads the mutable
    channel tally \<open>self.inplanes\<close> from stage to stage, and a classifier head;
    \<open>forward\<close> runs stem, stages and head in sequence;
  \<^item> the presets \<open>ResNet18\<close> ... \<open>ResNet152\<close> (lines 170--183) and the
    top-level test statements (lines 83--86, 166--168, 185--187).

  \<^bold>\<open>What is modelled.\<close> The program is modelled twice, at two levels that are
  proved to agree. In the shape model (theories \<open>Layers\<close> to \<open>Typing\<close>) a tensor is
  its shape (\<open>nat list\<close>); in the value model (theories \<open>Tensor\<close> and
  \<open>Dataflow\<close>) a tensor is its shape and its entries, reals in row-major order, and
  the parameters and buffers of the layers are the entries of the model's
  \<open>state_dict\<close>. Every Python exception is a value of the datatype \<open>error\<close>, and
  everything that can raise returns \<open>'a result\<close> (\<open>error + 'a\<close>); \<open>rbind\<close>
  sequences statements, and \<open>sbind\<close> sequences statements that also read and update
  the state dictionary, an exception keeping the updates made before it.
  \<^item> Theory \<open>Prelude\<close>: the error and result types, \<open>rbind\<close>, Python indexing
    \<open>py_index\<close>, and the arithmetic of rounded-up halving (\<open>half_up\<close>).
  \<^item> Theory \<open>Layers\<close>: the PyTorch primitives as a datatype \<open>layer\<close>, with the
    shape contract of each forward, the exceptions in PyTorch's order of checks
    (\<open>conv2d_forward\<close>, \<open>batch_norm_forward\<close> with its training-mode batch check,
    \<open>max_pool2d_forward\<close>, \<open>adaptive_avg_pool2d_forward\<close>, \<open>linear_forward\<close>,
    \<open>flatten\<close>, the broadcasting in-place addition \<open>add_inplace\<close>, \<open>nn.Sequential\<close>
    as \<open>seq_forward\<close>); and the script's \<open>conv3x3\<close>, \<open>conv1x1\<close>.
    These primitives are library code, modelled from PyTorch's documented shape
    contracts (spec section 6). So is the submodule table of \<open>nn.Module\<close>
    (\<open>module_setattr\<close>, \<open>module_getattr\<close> on the ordered dictionary
    \<open>_modules\<close>), from which a BasicBlock's attributes are built.
  \<^item> Theory \<open>Blocks\<close>: \<open>BasicBlock\<close> and \<open>Bottleneck\<close> as records of their
    attributes (\<open>basic_block\<close>, \<open>bottleneck\<close>), their constructors as written
    (\<open>basic_block_init\<close>, \<open>bottleneck_init\<close>, dispatched by \<open>block_new\<close> on the
    class \<open>block_kind\<close>), their forwards as written (\<open>basic_block_forward\<close>, with
    Python's attribute lookup \<open>basic_getattr\<close>; \<open>bottleneck_forward\<close>, with the
    global-name lookup \<open>global_call\<close> in the script's scope \<open>script_genv\<close>), and the
    versions the spec describes (\<open>*_init_spec\<close> apply the stride,
    \<open>*_forward_bound\<close> use the block's own layers), with the block invariant
    \<open>block_wf\<close> of spec section 3.
  \<^item> Theory \<open>Stages\<close>: \<open>_make_layers\<close> as \<open>make_layers\<close>, the tally
    \<open>self.inplanes\<close> passed in and returned; the spec's builder \<open>make_layers_spec\<close>
    (4.3); both share the shortcut decision \<open>downsample_for\<close> (lines 124--130);
    and a stage's forward \<open>stage_forward\<close>, over the semantics of one block.
  \<^item> Theory \<open>Model\<close>: the \<open>ResNet\<close> object as the record \<open>resnet\<close>,
    \<open>__init__\<close> as \<open>resnet_init_with\<close> over its stage builder (\<open>resnet_init\<close> as
    written, \<open>resnet_init_spec\<close> per spec), \<open>forward\<close> as \<open>resnet_forward_with\<close>
    over the block semantics (\<open>resnet_forward\<close> as written,
    \<open>resnet_forward_spec\<close> per spec), the presets, the top-level \<open>script\<close>, and
    the depth count of a model.
  \<^item> Theory \<open>Typing\<close>: the construction-time check spec section 7 requires and the
    script lacks (\<open>resnet_validate\<close>, stage by stage with \<open>check_blocks\<close>,
    failing with \<open>ConfigError stage index\<close>), over a shape typing of layers
    (\<open>layer_ty\<close>: output width and spatial stride), layer sequences
    (\<open>seq_ty\<close>) and blocks (\<open>block_ty\<close>: main path and shortcut agree).
  \<^item> Theory \<open>Printing\<close>: what the bare expressions \<open>myneck\<close>, \<open>mynet50\<close>,
    \<open>mynet101\<close> (lines 85, 168, 187) display: \<open>Module.__repr__\<close> as
    \<open>mtree_repr\<close> over the tree of submodules in registration order
    (\<open>basic_block_tree\<close>, \<open>bottleneck_tree\<close>, \<open>resnet_tree\<close>, \<open>seq_tree\<close>),
    each layer's \<open>extra_repr()\<close> (\<open>layer_tree\<close>), \<open>_addindent\<close> as
    \<open>add_indent\<close>, and Python's \<open>str\<close> of an int as \<open>nat_str\<close>.
  \<^item> Theory \<open>Tensor\<close>: tensor values (\<open>tensor\<close>, with the row-major layout
    \<open>indices\<close>, \<open>offset\<close>, \<open>tensor_of\<close>, \<open>tget\<close>), the state dictionary and
    the computations on it (\<open>'a exec\<close>, \<open>sret\<close>, \<open>sbind\<close>), and the numeric
    forward of each primitive: \<open>conv2d_eval\<close> (zero padding, bias),
    \<open>batch_norm_eval\<close> (batch statistics and running-statistics update in training
    mode, running statistics in evaluation mode, \<open>eps = 1e-5\<close>,
    \<open>momentum = 0.1\<close>), \<open>max_pool2d_eval\<close>, \<open>adaptive_avg_pool2d_eval\<close>,
    \<open>linear_eval\<close>, \<open>relu_eval\<close>, \<open>tensor_add\<close> (broadcasting),
    \<open>tensor_flatten\<close>, dispatched by \<open>layer_eval\<close> on the module at a dotted
    name, and \<open>seq_eval\<close>; \<open>layer_state\<close> lists the entries each layer registers.
    Each forward first runs the shape contract of \<open>Layers\<close>, so it raises what the
    shape model raises, in the same order.
  \<^item> Theory \<open>Dataflow\<close>: the blocks' forwards over values as written
    (\<open>basic_block_eval\<close> through \<open>basic_getattr\<close>, \<open>bottleneck_eval\<close> through
    the global scope) and bound to the blocks' submodules (\<open>block_eval_bound\<close>,
    the spec's version),
    \<open>stage_eval\<close>, \<open>ResNet.forward\<close> as \<open>resnet_eval_with\<close>, and the entries
    the constructors register (\<open>block_state\<close>, \<open>stage_state\<close>,
    \<open>resnet_state\<close>, in registration order).
  The forward functions take the module's \<open>training\<close> flag as a bool: a model
  built by the script is in training mode, where batch normalisation refuses a batch
  with one value per channel.

  \<^bold>\<open>What is shown.\<close>
  \<^item> The spec's model computes the spec's contract (C1): every model built by the
    spec's builder maps \<open>[N, 3, H, W]\<close> to \<open>[N, num_classes]\<close>, for all
    \<open>H, W \<ge> 1\<close>, provided the last batch normalisation sees more than one value per
    channel in training mode. The proof goes through the stem, one exact lemma per
    stage (\<open>make_layers_spec_forward_exact\<close>, from the block invariant and
    \<open>block_forward_bound_exact\<close>) and the head, with the spatial size halved five
    times to \<open>\<lceil>H/32\<rceil>\<close>; the whole pass is \<open>resnet_spec_forward_exact\<close>.
  \<^item> The script as written never completes a forward pass (C2, C3): a BasicBlock
    network raises \<open>AttributeError: bn2\<close> and a Bottleneck network
    \<open>NameError: conv1\<close> in the first block (C6, C7); the Bottleneck's defect is
    exactly its unbound names (C8).
  \<^item> The stage builder as written drops the shortcut projection it computes (C4) and
    builds one block for a repeat count \<open>\<le> 1\<close> (C5); construction fails only on
    fewer than four repeat counts or a negative class count (C10, C11).
  \<^item> Exactly when the spec's model raises: \<open>ValueError\<close> iff, in training mode,
    the last stage's output holds one value per channel (C17 with C1, both from
    \<open>resnet_spec_forward_exact\<close>, built on exact per-block and per-stage lemmas);
    in evaluation mode it accepts exactly the images of height and width at least 1
    (C24).
  \<^item> The 3x3 convolution and the 1x1 projection agree on all input shapes (C9).
  \<^item> Stages (theory \<open>Stages\<close>): the builder as written is the spec's builder with
    the stride of each strided convolution reset to 1 and the shortcut erased (C12, a
    functional refinement through \<open>erase_block\<close>), so every block it builds has
    stride 1 (C14); the tally \<open>self.inplanes\<close> is threaded correctly through a
    stage (C13).
  \<^item> The dropped shortcut is fatal on its own: even with both forward methods
    repaired, every model the script builds raises on every input (C15).
  \<^item> The depth of a model built with any four repeat counts (C16).
  \<^item> The model invariant \<open>resnet_wf\<close> (theory \<open>Model\<close>; stages as \<open>stage_wf\<close>
    in \<open>Stages\<close>): the spec's construction establishes it (C18); the construction as
    written violates it for every configuration without raising, where spec section 7
    asks for a construction-time error (C19). The stem refuses unbatched and non-RGB
    input for every model built by either construction (C20).
  \<^item> The construction-time check (theory \<open>Typing\<close>) is sound: any model that passes
    it, built by a constructor or not, maps every \<open>[n, 3, h, w]\<close> with
    \<open>h, w \<ge> 1\<close> to \<open>[n, k]\<close>, raising at most the training-mode single-value
    error (C21, proved layer by layer, block by block and stage by stage from
    \<open>layer_ty_sound\<close>, \<open>block_ty_sound\<close>, \<open>check_blocks_sound\<close>); the spec's
    construction passes it (C22); the construction as written fails it at block 0 of
    \<open>conv3_\<close> (BasicBlock) or \<open>conv2_\<close> (Bottleneck) (C23).
  \<^item> The value model refines the shape model layer by layer
    (\<open>layer_eval_refines\<close>, \<open>seq_eval_refines\<close>): from a state dictionary holding
    the registered entries with their shapes, each numeric forward raises exactly the
    exception the shape model predicts or returns a well-formed tensor of exactly the
    predicted shape, keeping the shapes of the state dictionary.
  \<^item> The BasicBlock forward as written, in training mode, raises at \<open>self.bn2\<close>
    only after \<open>self.bn1\<close> has added 1 to its batch counter and moved
    \<open>running_mean\<close> a step of 0.1 towards the batch mean of the output of
    \<open>conv1\<close> (C25): the failing forward of C2 is not free of effects.
  \<^item> A stage of residual blocks without shortcut whose last normalisation has zero
    weight and bias computes, in evaluation mode, exactly \<open>relu(x)\<close>, the identity
    on non-negative input (C26): the residual branch contributes nothing and the
    identity path carries the input through.
  \<^item> Printing (theory \<open>Printing\<close>): an \<open>nn.Sequential\<close> prints its modules
    under the distinct indices \<open>0, 1, ...\<close> (\<open>seq_tree_indices\<close>), which read
    back as their positions by the round trip of numerals
    (\<open>nat_str_roundtrip\<close>: canonical numerals and naturals correspond one to one);
    \<open>_addindent\<close> equals a character-wise reference (\<open>add_indent_eq_indent_lines\<close>).

  \<^bold>\<open>Not modelled.\<close> Floating-point rounding: the value model computes in real
  arithmetic, so it shows what the layers compute, not the rounding errors of
  \<open>float32\<close> (an empty batch, where PyTorch's statistics are NaN, divides by zero
  in the reals and gives 0). Weight initialisation: \<open>nn.Conv2d\<close> and
  \<open>nn.Linear\<close> draw their weights at random, so the parameter values are an input of
  every theorem (the state dictionary), constrained only by their shapes; autograd,
  devices and the optimiser (no training step is in the script). The \<open>nn.Module\<close>
  machinery beyond attribute lookup, the training flag, \<open>state_dict\<close> entries and
  printing; the printout of a layer option the script never sets; dilation, groups
  and ceil mode, which the script never sets. The parameters are assumed to have the
  shapes their modules register (the hypothesis \<open>state_ok\<close> of C25 and C26):
  PyTorch's own check of a weight's shape at the call is not modelled. The only loop
  of the script, over a Python \<open>range\<close>, is modelled as a \<open>map\<close>
  (\<open>make_layers\<close>); every function of the model is total by construction (structural recursion, and the decimal printer \<open>nat_str\<close> by a
  measure), so no fuel is needed. The script has no reactive behaviour, so there is
  no liveness property to state. Machine integers do not occur: shapes and counts are
  Python ints (\<open>nat\<close>, \<open>int\<close>).

  \<^bold>\<open>Further work.\<close> A per-stage shape table for the presets; the printout of a
  whole preset evaluated as a regression check of the display; the values of a
  whole forward pass of a small model evaluated against a reference.
\<close>

section \<open>Properties spanning the components\<close>

text \<open>
  The forward pass of the spec's model, exactly: it returns logits of shape
  \<open>[n, num_classes]\<close> unless, in training mode, the output of the last stage holds a
  single value per channel. Every earlier normalisation sees a feature map at least
  as large as that output (\<open>bn_ok_mono\<close>), so the one condition on the output
  decides every batch normalisation of the network.
\<close>

lemma resnet_spec_forward_exact:
  assumes init: "resnet_init_spec block layers num_classes = Inr net" and "0 < h" "0 < w"
  shows "resnet_forward_spec t net [n, 3, h, w] =
    (if t \<and> n * ((h + 31) div 32) * ((w + 31) div 32) = 1 then Inl bn_single_error
     else Inr [n, nat num_classes])"
proof -
  let ?e = "expansion block"
  let ?h1 = "half_up h" and ?w1 = "half_up w"
  let ?h2 = "half_up ?h1" and ?w2 = "half_up ?w1"
  let ?h3 = "half_up ?h2" and ?w3 = "half_up ?w2"
  let ?h4 = "half_up ?h3" and ?w4 = "half_up ?w3"
  let ?h5 = "half_up ?h4" and ?w5 = "half_up ?w4"
  have final: "?h5 = (h + 31) div 32" "?w5 = (w + 31) div 32"
    using assms(2,3) half_up_5 by simp_all
  have step: "\<not> (t \<and> n * half_up a * half_up b = 1) \<Longrightarrow> \<not> (t \<and> n * a * b = 1)"
    if "0 < a" "0 < b" for a b
    using bn_ok_mono [of t n "half_up a" "half_up b" a b] that half_up_le by simp
  have stem: "layer_forward t stem_conv [n, 3, h, w] = Inr [n, 64, ?h1, ?w1]"
    "layer_forward t (MaxPool2d 3 2 1) [n, 64, ?h1, ?w1] = Inr [n, 64, ?h2, ?w2]"
    using stem_conv_forward [of h w t n] maxpool_forward [of 64 ?h1 ?w1 t n] assms(2,3) by simp_all
  have bn: "layer_forward t (BatchNorm2d 64) [n, 64, ?h1, ?w1] =
      (if t \<and> n * ?h1 * ?w1 = 1 then Inl bn_single_error else Inr [n, 64, ?h1, ?w1])"
    by (rule batch_norm_forward_exact)
  note stages = resnet_init_spec_stages_exact [OF init, where h = ?h2 and w = ?w2, simplified]
  have head: "layer_forward t (AdaptiveAvgPool2d (1, 1)) [n, 512 * ?e, ?h5, ?w5] = Inr [n, 512 * ?e, 1, 1]"
    using avgpool_forward [of "512 * ?e" ?h5 ?w5 t n] by (cases block) simp_all
  have fields: "conv1 net = stem_conv \<and> bn1 net = BatchNorm2d 64 \<and> relu net = ReLU \<and>
    maxpool net = MaxPool2d 3 2 1 \<and> fc net = Linear (512 * ?e) (nat num_classes) \<and>
    avgpool net = AdaptiveAvgPool2d (1, 1)"
    using init unfolding resnet_init_spec_def by (rule resnet_init_with_fields)
  have "resnet_forward_spec t net [n, 3, h, w] =
    (if t \<and> n * ?h5 * ?w5 = 1 then Inl bn_single_error else Inr [n, nat num_classes])"
  proof (cases "t \<and> n * ?h5 * ?w5 = 1")
    case True
    then show ?thesis
      unfolding resnet_forward_spec_def resnet_forward_with_def using fields stem bn stages by simp
  next
    case False
    then have "\<not> (t \<and> n * ?h4 * ?w4 = 1)" using step [of ?h4 ?w4] by simp
    then have "\<not> (t \<and> n * ?h3 * ?w3 = 1)" using step [of ?h3 ?w3] by simp
    then have "\<not> (t \<and> n * ?h2 * ?w2 = 1)" using step [of ?h2 ?w2] by simp
    then have "\<not> (t \<and> n * ?h1 * ?w1 = 1)" using step [of ?h1 ?w1] by simp
    then show ?thesis
      unfolding resnet_forward_spec_def resnet_forward_with_def
      using False \<open>\<not> (t \<and> n * ?h4 * ?w4 = 1)\<close> \<open>\<not> (t \<and> n * ?h3 * ?w3 = 1)\<close>
        \<open>\<not> (t \<and> n * ?h2 * ?w2 = 1)\<close> fields stem bn stages head
      by (simp add: shape_simps flatten_def linear_forward_def)
  qed
  with final show ?thesis by simp
qed

text \<open>
  C1: a model built by the spec's construction maps every batched RGB input
  \<open>[n, 3, h, w]\<close> with \<open>h, w \<ge> 1\<close> to logits of shape \<open>[n, num_classes]\<close>,
  unless in training mode the final feature map holds a single value per channel
  (\<open>n * \<lceil>h/32\<rceil> * \<lceil>w/32\<rceil> = 1\<close>).
\<close>

theorem resnet_spec_forward_shape:
  assumes "resnet_init_spec block layers num_classes = Inr net" "0 < h" "0 < w"
    and "\<not> (t \<and> n * ((h + 31) div 32) * ((w + 31) div 32) = 1)"
  shows "resnet_forward_spec t net [n, 3, h, w] = Inr [n, nat num_classes]"
  using resnet_spec_forward_exact [OF assms(1-3)] assms(4) by simp

theorem resnet_spec_forward_shape_witness:
  "rbind (resnet_init_spec BottleneckK [3, 4, 6, 3] 1000)
     (\<lambda>net. resnet_forward_spec True net [1, 3, 224, 224]) = Inr [1, 1000]"
proof -
  obtain net where net: "resnet_init_spec BottleneckK [3, 4, 6, 3] 1000 = Inr net"
    by (simp add: resnet_init_spec_def resnet_init_with_def split_def linear_new_def)
  have "resnet_forward_spec True net [1, 3, 224, 224] = Inr [1, nat 1000]"
    using resnet_spec_forward_shape [OF net] by simp
  with net show ?thesis by simp
qed

text \<open>
  C17: the converse of C1. In training mode, when the output of the last stage holds
  a single value per channel (\<open>n * \<lceil>h/32\<rceil> * \<lceil>w/32\<rceil> = 1\<close>, i.e. one
  image of at most 32 by 32 pixels), the spec's model raises batch normalisation's
  \<open>ValueError\<close> instead of returning logits: the contract of spec section 4.4 cannot
  hold for such inputs in training mode.
\<close>

theorem resnet_spec_forward_single_value:
  assumes "resnet_init_spec block layers num_classes = Inr net" "0 < h" "0 < w"
    and "t" "n * ((h + 31) div 32) * ((w + 31) div 32) = 1"
  shows "resnet_forward_spec t net [n, 3, h, w]
           = Inl (ValueError ''Expected more than 1 value per channel when training'')"
  using resnet_spec_forward_exact [OF assms(1-3)] assms(4,5) by simp

theorem resnet_spec_forward_single_value_witness:
  "rbind (resnet_init_spec BottleneckK [3, 4, 6, 3] 1000) (\<lambda>net. resnet_forward_spec True net [1, 3, 20, 17])
     = Inl (ValueError ''Expected more than 1 value per channel when training'')"
proof -
  obtain net where net: "resnet_init_spec BottleneckK [3, 4, 6, 3] 1000 = Inr net"
    by (simp add: resnet_init_spec_def resnet_init_with_def split_def linear_new_def)
  have "resnet_forward_spec True net [1, 3, 20, 17]
          = Inl (ValueError ''Expected more than 1 value per channel when training'')"
    using resnet_spec_forward_single_value [OF net] by simp
  with net show ?thesis by simp
qed

text \<open>
  C24: the exact input domain of the spec's model: in evaluation mode it returns logits
  of shape \<open>[n, num_classes]\<close> for an \<open>[n, 3, h, w]\<close> input exactly when
  \<open>h \<ge> 1\<close> and \<open>w \<ge> 1\<close>. The lower bound is tight: the 7x7 stem convolution with
  padding 3 refuses an image of height or width 0 (kernel larger than the padded
  input) and accepts a 1x1 image, which every later layer keeps at least 1x1.
\<close>

theorem resnet_spec_forward_domain:
  assumes "resnet_init_spec block layers num_classes = Inr net"
  shows "resnet_forward_spec False net [n, 3, h, w] = Inr [n, nat num_classes] \<longleftrightarrow> 0 < h \<and> 0 < w"
proof
  assume ok: "resnet_forward_spec False net [n, 3, h, w] = Inr [n, nat num_classes]"
  show "0 < h \<and> 0 < w"
  proof (rule ccontr)
    assume "\<not> (0 < h \<and> 0 < w)"
    then have "h = 0 \<or> w = 0" by simp
    with assms have "resnet_forward_spec False net [n, 3, h, w]
        = Inl (RuntimeError ''Kernel size cannot be greater than actual input size'')"
      unfolding resnet_forward_spec_def resnet_init_spec_def by (rule resnet_forward_with_empty_image)
    with ok show False by simp
  qed
next
  assume "0 < h \<and> 0 < w"
  with resnet_spec_forward_exact [OF assms] show "resnet_forward_spec False net [n, 3, h, w] = Inr [n, nat num_classes]"
    by simp
qed

theorem resnet_spec_forward_domain_witness:
  "rbind (resnet_init_spec BasicBlockK [2, 2, 2, 2] 10) (\<lambda>net. resnet_forward_spec False net [4, 3, 1, 1])
     = Inr [4, 10] \<and>
   rbind (resnet_init_spec BasicBlockK [2, 2, 2, 2] 10) (\<lambda>net. resnet_forward_spec False net [4, 3, 0, 9])
     \<noteq> Inr [4, 10]"
proof -
  obtain net where net: "resnet_init_spec BasicBlockK [2, 2, 2, 2] 10 = Inr net"
    by (simp add: resnet_init_spec_def resnet_init_with_def split_def linear_new_def)
  have "resnet_forward_spec False net [4, 3, 1, 1] = Inr [4, nat 10]"
    using resnet_spec_forward_domain [OF net, of 4 1 1] by simp
  moreover have "resnet_forward_spec False net [4, 3, 0, 9] \<noteq> Inr [4, nat 10]"
    using resnet_spec_forward_domain [OF net, of 4 0 9] by simp
  ultimately show ?thesis using net by simp
qed




text \<open>
  C15: the dropped shortcut is fatal on its own. Even with both forward methods
  repaired (every block run by the forward bound to its own layers), a model built by
  the script's \<open>ResNet.__init__\<close> raises on every input: a Bottleneck network
  in the first block of \<open>conv2_\<close> (64 input channels, 256 output channels, no
  projection), a BasicBlock network in the first block of \<open>conv3_\<close> (64 against 128).
\<close>

theorem repaired_forward_still_raises:
  assumes init: "resnet_init block layers num_classes = Inr net"
  shows "is_error (resnet_forward_spec t net x)"
proof (cases block)
  case BasicBlockK
  have "\<And>y. is_error (stage_forward block_forward_bound t (conv3_x net) y)"
    using resnet_init_stages [OF init] BasicBlockK
      block_no_shortcut_error [of 64 128 BasicBlockK t 2]
    by (simp add: make_layers_eq is_error_rbind_first)
  then show ?thesis unfolding resnet_forward_spec_def by (rule resnet_forward_with_conv3_error)
next
  case BottleneckK
  have "\<And>y. is_error (stage_forward block_forward_bound t (conv2_x net) y)"
    using resnet_init_stages [OF init] BottleneckK
      block_no_shortcut_error [of 64 64 BottleneckK t 1]
    by (simp add: make_layers_eq is_error_rbind_first)
  then show ?thesis unfolding resnet_forward_spec_def by (rule resnet_forward_with_conv2_error)
qed

theorem repaired_forward_still_raises_witness:
  "is_error (rbind ResNet18 (\<lambda>net. resnet_forward_spec True net [1, 3, 224, 224]))"
proof -
  obtain net where net: "ResNet18 = Inr net"
    by (simp add: ResNet18_def resnet_init_def resnet_init_with_def split_def linear_new_def)
  then have init: "resnet_init BasicBlockK [2, 2, 2, 2] 1000 = Inr net" by (simp add: ResNet18_def)
  have "is_error (resnet_forward_spec True net [1, 3, 224, 224])"
    using init by (rule repaired_forward_still_raises)
  then show ?thesis unfolding net by simp
qed

end
